theory Spec2Isabelle
  imports Complex_Main "HOL-Library.Char_ord" "HOL-Library.List_Lexorder" "HOL-Library.Sublist"
begin

section \<open>JavaScript values\<close>

text \<open>
  A JavaScript expression that reads a field yields \<open>undefined\<close> when the field is
  missing, \<open>null\<close> when it holds null, and a value otherwise.  Numbers are modelled as
  rationals: the payloads and database rows this program reads are JSON, so they carry
  neither NaN nor an infinity, and the model computes on them exactly.  The program
  computes in IEEE doubles; sums of tier points are small integers and exact there too,
  while a quotient such as the buy ratio is rounded, monotonically, to the nearest double.
\<close>

datatype 'a jsval = Undefined | Null | Val 'a

section \<open>Deduplication cache (src/utils/dedupe.js)\<close>

text \<open>
  A JavaScript \<open>Map\<close> iterates its entries in insertion order, and the cache relies on it:
  the first entry is the least recently used one.  The map is therefore an association
  list, oldest entry first.  \<open>set\<close> on a key that is present keeps its position, \<open>set\<close> on
  a new key appends, \<open>delete\<close> removes the entry.
\<close>

type_synonym ('k, 'v) jsmap = "('k \<times> 'v) list"

definition map_has :: "('k, 'v) jsmap \<Rightarrow> 'k \<Rightarrow> bool" where
  "map_has m k = (k \<in> set (map fst m))"

definition map_get :: "('k, 'v) jsmap \<Rightarrow> 'k \<Rightarrow> 'v option" where
  "map_get m k = map_of m k"

definition map_delete :: "('k, 'v) jsmap \<Rightarrow> 'k \<Rightarrow> ('k, 'v) jsmap" where
  "map_delete m k = filter (\<lambda>e. fst e \<noteq> k) m"

fun map_set :: "('k, 'v) jsmap \<Rightarrow> 'k \<Rightarrow> 'v \<Rightarrow> ('k, 'v) jsmap" where
  "map_set [] k v = [(k, v)]"
| "map_set (e # m) k v = (if fst e = k then (k, v) # m else e # map_set m k v)"

definition map_keys :: "('k, 'v) jsmap \<Rightarrow> 'k list" where
  "map_keys m = map fst m"

definition map_size :: "('k, 'v) jsmap \<Rightarrow> nat" where
  "map_size m = length m"

record 'k LRUCache =
  maxSize :: nat
  cache :: "('k, bool) jsmap"

text \<open>\<open>new LRUCache(maxSize)\<close>: an empty map.\<close>

definition new_LRUCache :: "nat \<Rightarrow> 'k LRUCache" where
  "new_LRUCache n = \<lparr>maxSize = n, cache = []\<rparr>"

text \<open>
  \<open>has(key)\<close>: false on an absent key; on a present key the entry is deleted and set
  again, which moves it to the end of the map, and the answer is true.
\<close>

definition LRUCache_has :: "'k LRUCache \<Rightarrow> 'k \<Rightarrow> bool \<times> 'k LRUCache" where
  "LRUCache_has c key =
     (if \<not> map_has (cache c) key then (False, c)
      else (case map_get (cache c) key of
              None \<Rightarrow> (False, c)
            | Some v \<Rightarrow> (True, c\<lparr>cache := map_set (map_delete (cache c) key) key v\<rparr>)))"

text \<open>
  \<open>add(key, value)\<close>: a present key is deleted first; otherwise, when the map is at or
  over \<open>maxSize\<close>, its first key is deleted (on an empty map \<open>keys().next().value\<close> is
  undefined and the delete removes nothing).  Then the key is set, at the end.
\<close>

definition LRUCache_add :: "'k LRUCache \<Rightarrow> 'k \<Rightarrow> bool \<Rightarrow> 'k LRUCache" where
  "LRUCache_add c key v =
     (let m = (if map_has (cache c) key then map_delete (cache c) key
               else if map_size (cache c) \<ge> maxSize c then
                 (case map_keys (cache c) of
                    [] \<Rightarrow> cache c
                  | firstKey # _ \<Rightarrow> map_delete (cache c) firstKey)
               else cache c)
      in c\<lparr>cache := map_set m key v\<rparr>)"

text \<open>The module keeps one cache per key space; signatures get the largest.\<close>

definition signatureCache :: "string LRUCache" where
  "signatureCache = new_LRUCache 50000"

definition mintCache :: "string LRUCache" where
  "mintCache = new_LRUCache 10000"

definition eventCache :: "string LRUCache" where
  "eventCache = new_LRUCache 20000"

text \<open>
  The exported functions act on the module's cache, which is passed in and returned.
  \<open>markSignatureSeen\<close> uses the default value \<open>true\<close> of \<open>add\<close>.
\<close>

definition hasSeenSignature :: "'k LRUCache \<Rightarrow> 'k \<Rightarrow> bool \<times> 'k LRUCache" where
  "hasSeenSignature c signature = LRUCache_has c signature"

definition markSignatureSeen :: "'k LRUCache \<Rightarrow> 'k \<Rightarrow> 'k LRUCache" where
  "markSignatureSeen c signature = LRUCache_add c signature True"

definition checkAndMarkSignature :: "'k LRUCache \<Rightarrow> 'k \<Rightarrow> bool \<times> 'k LRUCache" where
  "checkAndMarkSignature c signature =
     (case LRUCache_has c signature of
        (True, c') \<Rightarrow> (False, c')
      | (False, c') \<Rightarrow> (True, LRUCache_add c' signature True))"

text \<open>
  A sequence of \<open>checkAndMarkSignature\<close> calls: the answers in call order, and the cache
  after the last call.
\<close>

fun checkAndMark_calls :: "'k LRUCache \<Rightarrow> 'k list \<Rightarrow> bool list \<times> 'k LRUCache" where
  "checkAndMark_calls c [] = ([], c)"
| "checkAndMark_calls c (k # ks) =
     (case checkAndMarkSignature c k of
        (r, c') \<Rightarrow> (case checkAndMark_calls c' ks of (rs, c'') \<Rightarrow> (r # rs, c'')))"

text \<open>The keys of a cache in eviction order: the next key to be evicted first.\<close>

definition eviction_order :: "'k LRUCache \<Rightarrow> 'k list" where
  "eviction_order c = map_keys (cache c)"

section \<open>Scoring rules (src/scoring/rules.js)\<close>

text \<open>
  A positive tier is \<open>{min, points, reason}\<close>, a penalty tier \<open>{min, penalty, reason}\<close>.
  Each table is an object literal; \<open>Object.values\<close> lists its tiers in the order they
  are written, which is the order of the lists below.
\<close>

record threshold =
  tier_min :: rat
  points :: int
  reason :: string

record penalty_tier =
  pen_min :: rat
  penalty :: int
  pen_reason :: string

definition LIQUIDITY_THRESHOLDS :: "threshold list" where
  "LIQUIDITY_THRESHOLDS =
    [\<lparr>tier_min = 50000, points = 25, reason = ''LIQ_50K_PLUS''\<rparr>,
     \<lparr>tier_min = 20000, points = 18, reason = ''LIQ_20K_PLUS''\<rparr>,
     \<lparr>tier_min = 10000, points = 12, reason = ''LIQ_10K_PLUS''\<rparr>,
     \<lparr>tier_min = 5000, points = 6, reason = ''LIQ_5K_PLUS''\<rparr>,
     \<lparr>tier_min = 0, points = 0, reason = ''LIQ_BELOW_5K''\<rparr>]"

definition UNIQUE_BUYERS_1M_THRESHOLDS :: "threshold list" where
  "UNIQUE_BUYERS_1M_THRESHOLDS =
    [\<lparr>tier_min = 20, points = 20, reason = ''BUYERS_1M_20_PLUS''\<rparr>,
     \<lparr>tier_min = 10, points = 14, reason = ''BUYERS_1M_10_PLUS''\<rparr>,
     \<lparr>tier_min = 5, points = 8, reason = ''BUYERS_1M_5_PLUS''\<rparr>,
     \<lparr>tier_min = 2, points = 4, reason = ''BUYERS_1M_2_PLUS''\<rparr>,
     \<lparr>tier_min = 0, points = 0, reason = ''BUYERS_1M_BELOW_2''\<rparr>]"

definition SWAPS_1M_THRESHOLDS :: "threshold list" where
  "SWAPS_1M_THRESHOLDS =
    [\<lparr>tier_min = 40, points = 15, reason = ''SWAPS_1M_40_PLUS''\<rparr>,
     \<lparr>tier_min = 20, points = 10, reason = ''SWAPS_1M_20_PLUS''\<rparr>,
     \<lparr>tier_min = 10, points = 6, reason = ''SWAPS_1M_10_PLUS''\<rparr>,
     \<lparr>tier_min = 5, points = 3, reason = ''SWAPS_1M_5_PLUS''\<rparr>,
     \<lparr>tier_min = 0, points = 0, reason = ''SWAPS_1M_BELOW_5''\<rparr>]"

definition VOLUME_1M_THRESHOLDS :: "threshold list" where
  "VOLUME_1M_THRESHOLDS =
    [\<lparr>tier_min = 50000, points = 10, reason = ''VOL_1M_50K_PLUS''\<rparr>,
     \<lparr>tier_min = 20000, points = 7, reason = ''VOL_1M_20K_PLUS''\<rparr>,
     \<lparr>tier_min = 10000, points = 4, reason = ''VOL_1M_10K_PLUS''\<rparr>,
     \<lparr>tier_min = 5000, points = 2, reason = ''VOL_1M_5K_PLUS''\<rparr>,
     \<lparr>tier_min = 0, points = 0, reason = ''VOL_1M_BELOW_5K''\<rparr>]"

definition HOLDER_COUNT_THRESHOLDS :: "threshold list" where
  "HOLDER_COUNT_THRESHOLDS =
    [\<lparr>tier_min = 200, points = 10, reason = ''HOLDERS_200_PLUS''\<rparr>,
     \<lparr>tier_min = 100, points = 7, reason = ''HOLDERS_100_PLUS''\<rparr>,
     \<lparr>tier_min = 50, points = 4, reason = ''HOLDERS_50_PLUS''\<rparr>,
     \<lparr>tier_min = 20, points = 2, reason = ''HOLDERS_20_PLUS''\<rparr>,
     \<lparr>tier_min = 0, points = 0, reason = ''HOLDERS_BELOW_20''\<rparr>]"

definition UNIQUE_BUYERS_5M_THRESHOLDS :: "threshold list" where
  "UNIQUE_BUYERS_5M_THRESHOLDS =
    [\<lparr>tier_min = 50, points = 10, reason = ''BUYERS_5M_50_PLUS''\<rparr>,
     \<lparr>tier_min = 30, points = 7, reason = ''BUYERS_5M_30_PLUS''\<rparr>,
     \<lparr>tier_min = 15, points = 4, reason = ''BUYERS_5M_15_PLUS''\<rparr>,
     \<lparr>tier_min = 5, points = 2, reason = ''BUYERS_5M_5_PLUS''\<rparr>,
     \<lparr>tier_min = 0, points = 0, reason = ''BUYERS_5M_BELOW_5''\<rparr>]"

definition BUY_PRESSURE_THRESHOLDS :: "threshold list" where
  "BUY_PRESSURE_THRESHOLDS =
    [\<lparr>tier_min = 7 / 10, points = 10, reason = ''BUY_PRESSURE_70_PCT''\<rparr>,
     \<lparr>tier_min = 6 / 10, points = 7, reason = ''BUY_PRESSURE_60_PCT''\<rparr>,
     \<lparr>tier_min = 5 / 10, points = 4, reason = ''BUY_PRESSURE_50_PCT''\<rparr>,
     \<lparr>tier_min = 4 / 10, points = 2, reason = ''BUY_PRESSURE_40_PCT''\<rparr>,
     \<lparr>tier_min = 0, points = 0, reason = ''SELL_PRESSURE''\<rparr>]"

definition TOP10_CONCENTRATION_PENALTIES :: "penalty_tier list" where
  "TOP10_CONCENTRATION_PENALTIES =
    [\<lparr>pen_min = 80, penalty = -25, pen_reason = ''TOP10_PCT_80_PLUS_PENALTY''\<rparr>,
     \<lparr>pen_min = 70, penalty = -18, pen_reason = ''TOP10_PCT_70_PLUS_PENALTY''\<rparr>,
     \<lparr>pen_min = 60, penalty = -10, pen_reason = ''TOP10_PCT_60_PLUS_PENALTY''\<rparr>,
     \<lparr>pen_min = 50, penalty = -5, pen_reason = ''TOP10_PCT_50_PLUS_PENALTY''\<rparr>,
     \<lparr>pen_min = 0, penalty = 0, pen_reason = ''TOP10_PCT_HEALTHY''\<rparr>]"

definition TOP1_CONCENTRATION_PENALTIES :: "penalty_tier list" where
  "TOP1_CONCENTRATION_PENALTIES =
    [\<lparr>pen_min = 50, penalty = -15, pen_reason = ''TOP1_PCT_50_PLUS_PENALTY''\<rparr>,
     \<lparr>pen_min = 30, penalty = -10, pen_reason = ''TOP1_PCT_30_PLUS_PENALTY''\<rparr>,
     \<lparr>pen_min = 20, penalty = -5, pen_reason = ''TOP1_PCT_20_PLUS_PENALTY''\<rparr>,
     \<lparr>pen_min = 0, penalty = 0, pen_reason = ''TOP1_PCT_HEALTHY''\<rparr>]"

text \<open>\<open>AUTHORITY_PENALTIES\<close>: \<open>{penalty, reason, flag}\<close> for each case.\<close>

record authority_penalty =
  auth_penalty :: int
  auth_reason :: string
  auth_flag :: string

definition MINT_AUTHORITY :: authority_penalty where
  "MINT_AUTHORITY = \<lparr>auth_penalty = -10, auth_reason = ''MINT_AUTHORITY_PRESENT'',
     auth_flag = ''MINT_AUTHORITY_RISK''\<rparr>"

definition FREEZE_AUTHORITY :: authority_penalty where
  "FREEZE_AUTHORITY = \<lparr>auth_penalty = -10, auth_reason = ''FREEZE_AUTHORITY_PRESENT'',
     auth_flag = ''FREEZE_AUTHORITY_RISK''\<rparr>"

definition BOTH_AUTHORITIES :: authority_penalty where
  "BOTH_AUTHORITIES = \<lparr>auth_penalty = -20, auth_reason = ''BOTH_AUTHORITIES_PRESENT'',
     auth_flag = ''FULL_AUTHORITY_RISK''\<rparr>"

text \<open>\<open>RISK_FLAGS\<close>: the threshold and the flag of each non-scoring warning.\<close>

definition LOW_LIQUIDITY_threshold :: rat where "LOW_LIQUIDITY_threshold = 5000"
definition NEW_TOKEN_thresholdMinutes :: rat where "NEW_TOKEN_thresholdMinutes = 5"
definition LOW_HOLDERS_threshold :: rat where "LOW_HOLDERS_threshold = 10"
definition NO_VOLUME_threshold :: rat where "NO_VOLUME_threshold = 0"
definition WHALE_CONCENTRATION_threshold :: rat where "WHALE_CONCENTRATION_threshold = 40"
definition RAPID_PRICE_DROP_threshold :: rat where "RAPID_PRICE_DROP_threshold = -30"

text \<open>\<open>MAX_POINTS\<close>.\<close>

definition MAX_POINTS_LIQUIDITY :: int where "MAX_POINTS_LIQUIDITY = 25"
definition MAX_POINTS_UNIQUE_BUYERS_1M :: int where "MAX_POINTS_UNIQUE_BUYERS_1M = 20"
definition MAX_POINTS_SWAPS_1M :: int where "MAX_POINTS_SWAPS_1M = 15"
definition MAX_POINTS_VOLUME_1M :: int where "MAX_POINTS_VOLUME_1M = 10"
definition MAX_POINTS_HOLDER_COUNT :: int where "MAX_POINTS_HOLDER_COUNT = 10"
definition MAX_POINTS_UNIQUE_BUYERS_5M :: int where "MAX_POINTS_UNIQUE_BUYERS_5M = 10"
definition MAX_POINTS_BUY_PRESSURE :: int where "MAX_POINTS_BUY_PRESSURE = 10"

section \<open>Scoring engine (scoring/score.js)\<close>

subsection \<open>Reading the token state\<close>

text \<open>
  \<open>obj?.field\<close> is \<open>undefined\<close> when \<open>obj\<close> is null or undefined, and the field otherwise.
  \<open>a || b\<close> is \<open>a\<close> when \<open>a\<close> is truthy and \<open>b\<close> otherwise: a number is truthy unless it is
  zero, a string unless it is empty; null and undefined are not.
\<close>

definition opt_chain :: "'r jsval \<Rightarrow> ('r \<Rightarrow> 'a jsval) \<Rightarrow> 'a jsval" where
  "opt_chain obj field = (case obj of Val r \<Rightarrow> field r | _ \<Rightarrow> Undefined)"

definition truthy_num :: "rat jsval \<Rightarrow> bool" where
  "truthy_num v = (case v of Val x \<Rightarrow> x \<noteq> 0 | _ \<Rightarrow> False)"

definition truthy_str :: "string jsval \<Rightarrow> bool" where
  "truthy_str v = (case v of Val s \<Rightarrow> s \<noteq> [] | _ \<Rightarrow> False)"

definition num_or :: "rat jsval \<Rightarrow> rat jsval \<Rightarrow> rat jsval" where
  "num_or a b = (if truthy_num a then a else b)"

text \<open>\<open>a || 0\<close>, a number in every case.\<close>

definition or_zero :: "rat jsval \<Rightarrow> rat" where
  "or_zero a = (case a of Val x \<Rightarrow> (if x \<noteq> 0 then x else 0) | _ \<Rightarrow> 0)"

text \<open>
  A timestamp column holds a string; \<open>new Date(s).getTime()\<close> is the epoch in
  milliseconds, or NaN when the string is not a date.
\<close>

datatype date_string = Date_ms int | Unparseable

record token =
  mint :: string
  mint_authority :: "string jsval"
  freeze_authority :: "string jsval"
  first_seen_at :: "date_string jsval"

record metrics =
  liquidity_usd :: "rat jsval"
  unique_buyers_1m :: "rat jsval"
  swaps_1m :: "rat jsval"
  volume_usd_1m :: "rat jsval"
  holder_count :: "rat jsval"
  unique_buyers_5m :: "rat jsval"
  buy_volume_usd_1m :: "rat jsval"
  sell_volume_usd_1m :: "rat jsval"
  price_change_5m :: "rat jsval"

text \<open>The holder snapshot and the pool row; their fields carry a prefix where the
  metrics row has a field of the same name.\<close>

record holders =
  holders_holder_count :: "rat jsval"
  top10_pct :: "rat jsval"
  top1_pct :: "rat jsval"

record pool =
  pool_liquidity_usd :: "rat jsval"

record tokenState =
  ts_token :: "token jsval"
  ts_metrics :: "metrics jsval"
  ts_holders :: "holders jsval"
  ts_pool :: "pool jsval"

subsection \<open>The result\<close>

text \<open>
  \<open>components\<close> is an object filled key by key; it is the list of its entries in
  insertion order.  A positive component is \<open>{value, points, maxPoints, reason}\<close>, a
  concentration penalty \<open>{value, penalty, reason}\<close>, the authority entry
  \<open>{mintAuthority, freezeAuthority, penalty, reason}\<close>.
\<close>

datatype component =
    Positive rat int int string
  | Concentration rat int string
  | Authority bool bool int string

record scoreResult =
  r_score :: int
  r_reasons :: "string list"
  r_risk_flags :: "string list"
  r_components :: "(string \<times> component) list"


datatype js_error = TypeError | RangeError

definition bindE :: "js_error + 'a \<Rightarrow> ('a \<Rightarrow> js_error + 'b) \<Rightarrow> js_error + 'b" where
  "bindE m f = (case m of Inl e \<Rightarrow> Inl e | Inr x \<Rightarrow> f x)"

subsection \<open>Tier lookup\<close>

text \<open>
  \<open>Object.values(thresholds).sort((a, b) => b.min - a.min)\<close>: a stable sort, highest
  minimum first.  The loop returns the first tier whose minimum the value reaches.  When
  none does, \<open>scoreByThreshold\<close> reads the last tier, which on an empty table is
  undefined and whose \<open>points\<close> raises; \<open>penaltyByThreshold\<close> returns no penalty.
\<close>

definition scoreByThreshold :: "rat \<Rightarrow> threshold list \<Rightarrow> js_error + (int \<times> string)" where
  "scoreByThreshold v thresholds =
     (let orderedThresholds = sort_key (\<lambda>t. - tier_min t) thresholds
      in case find (\<lambda>t. v \<ge> tier_min t) orderedThresholds of
           Some t \<Rightarrow> Inr (points t, reason t)
         | None \<Rightarrow>
             (if orderedThresholds = [] then Inl TypeError
              else Inr (points (last orderedThresholds), reason (last orderedThresholds))))"

definition penaltyByThreshold :: "rat \<Rightarrow> penalty_tier list \<Rightarrow> int \<times> string" where
  "penaltyByThreshold v thresholds =
     (let orderedThresholds = sort_key (\<lambda>t. - pen_min t) thresholds
      in case find (\<lambda>t. v \<ge> pen_min t) orderedThresholds of
           Some t \<Rightarrow> (penalty t, pen_reason t)
         | None \<Rightarrow> (0, ''HEALTHY''))"

text \<open>\<open>Math.round\<close>: the nearest integer, a half rounded up.\<close>

definition Math_round :: "rat \<Rightarrow> int" where
  "Math_round x = \<lfloor>x + 1 / 2\<rfloor>"

subsection \<open>score\<close>

text \<open>
  The values the function reads from the token state, one per \<open>const\<close> of the source.
  The buy ratio is the exact quotient; the source's quotient of doubles is its rounding.
\<close>

definition liquidityUsd :: "tokenState \<Rightarrow> rat" where
  "liquidityUsd s =
     or_zero (num_or (opt_chain (ts_metrics s) liquidity_usd)
                     (opt_chain (ts_pool s) pool_liquidity_usd))"

definition uniqueBuyers1m :: "tokenState \<Rightarrow> rat" where
  "uniqueBuyers1m s = or_zero (opt_chain (ts_metrics s) unique_buyers_1m)"

definition swaps1m :: "tokenState \<Rightarrow> rat" where
  "swaps1m s = or_zero (opt_chain (ts_metrics s) swaps_1m)"

definition volume1m :: "tokenState \<Rightarrow> rat" where
  "volume1m s = or_zero (opt_chain (ts_metrics s) volume_usd_1m)"

definition holderCount :: "tokenState \<Rightarrow> rat" where
  "holderCount s =
     or_zero (num_or (opt_chain (ts_holders s) holders_holder_count)
                     (opt_chain (ts_metrics s) holder_count))"

definition uniqueBuyers5m :: "tokenState \<Rightarrow> rat" where
  "uniqueBuyers5m s = or_zero (opt_chain (ts_metrics s) unique_buyers_5m)"

definition buyRatio :: "tokenState \<Rightarrow> rat" where
  "buyRatio s =
     (let buyVol = or_zero (opt_chain (ts_metrics s) buy_volume_usd_1m);
          sellVol = or_zero (opt_chain (ts_metrics s) sell_volume_usd_1m);
          totalVol = buyVol + sellVol
      in if totalVol > 0 then buyVol / totalVol else 1 / 2)"

definition top10Pct :: "tokenState \<Rightarrow> rat" where
  "top10Pct s = or_zero (opt_chain (ts_holders s) top10_pct)"

definition top1Pct :: "tokenState \<Rightarrow> rat" where
  "top1Pct s = or_zero (opt_chain (ts_holders s) top1_pct)"

definition hasMintAuth :: "tokenState \<Rightarrow> bool" where
  "hasMintAuth s = truthy_str (opt_chain (ts_token s) mint_authority)"

definition hasFreezeAuth :: "tokenState \<Rightarrow> bool" where
  "hasFreezeAuth s = truthy_str (opt_chain (ts_token s) freeze_authority)"

definition priceChange5m :: "tokenState \<Rightarrow> rat" where
  "priceChange5m s = or_zero (opt_chain (ts_metrics s) price_change_5m)"

text \<open>
  The age check: only when \<open>first_seen_at\<close> is there, and never true for a string that
  is not a date (a comparison with NaN is false).  \<open>now\<close> is \<open>Date.now()\<close>.
\<close>

definition veryNewToken :: "int \<Rightarrow> tokenState \<Rightarrow> bool" where
  "veryNewToken now s =
     (case opt_chain (ts_token s) first_seen_at of
        Val (Date_ms t) \<Rightarrow> (of_int (now - t) :: rat) / 60000 < NEW_TOKEN_thresholdMinutes
      | _ \<Rightarrow> False)"

text \<open>The two concentration penalties, evaluated only for a positive percentage.\<close>

definition concentrationResult :: "rat \<Rightarrow> penalty_tier list \<Rightarrow> (int \<times> string) option" where
  "concentrationResult pct thresholds =
     (if pct > 0 then Some (penaltyByThreshold pct thresholds) else None)"

definition top10Result :: "tokenState \<Rightarrow> (int \<times> string) option" where
  "top10Result s = concentrationResult (top10Pct s) TOP10_CONCENTRATION_PENALTIES"

definition top1Result :: "tokenState \<Rightarrow> (int \<times> string) option" where
  "top1Result s = concentrationResult (top1Pct s) TOP1_CONCENTRATION_PENALTIES"

definition authorityResult :: "tokenState \<Rightarrow> (bool \<times> bool \<times> authority_penalty) option" where
  "authorityResult s =
     (if hasMintAuth s \<and> hasFreezeAuth s then Some (True, True, BOTH_AUTHORITIES)
      else if hasMintAuth s then Some (True, False, MINT_AUTHORITY)
      else if hasFreezeAuth s then Some (False, True, FREEZE_AUTHORITY)
      else None)"

definition authorityPenalty :: "tokenState \<Rightarrow> int" where
  "authorityPenalty s =
     (case authorityResult s of None \<Rightarrow> 0 | Some (ma, fa, a) \<Rightarrow> auth_penalty a)"

text \<open>The entries a penalty adds to \<open>components\<close> and to \<open>reasons\<close>.\<close>

definition concentration_entry ::
  "string \<Rightarrow> rat \<Rightarrow> (int \<times> string) option \<Rightarrow> (string \<times> component) list" where
  "concentration_entry name v res =
     (case res of None \<Rightarrow> [] | Some (p, r) \<Rightarrow> [(name, Concentration v p r)])"

definition concentration_reason :: "(int \<times> string) option \<Rightarrow> string list" where
  "concentration_reason res =
     (case res of None \<Rightarrow> [] | Some (p, r) \<Rightarrow> (if p < 0 then [r] else []))"

definition concentration_penalty :: "(int \<times> string) option \<Rightarrow> int" where
  "concentration_penalty res = (case res of None \<Rightarrow> 0 | Some (p, r) \<Rightarrow> p)"

text \<open>
  \<open>score(tokenState)\<close>.  Destructuring a null or undefined argument raises.  The body
  runs the seven tier lookups in order, then the penalties, then the risk flags, and
  clamps the rounded total.
\<close>

definition score_object :: "int \<Rightarrow> tokenState \<Rightarrow> js_error + scoreResult" where
  "score_object now s =
     bindE (scoreByThreshold (liquidityUsd s) LIQUIDITY_THRESHOLDS) (\<lambda>liquidityResult.
     bindE (scoreByThreshold (uniqueBuyers1m s) UNIQUE_BUYERS_1M_THRESHOLDS) (\<lambda>buyers1mResult.
     bindE (scoreByThreshold (swaps1m s) SWAPS_1M_THRESHOLDS) (\<lambda>swaps1mResult.
     bindE (scoreByThreshold (volume1m s) VOLUME_1M_THRESHOLDS) (\<lambda>volume1mResult.
     bindE (scoreByThreshold (holderCount s) HOLDER_COUNT_THRESHOLDS) (\<lambda>holderResult.
     bindE (scoreByThreshold (uniqueBuyers5m s) UNIQUE_BUYERS_5M_THRESHOLDS) (\<lambda>buyers5mResult.
     bindE (scoreByThreshold (buyRatio s) BUY_PRESSURE_THRESHOLDS) (\<lambda>buyPressureResult.
       let authority = authorityResult s;
           totalScore =
             fst liquidityResult + fst buyers1mResult + fst swaps1mResult
             + fst volume1mResult + fst holderResult + fst buyers5mResult
             + fst buyPressureResult
             + concentration_penalty (top10Result s)
             + concentration_penalty (top1Result s)
             + authorityPenalty s;
           reasons =
             [snd liquidityResult, snd buyers1mResult, snd swaps1mResult, snd volume1mResult,
              snd holderResult, snd buyers5mResult, snd buyPressureResult]
             @ concentration_reason (top10Result s)
             @ concentration_reason (top1Result s)
             @ (case authority of None \<Rightarrow> [] | Some (ma, fa, a) \<Rightarrow> [auth_reason a]);
           riskFlags =
             (case authority of None \<Rightarrow> [] | Some (ma, fa, a) \<Rightarrow> [auth_flag a])
             @ (if liquidityUsd s < LOW_LIQUIDITY_threshold then [''LOW_LIQUIDITY_WARNING''] else [])
             @ (if veryNewToken now s then [''VERY_NEW_TOKEN''] else [])
             @ (if holderCount s < LOW_HOLDERS_threshold then [''LOW_HOLDER_COUNT''] else [])
             @ (if volume1m s \<le> NO_VOLUME_threshold then [''NO_RECENT_VOLUME''] else [])
             @ (if top1Pct s > WHALE_CONCENTRATION_threshold then [''WHALE_CONCENTRATION''] else [])
             @ (if priceChange5m s < RAPID_PRICE_DROP_threshold then [''RAPID_PRICE_DROP''] else []);
           components =
             [(''liquidity'', Positive (liquidityUsd s) (fst liquidityResult)
                  MAX_POINTS_LIQUIDITY (snd liquidityResult)),
              (''unique_buyers_1m'', Positive (uniqueBuyers1m s) (fst buyers1mResult)
                  MAX_POINTS_UNIQUE_BUYERS_1M (snd buyers1mResult)),
              (''swaps_1m'', Positive (swaps1m s) (fst swaps1mResult)
                  MAX_POINTS_SWAPS_1M (snd swaps1mResult)),
              (''volume_1m'', Positive (volume1m s) (fst volume1mResult)
                  MAX_POINTS_VOLUME_1M (snd volume1mResult)),
              (''holder_count'', Positive (holderCount s) (fst holderResult)
                  MAX_POINTS_HOLDER_COUNT (snd holderResult)),
              (''unique_buyers_5m'', Positive (uniqueBuyers5m s) (fst buyers5mResult)
                  MAX_POINTS_UNIQUE_BUYERS_5M (snd buyers5mResult)),
              (''buy_pressure'', Positive (buyRatio s) (fst buyPressureResult)
                  MAX_POINTS_BUY_PRESSURE (snd buyPressureResult))]
             @ concentration_entry ''top10_concentration'' (top10Pct s) (top10Result s)
             @ concentration_entry ''top1_concentration'' (top1Pct s) (top1Result s)
             @ (case authority of None \<Rightarrow> []
                | Some (ma, fa, a) \<Rightarrow>
                    [(''authority'', Authority ma fa (auth_penalty a) (auth_reason a))]);
           finalScore = max 0 (min 100 (Math_round (of_int totalScore)))
       in Inr \<lparr>r_score = finalScore, r_reasons = reasons, r_risk_flags = riskFlags,
               r_components = components\<rparr>)))))))"

definition score :: "int \<Rightarrow> tokenState jsval \<Rightarrow> js_error + scoreResult" where
  "score now tokenState =
     (case tokenState of Val s \<Rightarrow> score_object now s | _ \<Rightarrow> Inl TypeError)"

subsection \<open>Inputs used to state the properties of score\<close>

text \<open>
  Scenario A: the metrics row below, a token without authorities, no holder snapshot
  (so no concentration) and no pool.
\<close>

definition scenario_A :: tokenState where
  "scenario_A =
     \<lparr>ts_token = Val \<lparr>mint = ''MintA'', mint_authority = Null, freeze_authority = Null,
                        first_seen_at = Undefined\<rparr>,
      ts_metrics = Val \<lparr>liquidity_usd = Val 60000, unique_buyers_1m = Val 25, swaps_1m = Val 50,
                         volume_usd_1m = Val 60000, holder_count = Val 250,
                         unique_buyers_5m = Val 60, buy_volume_usd_1m = Val 42000,
                         sell_volume_usd_1m = Val 18000, price_change_5m = Undefined\<rparr>,
      ts_holders = Undefined,
      ts_pool = Undefined\<rparr>"




text \<open>A token first seen at epoch 0 with no metrics, holders or pool.\<close>

definition fresh_token :: token where
  "fresh_token = \<lparr>mint = ''MintB'', mint_authority = Null, freeze_authority = Null,
                   first_seen_at = Val (Date_ms 0)\<rparr>"

definition fresh_token_state :: tokenState where
  "fresh_token_state =
     \<lparr>ts_token = Val fresh_token, ts_metrics = Null, ts_holders = Null, ts_pool = Undefined\<rparr>"

definition risk_flags_of :: "js_error + scoreResult \<Rightarrow> string list" where
  "risk_flags_of res = (case res of Inr r \<Rightarrow> r_risk_flags r | Inl e \<Rightarrow> [])"

text \<open>
  The token state with every absent metric written as zero: a missing row becomes a row
  of zeros, a missing or null field of a row becomes zero.
\<close>

definition zero_absent :: "rat jsval \<Rightarrow> rat jsval" where
  "zero_absent v = (case v of Val x \<Rightarrow> Val x | _ \<Rightarrow> Val 0)"

definition zero_metrics :: "metrics jsval \<Rightarrow> metrics jsval" where
  "zero_metrics m =
     (case m of
        Val r \<Rightarrow>
          Val \<lparr>liquidity_usd = zero_absent (liquidity_usd r),
               unique_buyers_1m = zero_absent (unique_buyers_1m r),
               swaps_1m = zero_absent (swaps_1m r),
               volume_usd_1m = zero_absent (volume_usd_1m r),
               holder_count = zero_absent (holder_count r),
               unique_buyers_5m = zero_absent (unique_buyers_5m r),
               buy_volume_usd_1m = zero_absent (buy_volume_usd_1m r),
               sell_volume_usd_1m = zero_absent (sell_volume_usd_1m r),
               price_change_5m = zero_absent (price_change_5m r)\<rparr>
      | _ \<Rightarrow>
          Val \<lparr>liquidity_usd = Val 0, unique_buyers_1m = Val 0, swaps_1m = Val 0,
               volume_usd_1m = Val 0, holder_count = Val 0, unique_buyers_5m = Val 0,
               buy_volume_usd_1m = Val 0, sell_volume_usd_1m = Val 0,
               price_change_5m = Val 0\<rparr>)"

definition zero_holders :: "holders jsval \<Rightarrow> holders jsval" where
  "zero_holders h =
     (case h of
        Val r \<Rightarrow>
          Val \<lparr>holders_holder_count = zero_absent (holders_holder_count r),
               top10_pct = zero_absent (top10_pct r), top1_pct = zero_absent (top1_pct r)\<rparr>
      | _ \<Rightarrow> Val \<lparr>holders_holder_count = Val 0, top10_pct = Val 0, top1_pct = Val 0\<rparr>)"

definition zero_pool :: "pool jsval \<Rightarrow> pool jsval" where
  "zero_pool p =
     (case p of
        Val r \<Rightarrow> Val \<lparr>pool_liquidity_usd = zero_absent (pool_liquidity_usd r)\<rparr>
      | _ \<Rightarrow> Val \<lparr>pool_liquidity_usd = Val 0\<rparr>)"

definition absent_as_zero :: "tokenState \<Rightarrow> tokenState" where
  "absent_as_zero s =
     s\<lparr>ts_metrics := zero_metrics (ts_metrics s), ts_holders := zero_holders (ts_holders s),
       ts_pool := zero_pool (ts_pool s)\<rparr>"

text \<open>The reason codes and flags a result can carry.\<close>

definition known_risk_flags :: "string list" where
  "known_risk_flags =
     [''FULL_AUTHORITY_RISK'', ''MINT_AUTHORITY_RISK'', ''FREEZE_AUTHORITY_RISK'',
      ''LOW_LIQUIDITY_WARNING'', ''VERY_NEW_TOKEN'', ''LOW_HOLDER_COUNT'', ''NO_RECENT_VOLUME'',
      ''WHALE_CONCENTRATION'', ''RAPID_PRICE_DROP'']"

definition positive_component_names :: "string list" where
  "positive_component_names =
     [''liquidity'', ''unique_buyers_1m'', ''swaps_1m'', ''volume_1m'', ''holder_count'',
      ''unique_buyers_5m'', ''buy_pressure'']"

text \<open>A token state with nothing in it: no token row, no metrics, no holders, no pool.\<close>

definition all_absent :: tokenState where
  "all_absent = \<lparr>ts_token = Null, ts_metrics = Undefined, ts_holders = Null, ts_pool = Undefined\<rparr>"


section \<open>Alert decision (scoring/score.js, shouldAlert)\<close>

text \<open>
  The three thresholds are read from the environment with a default each
  (\<open>ALERT_SCORE_THRESHOLD\<close> 70, \<open>ALERT_SCORE_THRESHOLD_WITH_FLAGS\<close> 80,
  \<open>SCORE_CHANGE_ALERT_THRESHOLD\<close> 10); they are a parameter of the model.
\<close>

record alert_thresholds =
  SCORE_THRESHOLD :: int
  SCORE_THRESHOLD_WITH_FLAGS :: int
  SCORE_CHANGE_THRESHOLD :: int

definition default_thresholds :: alert_thresholds where
  "default_thresholds =
     \<lparr>SCORE_THRESHOLD = 70, SCORE_THRESHOLD_WITH_FLAGS = 80, SCORE_CHANGE_THRESHOLD = 10\<rparr>"

definition hasHardFlags :: "string list \<Rightarrow> bool" where
  "hasHardFlags currentFlags =
     list_ex (\<lambda>f. f \<in> set [''FULL_AUTHORITY_RISK'', ''MINT_AUTHORITY_RISK'',
                              ''FREEZE_AUTHORITY_RISK'']) currentFlags"

text \<open>
  \<open>flagsChanged\<close> compares the JSON text of the two sorted copies of the flag arrays;
  the JSON text of an array of strings determines the array, so this is the comparison
  of the sorted lists.  \<open>sort()\<close> orders strings by their code units.
\<close>

definition flagsChanged :: "string list \<Rightarrow> string list \<Rightarrow> bool" where
  "flagsChanged currentFlags previousRiskFlags = (sort currentFlags \<noteq> sort previousRiskFlags)"

text \<open>
  \<open>shouldAlert(scoreResult, previousScore = null, previousRiskFlags = [])\<close> returns
  \<open>{shouldSend, reason}\<close>.  An undefined \<open>previousScore\<close> takes the default null.
\<close>

definition shouldAlert ::
  "alert_thresholds \<Rightarrow> scoreResult \<Rightarrow> int jsval \<Rightarrow> string list \<Rightarrow> bool \<times> string" where
  "shouldAlert cfg scoreResult previousScore previousRiskFlags =
     (let currentScore = r_score scoreResult;
          currentFlags = r_risk_flags scoreResult
      in case (case previousScore of Undefined \<Rightarrow> Null | p \<Rightarrow> p) of
           Val prev \<Rightarrow>
             (let scoreDiff = \<bar>currentScore - prev\<bar>
              in if scoreDiff \<ge> SCORE_CHANGE_THRESHOLD cfg then (True, ''SCORE_CHANGE_SIGNIFICANT'')
                 else if flagsChanged currentFlags previousRiskFlags
                         \<and> currentScore \<ge> SCORE_THRESHOLD cfg then (True, ''FLAGS_CHANGED'')
                 else (False, ''NO_SIGNIFICANT_CHANGE''))
         | _ \<Rightarrow>
             (if currentScore \<ge> SCORE_THRESHOLD cfg \<and> \<not> hasHardFlags currentFlags
                then (True, ''NEW_HIGH_SCORE'')
              else if currentScore \<ge> SCORE_THRESHOLD_WITH_FLAGS cfg
                then (True, ''NEW_VERY_HIGH_SCORE'')
              else (False, ''SCORE_BELOW_THRESHOLD'')))"

section \<open>Alert state and dispatch (supabase.js alerts, telegram/bot.js, workers/score_worker.js)\<close>

text \<open>
  A row of the \<open>alerts\<close> table, one per token mint.  A new row has the column defaults
  of the schema: no score, no send time, no message, a count of zero and no flags.  The
  message id column holds the decimal text of a Telegram message id, which is never the
  empty string; the model keeps the number it spells.
\<close>

record alert =
  last_score :: "int jsval"
  last_sent_at :: "int jsval"
  telegram_message_id :: "nat jsval"
  telegram_chat_id :: "string jsval"
  alert_count :: "int jsval"
  last_risk_flags :: "string list jsval"

definition new_alert :: alert where
  "new_alert = \<lparr>last_score = Null, last_sent_at = Null, telegram_message_id = Null,
     telegram_chat_id = Null, alert_count = Val 0, last_risk_flags = Val []\<rparr>"

text \<open>The store: the alerts by mint, and the scores inserted so far, newest first.\<close>

record store =
  alerts :: "string \<rightharpoonup> alert"
  scores :: "(string \<times> scoreResult) list"

text \<open>
  What the database and Telegram answer during one scoring cycle of a token.  A failed
  query raises \<open>DbError\<close>; a send or an edit that fails (the bot is not initialised, or the
  API call raises) returns null, here \<open>None\<close>, and a success returns the message with its
  id.
\<close>

datatype failure = DbError

record outcome =
  fetch_fails :: bool
  insertScore_fails :: bool
  worker_select_fails :: bool
  worker_insert_fails :: bool
  bot_select_fails :: bool
  bot_insert_fails :: bool
  edit_result :: "nat option"
  send_result :: "nat option"
  update_fails :: bool

record telegram_config =
  chatId :: "string jsval"
  ENABLE_TELEGRAM_ALERTS :: "string jsval"

text \<open>
  \<open>getOrCreateAlert\<close>: the row of the mint; when there is none (error code PGRST116) a
  new row is inserted and returned.  Any other error raises.
\<close>

definition getOrCreateAlert ::
  "bool \<Rightarrow> bool \<Rightarrow> (string \<rightharpoonup> alert) \<Rightarrow> string \<Rightarrow> failure + (alert \<times> (string \<rightharpoonup> alert))" where
  "getOrCreateAlert select_fails insert_fails tbl tokenMint =
     (if select_fails then Inl DbError
      else case tbl tokenMint of
             Some a \<Rightarrow> Inr (a, tbl)
           | None \<Rightarrow>
               (if insert_fails then Inl DbError
                else Inr (new_alert, tbl(tokenMint \<mapsto> new_alert))))"

text \<open>\<open>updateAlert\<close>: overwrite the given columns of the mint's row, if there is one.\<close>

definition updateAlert ::
  "bool \<Rightarrow> (string \<rightharpoonup> alert) \<Rightarrow> string \<Rightarrow> (alert \<Rightarrow> alert) \<Rightarrow> failure + (string \<rightharpoonup> alert)" where
  "updateAlert fails tbl tokenMint updateData =
     (if fails then Inl DbError
      else case tbl tokenMint of
             Some a \<Rightarrow> Inr (tbl(tokenMint \<mapsto> updateData a))
           | None \<Rightarrow> Inr tbl)"

text \<open>
  The columns \<open>sendTokenAlert\<close> writes after a message went out: the new score, the
  send time, the message and chat ids, the count read before plus one
  (\<open>(alert.alert_count || 0) + 1\<close>) and the new flags.
\<close>

definition alert_update ::
  "telegram_config \<Rightarrow> int \<Rightarrow> scoreResult \<Rightarrow> nat \<Rightarrow> alert \<Rightarrow> alert \<Rightarrow> alert" where
  "alert_update tg now scoreResult message_id alert row =
     row\<lparr>last_score := Val (r_score scoreResult),
         last_sent_at := Val now,
         telegram_message_id := Val message_id,
         telegram_chat_id := chatId tg,
         alert_count :=
           Val ((case alert_count alert of Val c \<Rightarrow> (if c \<noteq> 0 then c else 0) | _ \<Rightarrow> 0) + 1),
         last_risk_flags := Val (r_risk_flags scoreResult)\<rparr>"

text \<open>
  \<open>sendTokenAlert\<close>.  Nothing is done without a chat id or when alerts are disabled.
  Otherwise the row is read (or created); an alert that was sent before and has a message
  id is edited, and a failed edit falls back to a new message; any other alert is a new
  message.  Only when a message resulted is the row updated.  Every exception is caught
  and logged, which leaves the table as it was when the exception was raised.
\<close>

definition sendTokenAlert ::
  "telegram_config \<Rightarrow> outcome \<Rightarrow> int \<Rightarrow> (string \<rightharpoonup> alert) \<Rightarrow> token \<Rightarrow> scoreResult
     \<Rightarrow> (string \<rightharpoonup> alert)" where
  "sendTokenAlert tg out now tbl tok scoreResult =
     (if \<not> truthy_str (chatId tg) then tbl
      else if ENABLE_TELEGRAM_ALERTS tg = Val ''false'' then tbl
      else case getOrCreateAlert (bot_select_fails out) (bot_insert_fails out) tbl (mint tok) of
             Inl e \<Rightarrow> tbl
           | Inr (alert, tbl1) \<Rightarrow>
               (let previousScore = last_score alert;
                    isUpdate = (previousScore \<noteq> Null
                                \<and> (case telegram_message_id alert of Val i \<Rightarrow> True | _ \<Rightarrow> False));
                    result = (if isUpdate
                              then (case edit_result out of
                                      Some m \<Rightarrow> Some m
                                    | None \<Rightarrow> send_result out)
                              else send_result out)
                in case result of
                     None \<Rightarrow> tbl1
                   | Some message_id \<Rightarrow>
                       (case updateAlert (update_fails out) tbl1 (mint tok)
                               (alert_update tg now scoreResult message_id alert) of
                          Inl e \<Rightarrow> tbl1
                        | Inr tbl2 \<Rightarrow> tbl2)))"

text \<open>\<open>alert.last_risk_flags || []\<close>: an array is truthy, even an empty one.\<close>

definition flags_or_empty :: "string list jsval \<Rightarrow> string list" where
  "flags_or_empty v = (case v of Val fs \<Rightarrow> fs | _ \<Rightarrow> [])"

text \<open>
  \<open>scoreToken\<close>: read the latest rows, score, store the score, read (or create) the
  alert row, ask \<open>shouldAlert\<close>, and call \<open>sendTokenAlert\<close> when it says so.  An exception
  of a query leaves the function with the store as it is at that point.  The result is
  \<open>{score, alerted}\<close>.
\<close>

definition scoreToken ::
  "alert_thresholds \<Rightarrow> telegram_config \<Rightarrow> outcome \<Rightarrow> int \<Rightarrow> store \<Rightarrow> token
     \<Rightarrow> metrics jsval \<Rightarrow> holders jsval \<Rightarrow> pool jsval
     \<Rightarrow> (failure + js_error + (int \<times> bool)) \<times> store" where
  "scoreToken cfg tg out now st tok metrics holders pool =
     (if fetch_fails out then (Inl DbError, st)
      else case score now (Val \<lparr>ts_token = Val tok, ts_metrics = metrics,
                                 ts_holders = holders, ts_pool = pool\<rparr>) of
             Inl e \<Rightarrow> (Inr (Inl e), st)
           | Inr scoreResult \<Rightarrow>
               (if insertScore_fails out then (Inl DbError, st)
                else
                  (let st1 = st\<lparr>scores := (mint tok, scoreResult) # scores st\<rparr>
                   in case getOrCreateAlert (worker_select_fails out) (worker_insert_fails out)
                             (alerts st1) (mint tok) of
                        Inl e \<Rightarrow> (Inl e, st1)
                      | Inr (alert, tbl1) \<Rightarrow>
                          (let alertCheck = shouldAlert cfg scoreResult (last_score alert)
                                              (flags_or_empty (last_risk_flags alert))
                           in if fst alertCheck
                              then (Inr (Inr (r_score scoreResult, True)),
                                    st1\<lparr>alerts := sendTokenAlert tg out now tbl1 tok scoreResult\<rparr>)
                              else (Inr (Inr (r_score scoreResult, False)),
                                    st1\<lparr>alerts := tbl1\<rparr>)))))"

text \<open>The alert state of a mint as the program reads it: the row, or a new row's defaults.\<close>

definition alert_state :: "(string \<rightharpoonup> alert) \<Rightarrow> string \<Rightarrow> alert" where
  "alert_state tbl m = (case tbl m of Some a \<Rightarrow> a | None \<Rightarrow> new_alert)"

text \<open>Three score results with the same flags, none of them an authority flag.\<close>

definition result_75 :: scoreResult where
  "result_75 = \<lparr>r_score = 75, r_reasons = [], r_risk_flags = [''VERY_NEW_TOKEN'', ''LOW_HOLDER_COUNT''],
     r_components = []\<rparr>"

definition result_83 :: scoreResult where
  "result_83 = \<lparr>r_score = 83, r_reasons = [], r_risk_flags = [''VERY_NEW_TOKEN'', ''LOW_HOLDER_COUNT''],
     r_components = []\<rparr>"

definition result_60 :: scoreResult where
  "result_60 = \<lparr>r_score = 60, r_reasons = [], r_risk_flags = [''VERY_NEW_TOKEN'', ''LOW_HOLDER_COUNT''],
     r_components = []\<rparr>"

text \<open>
  The result of scoring the token of \<open>fresh_token_state\<close> ten minutes after it was first
  seen, a configured chat, and two ways a cycle can go: every send and edit fails, or a new
  message goes out with id 7.
\<close>

definition quiet_result :: scoreResult where
  "quiet_result =
     \<lparr>r_score = 4,
      r_reasons = [''LIQ_BELOW_5K'', ''BUYERS_1M_BELOW_2'', ''SWAPS_1M_BELOW_5'',
                   ''VOL_1M_BELOW_5K'', ''HOLDERS_BELOW_20'', ''BUYERS_5M_BELOW_5'',
                   ''BUY_PRESSURE_50_PCT''],
      r_risk_flags = [''LOW_LIQUIDITY_WARNING'', ''LOW_HOLDER_COUNT'', ''NO_RECENT_VOLUME''],
      r_components =
        [(''liquidity'', Positive 0 0 25 ''LIQ_BELOW_5K''),
         (''unique_buyers_1m'', Positive 0 0 20 ''BUYERS_1M_BELOW_2''),
         (''swaps_1m'', Positive 0 0 15 ''SWAPS_1M_BELOW_5''),
         (''volume_1m'', Positive 0 0 10 ''VOL_1M_BELOW_5K''),
         (''holder_count'', Positive 0 0 10 ''HOLDERS_BELOW_20''),
         (''unique_buyers_5m'', Positive 0 0 10 ''BUYERS_5M_BELOW_5''),
         (''buy_pressure'', Positive (1 / 2) 4 10 ''BUY_PRESSURE_50_PCT'')]\<rparr>"

definition telegram_on :: telegram_config where
  "telegram_on = \<lparr>chatId = Val ''chat-1'', ENABLE_TELEGRAM_ALERTS = Undefined\<rparr>"

definition sends_fail :: outcome where
  "sends_fail =
     \<lparr>fetch_fails = False, insertScore_fails = False, worker_select_fails = False,
      worker_insert_fails = False, bot_select_fails = False, bot_insert_fails = False,
      edit_result = None, send_result = None, update_fails = False\<rparr>"

definition send_succeeds :: outcome where
  "send_succeeds =
     \<lparr>fetch_fails = False, insertScore_fails = False, worker_select_fails = False,
      worker_insert_fails = False, bot_select_fails = False, bot_insert_fails = False,
      edit_result = None, send_result = Some 7, update_fails = False\<rparr>"

definition empty_store :: store where
  "empty_store = \<lparr>alerts = Map.empty, scores = []\<rparr>"

section \<open>Swap extraction (helius.js, parseSwapTransaction)\<close>

definition WSOL_MINT :: string where
  "WSOL_MINT = ''So11111111111111111111111111111111111111112''"

definition STABLECOIN_MINTS :: "string list" where
  "STABLECOIN_MINTS =
     [''EPjFWdd5AufqSSqeM2qN1xzybapC8G4wEGGkZwyTDt1v'',
      ''Es9vMFrzaCERmJfrF4H2FYD4KCoNkY11McCe8BenwNYB'']"

text \<open>\<open>mint === WSOL_MINT || STABLECOIN_MINTS.has(mint)\<close>.\<close>

definition is_quote :: "string jsval \<Rightarrow> bool" where
  "is_quote m = (m = Val WSOL_MINT \<or> (case m of Val s \<Rightarrow> s \<in> set STABLECOIN_MINTS | _ \<Rightarrow> False))"

text \<open>
  The parts of a transaction the function reads.  Amounts are numbers, as in the
  enhanced webhook format.  Of the parsed swap event the function reads the mint of the
  first token output, the mint of the first token input, and the native output and input
  amounts; \<open>swap.tokenOutputs?.[0]?.mint\<close> is undefined when the list is missing or empty.
\<close>

record tokenTransfer =
  transfer_mint :: "string jsval"
  fromUserAccount :: "string jsval"
  toUserAccount :: "string jsval"
  tokenAmount :: "rat jsval"

record nativeTransfer =
  amount :: "rat jsval"

record swapEvent =
  tokenOutputs :: "string jsval list jsval"
  tokenInputs :: "string jsval list jsval"
  nativeOutput_amount :: "rat jsval"
  nativeInput_amount :: "rat jsval"

record transaction =
  tx_signature :: "string jsval"
  tx_timestamp :: "int jsval"
  tx_type :: "string jsval"
  tx_source :: "string jsval"
  feePayer :: "string jsval"
  tokenTransfers :: "tokenTransfer list jsval"
  nativeTransfers :: "nativeTransfer list jsval"
  events_swap :: "swapEvent jsval"
  accountData :: "string jsval list jsval"

text \<open>
  The record the function returns, which is also the row of the \<open>swaps\<close> table.  \<open>ts\<close> is
  the time in epoch milliseconds that the ISO string spells.
\<close>

record swap =
  token_mint :: "string jsval"
  signature :: "string jsval"
  ts :: int
  side :: "string jsval"
  amount_usd :: "rat jsval"
  amount_token :: "rat jsval"
  amount_sol :: "rat jsval"
  buyer :: "string jsval"
  seller :: "string jsval"
  pool_address :: "string jsval"
  meta_source :: "string jsval"
  meta_type :: "string jsval"
  meta_fee_payer :: "string jsval"

text \<open>The local variables of the function that the loops assign (\<open>tokenMint\<close>, \<open>side\<close>,
  \<open>amountToken\<close>, \<open>amountSol\<close>, \<open>buyer\<close>, \<open>seller\<close>), with their initial values.\<close>

record swap_vars =
  v_tokenMint :: "string jsval"
  v_side :: string
  v_amountToken :: "rat jsval"
  v_amountSol :: "rat jsval"
  v_buyer :: "string jsval"
  v_seller :: "string jsval"

definition initial_vars :: swap_vars where
  "initial_vars = \<lparr>v_tokenMint = Null, v_side = ''unknown'', v_amountToken = Null,
                    v_amountSol = Null, v_buyer = Null, v_seller = Null\<rparr>"

text \<open>\<open>parseFloat(x) || null\<close> on a number: the number, or null when it is zero or missing.\<close>

definition parseFloat_or_null :: "rat jsval \<Rightarrow> rat jsval" where
  "parseFloat_or_null x = (case x of Val n \<Rightarrow> (if n \<noteq> 0 then Val n else Null) | _ \<Rightarrow> Null)"

text \<open>
  One pass of the loop over \<open>tx.tokenTransfers\<close>.  A quote asset may set \<open>amountSol\<close> and
  the loop continues; any other transfer sets \<open>tokenMint\<close> and \<open>amountToken\<close>, and the side
  when the fee payer is its receiver or its sender.  The loop has no \<open>break\<close>.
\<close>

definition transfer_step :: "string jsval \<Rightarrow> tokenTransfer \<Rightarrow> swap_vars \<Rightarrow> swap_vars" where
  "transfer_step payer transfer v =
     (let m = transfer_mint transfer
      in if is_quote m then
           (if truthy_num (tokenAmount transfer)
            then v\<lparr>v_amountSol := parseFloat_or_null (tokenAmount transfer)\<rparr> else v)
         else
           (let v1 = v\<lparr>v_tokenMint := m, v_amountToken := parseFloat_or_null (tokenAmount transfer)\<rparr>
            in if toUserAccount transfer = payer then v1\<lparr>v_side := ''buy'', v_buyer := payer\<rparr>
               else if fromUserAccount transfer = payer
                 then v1\<lparr>v_side := ''sell'', v_seller := payer\<rparr>
               else v1))"

definition scan_tokenTransfers :: "transaction \<Rightarrow> swap_vars \<Rightarrow> swap_vars" where
  "scan_tokenTransfers tx v =
     (case tokenTransfers tx of
        Val transfers \<Rightarrow> fold (transfer_step (feePayer tx)) transfers v
      | _ \<Rightarrow> v)"

text \<open>
  The native transfers: the absolute amounts are summed, and the sum in SOL becomes
  \<open>amountSol\<close> when it is positive and no amount was found before.
\<close>

definition scan_nativeTransfers :: "transaction \<Rightarrow> swap_vars \<Rightarrow> swap_vars" where
  "scan_nativeTransfers tx v =
     (case nativeTransfers tx of
        Val transfers \<Rightarrow>
          (let totalSol = fold (\<lambda>t total. if truthy_num (amount t)
                                             then total + \<bar>or_zero (amount t)\<bar> else total)
                               transfers 0
           in if totalSol > 0 \<and> \<not> truthy_num (v_amountSol v)
              then v\<lparr>v_amountSol := Val (totalSol / 1000000000)\<rparr> else v)
      | _ \<Rightarrow> v)"

text \<open>\<open>a || b\<close> on strings, and the first mint of a list of token legs.\<close>

definition str_or :: "string jsval \<Rightarrow> string jsval \<Rightarrow> string jsval" where
  "str_or a b = (if truthy_str a then a else b)"

definition first_mint :: "string jsval list jsval \<Rightarrow> string jsval" where
  "first_mint legs = (case legs of Val (m # _) \<Rightarrow> m | _ \<Rightarrow> Undefined)"

text \<open>
  The parsed swap event, when there is one: it supplies a mint if the transfers gave
  none, and the side from the native leg.
\<close>

definition scan_swapEvent :: "transaction \<Rightarrow> swap_vars \<Rightarrow> swap_vars" where
  "scan_swapEvent tx v =
     (case events_swap tx of
        Val ev \<Rightarrow>
          (let v1 = v\<lparr>v_tokenMint := str_or (v_tokenMint v)
                                     (str_or (first_mint (tokenOutputs ev))
                                             (first_mint (tokenInputs ev)))\<rparr>
           in if truthy_num (nativeOutput_amount ev)
                then v1\<lparr>v_side := ''sell'', v_seller := feePayer tx\<rparr>
              else if truthy_num (nativeInput_amount ev)
                then v1\<lparr>v_side := ''buy'', v_buyer := feePayer tx\<rparr>
              else v1)
      | _ \<Rightarrow> v)"

text \<open>\<open>isDexPool\<close> is a placeholder that answers false, so no pool address is found.\<close>

definition isDexPool :: "string \<Rightarrow> bool" where
  "isDexPool address = False"

definition find_poolAddress :: "transaction \<Rightarrow> string jsval" where
  "find_poolAddress tx =
     (case accountData tx of
        Val accounts \<Rightarrow>
          (case find (\<lambda>a. case a of Val s \<Rightarrow> s \<noteq> [] \<and> isDexPool s | _ \<Rightarrow> False) accounts of
             Some a \<Rightarrow> a
           | None \<Rightarrow> Null)
      | _ \<Rightarrow> Null)"

text \<open>
  The timestamp of the record: \<open>new Date(tx.timestamp * 1000).toISOString()\<close> for a
  truthy \<open>tx.timestamp\<close> (epoch seconds), the clock otherwise.  \<open>toISOString\<close> raises a
  RangeError on a time beyond the range of \<open>Date\<close>, 8640000000000000 milliseconds either
  side of the epoch.
\<close>

definition swap_timestamp :: "int \<Rightarrow> transaction \<Rightarrow> js_error + int" where
  "swap_timestamp now tx =
     (case tx_timestamp tx of
        Val t \<Rightarrow>
          (if t \<noteq> 0
           then (if \<bar>t * 1000\<bar> \<le> 8640000000000000 then Inr (t * 1000) else Inl RangeError)
           else Inr now)
      | _ \<Rightarrow> Inr now)"

text \<open>
  \<open>parseSwapTransaction(tx)\<close>: null when no token was identified or when it is a quote
  asset, the swap record otherwise.  \<open>now\<close> is the clock.  \<open>tx.source || 'unknown'\<close> fills
  the source.
\<close>

definition parseSwapTransaction :: "int \<Rightarrow> transaction \<Rightarrow> js_error + swap option" where
  "parseSwapTransaction now tx =
     (case swap_timestamp now tx of
        Inl e \<Rightarrow> Inl e
      | Inr timestamp \<Rightarrow>
          (let v = scan_swapEvent tx (scan_nativeTransfers tx (scan_tokenTransfers tx initial_vars));
               poolAddress = find_poolAddress tx
           in if \<not> truthy_str (v_tokenMint v) then Inr None
              else if is_quote (v_tokenMint v) then Inr None
              else Inr (Some \<lparr>token_mint = v_tokenMint v, signature = tx_signature tx,
                     ts = timestamp,
                     side = Val (v_side v), amount_usd = Null, amount_token = v_amountToken v,
                     amount_sol = v_amountSol v, buyer = v_buyer v, seller = v_seller v,
                     pool_address = poolAddress,
                     meta_source = str_or (tx_source tx) (Val ''unknown''),
                     meta_type = tx_type tx, meta_fee_payer = feePayer tx\<rparr>)))"

text \<open>
  To state what the scan finds: the first and the last transfer of a list that is not a
  quote asset, and the mint the function ends up with, which is the mint of the last
  such transfer, completed from the swap event when there is one.
\<close>

definition first_non_quote :: "tokenTransfer list \<Rightarrow> tokenTransfer option" where
  "first_non_quote transfers = find (\<lambda>t. \<not> is_quote (transfer_mint t)) transfers"

definition last_non_quote :: "tokenTransfer list \<Rightarrow> tokenTransfer option" where
  "last_non_quote transfers = find (\<lambda>t. \<not> is_quote (transfer_mint t)) (rev transfers)"

definition subject_mint :: "transaction \<Rightarrow> string jsval" where
  "subject_mint tx =
     (let m = (case tokenTransfers tx of
                 Val transfers \<Rightarrow>
                   (case last_non_quote transfers of Some t \<Rightarrow> transfer_mint t | None \<Rightarrow> Null)
               | _ \<Rightarrow> Null)
      in case events_swap tx of
           Val ev \<Rightarrow> str_or m (str_or (first_mint (tokenOutputs ev)) (first_mint (tokenInputs ev)))
         | _ \<Rightarrow> m)"

text \<open>Transactions used to state the properties: one with two token legs, neither a
  quote asset, and its two transfers.\<close>

definition leg_X :: tokenTransfer where
  "leg_X = \<lparr>transfer_mint = Val ''MemeX'', fromUserAccount = Val ''Pool1'',
             toUserAccount = Val ''Trader'', tokenAmount = Val 1000\<rparr>"

definition leg_Y :: tokenTransfer where
  "leg_Y = \<lparr>transfer_mint = Val ''MemeY'', fromUserAccount = Val ''Trader'',
             toUserAccount = Val ''Pool2'', tokenAmount = Val 50\<rparr>"

definition two_leg_tx :: transaction where
  "two_leg_tx =
     \<lparr>tx_signature = Val ''sig-1'', tx_timestamp = Val 1700000000, tx_type = Val ''SWAP'',
      tx_source = Val ''JUPITER'', feePayer = Val ''Trader'',
      tokenTransfers = Val [leg_X, leg_Y], nativeTransfers = Undefined,
      events_swap = Undefined, accountData = Undefined\<rparr>"

section \<open>Metrics aggregation (supabase.js, getSwapMetrics)\<close>

text \<open>
  A JavaScript \<open>Set\<close> of strings: the members in insertion order, each once.
\<close>

definition Set_add :: "string list \<Rightarrow> string \<Rightarrow> string list" where
  "Set_add s x = (if x \<in> set s then s else s @ [x])"

definition Set_size :: "string list \<Rightarrow> nat" where
  "Set_size s = length s"

text \<open>\<open>if (swap.buyer) set.add(swap.buyer)\<close>: only a non-empty string is added.\<close>

definition add_if_truthy :: "string jsval \<Rightarrow> string list \<Rightarrow> string list" where
  "add_if_truthy who s = (case who of Val w \<Rightarrow> (if w \<noteq> [] then Set_add s w else s) | _ \<Rightarrow> s)"

text \<open>The \<open>metrics\<close> object of the function while the loop runs: counters, sets, sums.\<close>

record metrics_acc =
  acc_swaps_1m :: nat
  acc_swaps_5m :: nat
  acc_swaps_15m :: nat
  acc_unique_buyers_1m :: "string list"
  acc_unique_buyers_5m :: "string list"
  acc_unique_buyers_15m :: "string list"
  acc_unique_sellers_1m :: "string list"
  acc_unique_sellers_5m :: "string list"
  acc_volume_usd_1m :: rat
  acc_volume_usd_5m :: rat
  acc_volume_usd_15m :: rat
  acc_buy_volume_usd_1m :: rat
  acc_sell_volume_usd_1m :: rat

definition empty_acc :: metrics_acc where
  "empty_acc =
     \<lparr>acc_swaps_1m = 0, acc_swaps_5m = 0, acc_swaps_15m = 0,
      acc_unique_buyers_1m = [], acc_unique_buyers_5m = [], acc_unique_buyers_15m = [],
      acc_unique_sellers_1m = [], acc_unique_sellers_5m = [],
      acc_volume_usd_1m = 0, acc_volume_usd_5m = 0, acc_volume_usd_15m = 0,
      acc_buy_volume_usd_1m = 0, acc_sell_volume_usd_1m = 0\<rparr>"

text \<open>The snapshot the function returns: the counters, the sizes of the sets, the sums.\<close>

record swap_metrics =
  sm_swaps_1m :: nat
  sm_swaps_5m :: nat
  sm_swaps_15m :: nat
  sm_unique_buyers_1m :: nat
  sm_unique_buyers_5m :: nat
  sm_unique_buyers_15m :: nat
  sm_unique_sellers_1m :: nat
  sm_unique_sellers_5m :: nat
  sm_volume_usd_1m :: rat
  sm_volume_usd_5m :: rat
  sm_volume_usd_15m :: rat
  sm_buy_volume_usd_1m :: rat
  sm_sell_volume_usd_1m :: rat

definition zero_snapshot :: swap_metrics where
  "zero_snapshot =
     \<lparr>sm_swaps_1m = 0, sm_swaps_5m = 0, sm_swaps_15m = 0,
      sm_unique_buyers_1m = 0, sm_unique_buyers_5m = 0, sm_unique_buyers_15m = 0,
      sm_unique_sellers_1m = 0, sm_unique_sellers_5m = 0,
      sm_volume_usd_1m = 0, sm_volume_usd_5m = 0, sm_volume_usd_15m = 0,
      sm_buy_volume_usd_1m = 0, sm_sell_volume_usd_1m = 0\<rparr>"

text \<open>
  The body of the loop for one swap.  The first block is the 15 minute window; the
  seller is added there to \<open>unique_sellers_5m\<close>.  The second block is the 5 minute window,
  the third the 1 minute window.  \<open>volume\<close> is \<open>parseFloat(swap.amount_usd) || 0\<close>.
  The volume sums are exact here; the source adds doubles.
\<close>

definition swap_step :: "int \<Rightarrow> int \<Rightarrow> swap \<Rightarrow> metrics_acc \<Rightarrow> metrics_acc" where
  "swap_step oneMinTime fiveMinTime sw acc =
     (let swapTime = ts sw;
          volume = or_zero (amount_usd sw);
          a15 = acc\<lparr>acc_swaps_15m := acc_swaps_15m acc + 1,
                    acc_volume_usd_15m := acc_volume_usd_15m acc + volume,
                    acc_unique_buyers_15m := add_if_truthy (buyer sw) (acc_unique_buyers_15m acc),
                    acc_unique_sellers_5m := add_if_truthy (seller sw) (acc_unique_sellers_5m acc)\<rparr>;
          a5 = (if swapTime \<ge> fiveMinTime
                then a15\<lparr>acc_swaps_5m := acc_swaps_5m a15 + 1,
                         acc_volume_usd_5m := acc_volume_usd_5m a15 + volume,
                         acc_unique_buyers_5m := add_if_truthy (buyer sw) (acc_unique_buyers_5m a15)\<rparr>
                else a15)
      in if swapTime \<ge> oneMinTime
         then (let a1 = a5\<lparr>acc_swaps_1m := acc_swaps_1m a5 + 1,
                            acc_volume_usd_1m := acc_volume_usd_1m a5 + volume,
                            acc_unique_buyers_1m := add_if_truthy (buyer sw) (acc_unique_buyers_1m a5),
                            acc_unique_sellers_1m := add_if_truthy (seller sw) (acc_unique_sellers_1m a5)\<rparr>
               in if side sw = Val ''buy''
                    then a1\<lparr>acc_buy_volume_usd_1m := acc_buy_volume_usd_1m a1 + volume\<rparr>
                  else if side sw = Val ''sell''
                    then a1\<lparr>acc_sell_volume_usd_1m := acc_sell_volume_usd_1m a1 + volume\<rparr>
                  else a1)
         else a5)"

definition snapshot_of :: "metrics_acc \<Rightarrow> swap_metrics" where
  "snapshot_of acc =
     \<lparr>sm_swaps_1m = acc_swaps_1m acc, sm_swaps_5m = acc_swaps_5m acc,
      sm_swaps_15m = acc_swaps_15m acc,
      sm_unique_buyers_1m = Set_size (acc_unique_buyers_1m acc),
      sm_unique_buyers_5m = Set_size (acc_unique_buyers_5m acc),
      sm_unique_buyers_15m = Set_size (acc_unique_buyers_15m acc),
      sm_unique_sellers_1m = Set_size (acc_unique_sellers_1m acc),
      sm_unique_sellers_5m = Set_size (acc_unique_sellers_5m acc),
      sm_volume_usd_1m = acc_volume_usd_1m acc, sm_volume_usd_5m = acc_volume_usd_5m acc,
      sm_volume_usd_15m = acc_volume_usd_15m acc,
      sm_buy_volume_usd_1m = acc_buy_volume_usd_1m acc,
      sm_sell_volume_usd_1m = acc_sell_volume_usd_1m acc\<rparr>"

text \<open>
  \<open>minutesAgo(n)\<close> is the clock less \<open>n\<close> minutes.  The source reads the clock anew in
  each of its three calls and subtracts the minutes in local time; the model takes the
  three cutoffs from one reading \<open>now\<close> and a local time without a clock change in the
  window.  The query returns the swaps of the mint from the last 15 minutes, newest first.
\<close>

definition minutesAgo :: "int \<Rightarrow> int \<Rightarrow> int" where
  "minutesAgo now minutes = now - minutes * 60000"

definition select_swaps :: "swap list \<Rightarrow> string \<Rightarrow> int \<Rightarrow> swap list" where
  "select_swaps table tokenMint fifteenMinAgo =
     sort_key (\<lambda>s. - ts s)
       (filter (\<lambda>s. token_mint s = Val tokenMint \<and> ts s \<ge> fifteenMinAgo) table)"

text \<open>
  \<open>getSwapMetrics(tokenMint)\<close>: a failed query raises; no rows give the all-zero
  snapshot; otherwise the loop runs over the rows.
\<close>

definition metrics_of_swaps :: "int \<Rightarrow> swap list \<Rightarrow> swap_metrics" where
  "metrics_of_swaps now swaps =
     (if swaps = [] then zero_snapshot
      else snapshot_of (fold (swap_step (minutesAgo now 1) (minutesAgo now 5)) swaps empty_acc))"

definition getSwapMetrics :: "bool \<Rightarrow> int \<Rightarrow> swap list \<Rightarrow> string \<Rightarrow> failure + swap_metrics" where
  "getSwapMetrics query_fails now table tokenMint =
     (if query_fails then Inl DbError
      else Inr (metrics_of_swaps now (select_swaps table tokenMint (minutesAgo now 15))))"

text \<open>A swap of ten minutes before the clock reads 1000000, with a seller and no buyer.\<close>

definition old_sell :: swap where
  "old_sell =
     \<lparr>token_mint = Val ''MemeX'', signature = Val ''sig-9'', ts = 400000, side = Val ''sell'',
      amount_usd = Val 5, amount_token = Val 100, amount_sol = Null, buyer = Null,
      seller = Val ''Wallet1'', pool_address = Null, meta_source = Val ''unknown'',
      meta_type = Val ''SWAP'', meta_fee_payer = Val ''Wallet1''\<rparr>"

text \<open>
  To state what the snapshot counts: the volume of a swap, the wallets named by a field
  of the swaps of a list, and the swaps at or after a cutoff.
\<close>

definition volume_of :: "swap \<Rightarrow> rat" where
  "volume_of sw = or_zero (amount_usd sw)"

definition wallets :: "(swap \<Rightarrow> string jsval) \<Rightarrow> swap list \<Rightarrow> string set" where
  "wallets field swaps = {w. w \<noteq> [] \<and> Val w \<in> field ` set swaps}"

definition since :: "int \<Rightarrow> swap list \<Rightarrow> swap list" where
  "since cutoff swaps = filter (\<lambda>s. ts s \<ge> cutoff) swaps"

section \<open>Properties of the deduplication cache\<close>

lemma map_set_absent: "k \<notin> set (map fst m) \<Longrightarrow> map_set m k v = m @ [(k, v)]"
  by (induction m) auto

lemma keys_map_delete: "map fst (map_delete m k) = filter (\<lambda>x. x \<noteq> k) (map fst m)"
  by (induction m) (auto simp: map_delete_def)

lemma map_get_present: "k \<in> set (map fst m) \<Longrightarrow> \<exists>v. map_get m k = Some v"
  unfolding map_get_def by (induction m) auto

lemma has_present:
  assumes "k \<in> set (map fst (cache c))"
  shows "\<exists>v. LRUCache_has c k = (True, c\<lparr>cache := map_delete (cache c) k @ [(k, v)]\<rparr>)"
proof -
  obtain v where v: "map_get (cache c) k = Some v"
    using map_get_present[OF assms] by blast
  have "k \<notin> set (map fst (map_delete (cache c) k))"
    by (simp add: keys_map_delete)
  then have "map_set (map_delete (cache c) k) k v = map_delete (cache c) k @ [(k, v)]"
    by (rule map_set_absent)
  with v assms have "LRUCache_has c k = (True, c\<lparr>cache := map_delete (cache c) k @ [(k, v)]\<rparr>)"
    by (simp add: LRUCache_has_def map_has_def)
  then show ?thesis by blast
qed

lemma has_absent: "k \<notin> set (map fst (cache c)) \<Longrightarrow> LRUCache_has c k = (False, c)"
  by (simp add: LRUCache_has_def map_has_def)

lemma has_result: "fst (LRUCache_has c k) = (k \<in> set (eviction_order c))"
proof (cases "k \<in> set (map fst (cache c))")
  case True
  then show ?thesis using has_present[OF True] by (auto simp: eviction_order_def map_keys_def)
next
  case False
  then show ?thesis using has_absent[OF False] by (simp add: eviction_order_def map_keys_def)
qed

lemma has_order:
  "eviction_order (snd (LRUCache_has c k)) =
     (if k \<in> set (eviction_order c)
      then filter (\<lambda>x. x \<noteq> k) (eviction_order c) @ [k] else eviction_order c)"
proof (cases "k \<in> set (map fst (cache c))")
  case True
  then show ?thesis using has_present[OF True]
    by (auto simp: eviction_order_def map_keys_def keys_map_delete)
next
  case False
  then show ?thesis using has_absent[OF False] by (simp add: eviction_order_def map_keys_def)
qed

lemma has_maxSize: "maxSize (snd (LRUCache_has c k)) = maxSize c"
  by (auto simp: LRUCache_has_def split: option.splits)

lemma add_order:
  "eviction_order (LRUCache_add c k v) =
     (if k \<in> set (eviction_order c) then filter (\<lambda>x. x \<noteq> k) (eviction_order c) @ [k]
      else if length (eviction_order c) \<ge> maxSize c then
        (case eviction_order c of [] \<Rightarrow> [k]
         | f # r \<Rightarrow> filter (\<lambda>x. x \<noteq> f) (eviction_order c) @ [k])
      else eviction_order c @ [k])"
  by (auto simp: LRUCache_add_def eviction_order_def map_keys_def map_has_def map_size_def
        map_set_absent keys_map_delete Let_def split: list.splits)

lemma add_maxSize: "maxSize (LRUCache_add c k v) = maxSize c"
  by (auto simp: LRUCache_add_def Let_def)

lemma cam_result: "fst (checkAndMarkSignature c k) = (k \<notin> set (eviction_order c))"
  using has_result[of c k]
  by (auto simp: checkAndMarkSignature_def split: prod.splits bool.splits)

lemma cam_order:
  "eviction_order (snd (checkAndMarkSignature c k)) =
     (if k \<in> set (eviction_order c) then filter (\<lambda>x. x \<noteq> k) (eviction_order c) @ [k]
      else if length (eviction_order c) \<ge> maxSize c then
        (case eviction_order c of [] \<Rightarrow> [k]
         | f # r \<Rightarrow> filter (\<lambda>x. x \<noteq> f) (eviction_order c) @ [k])
      else eviction_order c @ [k])"
proof (cases "k \<in> set (map fst (cache c))")
  case True
  then show ?thesis using has_present[OF True]
    by (auto simp: checkAndMarkSignature_def eviction_order_def map_keys_def keys_map_delete)
next
  case False
  then show ?thesis using has_absent[OF False] add_order[of c k True]
    by (simp add: checkAndMarkSignature_def eviction_order_def map_keys_def)
qed

lemma cam_maxSize: "maxSize (snd (checkAndMarkSignature c k)) = maxSize c"
  using has_maxSize[of c k] add_maxSize[of "snd (LRUCache_has c k)" k True]
  by (auto simp: checkAndMarkSignature_def split: prod.splits bool.splits)

lemma cam_distinct:
  "distinct (eviction_order c) \<Longrightarrow> distinct (eviction_order (snd (checkAndMarkSignature c k)))"
  by (auto simp: cam_order split: list.splits)

lemma calls_Cons_fst:
  "fst (checkAndMark_calls c (k # ks)) =
     fst (checkAndMarkSignature c k) # fst (checkAndMark_calls (snd (checkAndMarkSignature c k)) ks)"
  by (simp split: prod.splits)

lemma calls_Cons_snd:
  "snd (checkAndMark_calls c (k # ks)) = snd (checkAndMark_calls (snd (checkAndMarkSignature c k)) ks)"
  by (simp split: prod.splits)

lemma calls_length: "length (fst (checkAndMark_calls c ks)) = length ks"
  by (induction ks arbitrary: c) (simp_all add: calls_Cons_fst del: checkAndMark_calls.simps(2))

lemma calls_snd_append:
  "snd (checkAndMark_calls c (ks @ ks')) = snd (checkAndMark_calls (snd (checkAndMark_calls c ks)) ks')"
  by (induction ks arbitrary: c) (simp_all add: calls_Cons_snd del: checkAndMark_calls.simps(2))

lemma calls_maxSize: "maxSize (snd (checkAndMark_calls c ks)) = maxSize c"
  by (induction ks arbitrary: c)
    (simp_all add: calls_Cons_snd cam_maxSize del: checkAndMark_calls.simps(2))

lemma calls_nth:
  "i < length ks \<Longrightarrow>
   fst (checkAndMark_calls c ks) ! i =
     (ks ! i \<notin> set (eviction_order (snd (checkAndMark_calls c (take i ks)))))"
proof (induction ks arbitrary: c i)
  case Nil
  then show ?case by simp
next
  case (Cons k ks)
  show ?case
  proof (cases i)
    case 0
    then show ?thesis by (simp add: calls_Cons_fst cam_result del: checkAndMark_calls.simps(2))
  next
    case (Suc j)
    with Cons.prems have "j < length ks" by simp
    from Cons.IH[OF this, of "snd (checkAndMarkSignature c k)"] show ?thesis using Suc
      by (simp add: calls_Cons_fst calls_Cons_snd del: checkAndMark_calls.simps(2))
  qed
qed

lemma cam_keys_subset:
  "set (eviction_order (snd (checkAndMarkSignature c k))) \<subseteq> insert k (set (eviction_order c))"
  by (auto simp: cam_order split: list.splits if_splits)

lemma calls_keys_subset:
  "set (eviction_order (snd (checkAndMark_calls c ks))) \<subseteq> set (eviction_order c) \<union> set ks"
proof (induction ks arbitrary: c)
  case Nil
  then show ?case by simp
next
  case (Cons k ks)
  have "set (eviction_order (snd (checkAndMarkSignature c k))) \<subseteq> insert k (set (eviction_order c))"
    by (rule cam_keys_subset)
  with Cons.IH[of "snd (checkAndMarkSignature c k)"] show ?case
    by (auto simp add: calls_Cons_snd simp del: checkAndMark_calls.simps(2))
qed

lemma new_order: "eviction_order (new_LRUCache n) = []"
  by (simp add: new_LRUCache_def eviction_order_def map_keys_def)

lemma calls_snoc_snd:
  "snd (checkAndMark_calls c (ks @ [k])) = snd (checkAndMarkSignature (snd (checkAndMark_calls c ks)) k)"
  by (simp add: calls_snd_append calls_Cons_snd del: checkAndMark_calls.simps(2))

lemma calls_fill:
  "distinct ks \<Longrightarrow> length ks \<le> n \<Longrightarrow>
   eviction_order (snd (checkAndMark_calls (new_LRUCache n) ks)) = ks"
proof (induction ks rule: rev_induct)
  case Nil
  then show ?case by (simp add: new_order)
next
  case (snoc k ks)
  let ?c = "snd (checkAndMark_calls (new_LRUCache n) ks)"
  have o: "eviction_order ?c = ks" using snoc by simp
  have m: "maxSize ?c = n" by (simp add: calls_maxSize new_LRUCache_def)
  show ?case using snoc.prems o m by (simp add: calls_snoc_snd cam_order)
qed

lemma cam_evicts_lru:
  assumes "distinct (eviction_order c)" "length (eviction_order c) = maxSize c" "0 < maxSize c"
    "k \<notin> set (eviction_order c)"
  shows "eviction_order (snd (checkAndMarkSignature c k)) = tl (eviction_order c) @ [k]"
proof (cases "eviction_order c")
  case Nil
  with assms show ?thesis by simp
next
  case (Cons f r)
  with assms have "filter (\<lambda>x. x \<noteq> f) (f # r) = r" by (auto intro: filter_True)
  with assms Cons show ?thesis by (simp add: cam_order)
qed

lemma calls_overflow:
  assumes "0 < n" "distinct ks" "length ks = n + 1"
  shows "eviction_order (snd (checkAndMark_calls (new_LRUCache n) ks)) = tl ks"
proof -
  from assms obtain ks' k where ks: "ks = ks' @ [k]"
    by (cases ks rule: rev_cases) auto
  let ?c = "snd (checkAndMark_calls (new_LRUCache n) ks')"
  have d: "distinct ks'" and l: "length ks' = n" and nk: "k \<notin> set ks'"
    using assms ks by auto
  have o: "eviction_order ?c = ks'" using calls_fill[of ks' n] d l by simp
  have m: "maxSize ?c = n" by (simp add: calls_maxSize new_LRUCache_def)
  have "eviction_order (snd (checkAndMarkSignature ?c k)) = tl (eviction_order ?c) @ [k]"
    by (rule cam_evicts_lru) (use o m d l nk assms in auto)
  moreover have "ks' \<noteq> []" using l assms by auto
  ultimately show ?thesis using ks o by (simp add: calls_snoc_snd)
qed

lemma cam_keeps_until_evicted:
  assumes "k \<in> set (eviction_order c)"
  shows "k \<in> set (eviction_order (snd (checkAndMarkSignature c k')))
         \<or> (k' \<notin> set (eviction_order c) \<and> maxSize c \<le> length (eviction_order c)
            \<and> hd (eviction_order c) = k)"
  using assms by (auto simp: cam_order split: list.splits)

lemma map_of_delete:
  "map_of (map_delete m k) x = (if x = k then None else map_of m x)"
  by (induction m) (auto simp: map_delete_def)

lemma has_values: "map_get (cache (snd (LRUCache_has c k))) x = map_get (cache c) x"
proof (cases "k \<in> set (map fst (cache c))")
  case True
  obtain v where v: "map_get (cache c) k = Some v" using map_get_present[OF True] by blast
  have "k \<notin> set (map fst (map_delete (cache c) k))"
    by (simp add: keys_map_delete)
  then have "map_set (map_delete (cache c) k) k v = map_delete (cache c) k @ [(k, v)]"
    by (rule map_set_absent)
  with True v show ?thesis
    by (auto simp add: LRUCache_has_def map_has_def map_get_def map_of_delete map_add_def split: option.splits)
next
  case False
  then show ?thesis by (simp add: has_absent)
qed

lemma module_caches_capacity:
  "maxSize signatureCache = 50000 \<and> maxSize mintCache = 10000 \<and> maxSize eventCache = 20000
   \<and> eviction_order signatureCache = []"
  by (simp add: signatureCache_def mintCache_def eventCache_def new_LRUCache_def
      eviction_order_def map_keys_def)

lemmas cache_eval = hasSeenSignature_def markSignatureSeen_def checkAndMarkSignature_def
  new_LRUCache_def LRUCache_add_def LRUCache_has_def map_has_def map_get_def map_delete_def
  map_size_def map_keys_def eviction_order_def

text \<open>
  Claim C5, as the code has it.  \<open>hasSeenSignature\<close> answers whether the key is in the
  cache and changes neither the capacity, the set of keys nor the value stored under any
  key.  On an absent key the cache is left exactly as it was.  On a present key the key is
  moved to the most-recently-used end of the eviction order, and the other keys keep
  their relative order.
\<close>

theorem hasSeenSignature_promotes_present_key:
  "fst (hasSeenSignature c k) = (k \<in> set (eviction_order c))
   \<and> maxSize (snd (hasSeenSignature c k)) = maxSize c
   \<and> set (eviction_order (snd (hasSeenSignature c k))) = set (eviction_order c)
   \<and> (\<forall>x. map_get (cache (snd (hasSeenSignature c k))) x = map_get (cache c) x)
   \<and> (if k \<in> set (eviction_order c)
      then eviction_order (snd (hasSeenSignature c k))
             = filter (\<lambda>x. x \<noteq> k) (eviction_order c) @ [k]
      else snd (hasSeenSignature c k) = c)"
proof -
  have "k \<notin> set (eviction_order c) \<Longrightarrow> snd (LRUCache_has c k) = c"
    by (simp add: has_absent eviction_order_def map_keys_def)
  moreover have "set (eviction_order (snd (LRUCache_has c k))) = set (eviction_order c)"
    by (auto simp: has_order)
  ultimately show ?thesis
    by (simp add: hasSeenSignature_def has_result has_maxSize has_values has_order)
qed

theorem hasSeenSignature_promotes_present_key_witness:
  "fst (hasSeenSignature (markSignatureSeen (markSignatureSeen (new_LRUCache 2) ''sigA'') ''sigB'') ''sigA'')
   \<and> eviction_order (snd (hasSeenSignature
         (markSignatureSeen (markSignatureSeen (new_LRUCache 2) ''sigA'') ''sigB'') ''sigA''))
       = [''sigB'', ''sigA'']
   \<and> snd (hasSeenSignature (markSignatureSeen (new_LRUCache 2) ''sigA'') ''sigB'')
       = markSignatureSeen (new_LRUCache 2) ''sigA''"
  using hasSeenSignature_promotes_present_key
          [of "markSignatureSeen (markSignatureSeen (new_LRUCache 2) ''sigA'') ''sigB''" "''sigA''"]
        hasSeenSignature_promotes_present_key
          [of "markSignatureSeen (new_LRUCache 2) ''sigA''" "''sigB''"]
  by (simp add: cache_eval)

text \<open>
  Claim C5 as stated fails: with \<open>sigA\<close> marked before \<open>sigB\<close>, a membership test on
  \<open>sigA\<close> changes the eviction order from \<open>sigA, sigB\<close> to \<open>sigB, sigA\<close>.
\<close>

theorem hasSeenSignature_recency_counterexample:
  "eviction_order (snd (hasSeenSignature
       (markSignatureSeen (markSignatureSeen (new_LRUCache 2) ''sigA'') ''sigB'') ''sigA''))
   \<noteq> eviction_order (markSignatureSeen (markSignatureSeen (new_LRUCache 2) ''sigA'') ''sigB'')"
  by (simp add: cache_eval)

text \<open>
  Claim C6.  A \<open>checkAndMarkSignature\<close> call answers true exactly when the key is not in
  the cache, and the key is in the cache afterwards.  So in any sequence of calls the
  answer at position \<open>i\<close> is true exactly when the key is not in the cache just before
  that call; starting from an empty cache, the first call for a key answers true.  A key
  in the cache stays there through a call for another key unless that call inserts a new
  key into a full cache and the key is the first in eviction order, which is the only way
  a later call for it can answer true again.  Inserting a new key into a full cache of
  capacity at least one removes exactly the least recently used key, and \<open>n + 1\<close>
  distinct keys put into an empty cache of capacity \<open>n\<close> leave all of them but the first.
  The keys of a cache are distinct, as those of a \<open>Map\<close> are: a new cache has none, and a
  call keeps them distinct.
\<close>

theorem checkAndMark_first_true_then_false_until_evicted:
  "fst (checkAndMarkSignature c k) = (k \<notin> set (eviction_order c))
   \<and> k \<in> set (eviction_order (snd (checkAndMarkSignature c k)))
   \<and> (i < length ks \<longrightarrow>
        fst (checkAndMark_calls c ks) ! i
          = (ks ! i \<notin> set (eviction_order (snd (checkAndMark_calls c (take i ks))))))
   \<and> (i < length ks \<and> ks ! i \<notin> set (take i ks) \<longrightarrow>
        fst (checkAndMark_calls (new_LRUCache n) ks) ! i)
   \<and> (k' \<in> set (eviction_order c) \<longrightarrow>
        k' \<in> set (eviction_order (snd (checkAndMarkSignature c k)))
        \<or> (k \<notin> set (eviction_order c) \<and> maxSize c \<le> length (eviction_order c)
            \<and> hd (eviction_order c) = k'))
   \<and> (distinct (eviction_order c) \<and> 0 < maxSize c \<and> length (eviction_order c) = maxSize c
        \<and> k \<notin> set (eviction_order c) \<longrightarrow>
        eviction_order (snd (checkAndMarkSignature c k)) = tl (eviction_order c) @ [k])
   \<and> (0 < n \<and> distinct ks \<and> length ks = n + 1 \<longrightarrow>
        eviction_order (snd (checkAndMark_calls (new_LRUCache n) ks)) = tl ks)
   \<and> distinct (eviction_order (new_LRUCache n))
   \<and> (distinct (eviction_order c) \<longrightarrow>
        distinct (eviction_order (snd (checkAndMarkSignature c k))))"
proof -
  have recorded: "k \<in> set (eviction_order (snd (checkAndMarkSignature c k)))"
    by (auto simp: cam_order split: list.splits)
  have first: "fst (checkAndMark_calls (new_LRUCache n) ks) ! i"
    if "i < length ks" "ks ! i \<notin> set (take i ks)"
  proof -
    have "set (eviction_order (snd (checkAndMark_calls (new_LRUCache n) (take i ks)))) \<subseteq> set (take i ks)"
      using calls_keys_subset[of "new_LRUCache n" "take i ks"] by (simp add: new_order)
    with that show ?thesis by (auto simp: calls_nth)
  qed
  show ?thesis
    using recorded first cam_keeps_until_evicted[of k' c k] cam_evicts_lru[of c k]
      calls_overflow[of n ks] cam_distinct[of c k]
    by (simp add: cam_result calls_nth new_order)
qed

theorem checkAndMark_first_true_then_false_until_evicted_witness:
  "fst (checkAndMark_calls (new_LRUCache 2) [''s1'', ''s2'', ''s1'', ''s3'', ''s2'']) 
      = [True, True, False, True, True]
   \<and> distinct (eviction_order (markSignatureSeen (markSignatureSeen (new_LRUCache 2) ''s1'') ''s2''))
   \<and> eviction_order (snd (checkAndMarkSignature
        (markSignatureSeen (markSignatureSeen (new_LRUCache 2) ''s1'') ''s2'') ''s3''))
      = [''s2'', ''s3'']
   \<and> (2::nat) < length [''s1'', ''s2'', ''s3'']
   \<and> distinct [''s1'', ''s2'', ''s3'']
   \<and> eviction_order (snd (checkAndMark_calls (new_LRUCache 2) [''s1'', ''s2'', ''s3'']))
      = [''s2'', ''s3'']"
  using checkAndMark_first_true_then_false_until_evicted
          [of "markSignatureSeen (markSignatureSeen (new_LRUCache 2) ''s1'') ''s2''" "''s3''"
              2 "[''s1'', ''s2'', ''s3'']" 2 "''s1''"]
  by (simp add: cache_eval)

section \<open>Properties of the scoring engine\<close>

lemma sbt_liquidity:
  "scoreByThreshold v LIQUIDITY_THRESHOLDS =
     Inr (if v \<ge> 50000 then (25, ''LIQ_50K_PLUS'') else if v \<ge> 20000 then (18, ''LIQ_20K_PLUS'')
          else if v \<ge> 10000 then (12, ''LIQ_10K_PLUS'') else if v \<ge> 5000 then (6, ''LIQ_5K_PLUS'')
          else (0, ''LIQ_BELOW_5K''))"
  by (simp add: scoreByThreshold_def LIQUIDITY_THRESHOLDS_def)

lemma sbt_buyers1m:
  "scoreByThreshold v UNIQUE_BUYERS_1M_THRESHOLDS =
     Inr (if v \<ge> 20 then (20, ''BUYERS_1M_20_PLUS'') else if v \<ge> 10 then (14, ''BUYERS_1M_10_PLUS'')
          else if v \<ge> 5 then (8, ''BUYERS_1M_5_PLUS'') else if v \<ge> 2 then (4, ''BUYERS_1M_2_PLUS'')
          else (0, ''BUYERS_1M_BELOW_2''))"
  by (simp add: scoreByThreshold_def UNIQUE_BUYERS_1M_THRESHOLDS_def)

lemma sbt_swaps1m:
  "scoreByThreshold v SWAPS_1M_THRESHOLDS =
     Inr (if v \<ge> 40 then (15, ''SWAPS_1M_40_PLUS'') else if v \<ge> 20 then (10, ''SWAPS_1M_20_PLUS'')
          else if v \<ge> 10 then (6, ''SWAPS_1M_10_PLUS'') else if v \<ge> 5 then (3, ''SWAPS_1M_5_PLUS'')
          else (0, ''SWAPS_1M_BELOW_5''))"
  by (simp add: scoreByThreshold_def SWAPS_1M_THRESHOLDS_def)

lemma sbt_volume1m:
  "scoreByThreshold v VOLUME_1M_THRESHOLDS =
     Inr (if v \<ge> 50000 then (10, ''VOL_1M_50K_PLUS'') else if v \<ge> 20000 then (7, ''VOL_1M_20K_PLUS'')
          else if v \<ge> 10000 then (4, ''VOL_1M_10K_PLUS'') else if v \<ge> 5000 then (2, ''VOL_1M_5K_PLUS'')
          else (0, ''VOL_1M_BELOW_5K''))"
  by (simp add: scoreByThreshold_def VOLUME_1M_THRESHOLDS_def)

lemma sbt_holders:
  "scoreByThreshold v HOLDER_COUNT_THRESHOLDS =
     Inr (if v \<ge> 200 then (10, ''HOLDERS_200_PLUS'') else if v \<ge> 100 then (7, ''HOLDERS_100_PLUS'')
          else if v \<ge> 50 then (4, ''HOLDERS_50_PLUS'') else if v \<ge> 20 then (2, ''HOLDERS_20_PLUS'')
          else (0, ''HOLDERS_BELOW_20''))"
  by (simp add: scoreByThreshold_def HOLDER_COUNT_THRESHOLDS_def)

lemma sbt_buyers5m:
  "scoreByThreshold v UNIQUE_BUYERS_5M_THRESHOLDS =
     Inr (if v \<ge> 50 then (10, ''BUYERS_5M_50_PLUS'') else if v \<ge> 30 then (7, ''BUYERS_5M_30_PLUS'')
          else if v \<ge> 15 then (4, ''BUYERS_5M_15_PLUS'') else if v \<ge> 5 then (2, ''BUYERS_5M_5_PLUS'')
          else (0, ''BUYERS_5M_BELOW_5''))"
  by (simp add: scoreByThreshold_def UNIQUE_BUYERS_5M_THRESHOLDS_def)

lemma sbt_buy_pressure:
  "scoreByThreshold v BUY_PRESSURE_THRESHOLDS =
     Inr (if v \<ge> 7 / 10 then (10, ''BUY_PRESSURE_70_PCT'') else if v \<ge> 6 / 10 then (7, ''BUY_PRESSURE_60_PCT'')
          else if v \<ge> 5 / 10 then (4, ''BUY_PRESSURE_50_PCT'') else if v \<ge> 4 / 10 then (2, ''BUY_PRESSURE_40_PCT'')
          else (0, ''SELL_PRESSURE''))"
  by (simp add: scoreByThreshold_def BUY_PRESSURE_THRESHOLDS_def)

lemma pbt_top10:
  "penaltyByThreshold v TOP10_CONCENTRATION_PENALTIES =
     (if v \<ge> 80 then (-25, ''TOP10_PCT_80_PLUS_PENALTY'') else if v \<ge> 70 then (-18, ''TOP10_PCT_70_PLUS_PENALTY'')
      else if v \<ge> 60 then (-10, ''TOP10_PCT_60_PLUS_PENALTY'') else if v \<ge> 50 then (-5, ''TOP10_PCT_50_PLUS_PENALTY'')
      else if v \<ge> 0 then (0, ''TOP10_PCT_HEALTHY'') else (0, ''HEALTHY''))"
  by (simp add: penaltyByThreshold_def TOP10_CONCENTRATION_PENALTIES_def)

lemma pbt_top1:
  "penaltyByThreshold v TOP1_CONCENTRATION_PENALTIES =
     (if v \<ge> 50 then (-15, ''TOP1_PCT_50_PLUS_PENALTY'') else if v \<ge> 30 then (-10, ''TOP1_PCT_30_PLUS_PENALTY'')
      else if v \<ge> 20 then (-5, ''TOP1_PCT_20_PLUS_PENALTY'')
      else if v \<ge> 0 then (0, ''TOP1_PCT_HEALTHY'') else (0, ''HEALTHY''))"
  by (simp add: penaltyByThreshold_def TOP1_CONCENTRATION_PENALTIES_def)

lemma Math_round_of_int: "Math_round (of_int n) = n"
  unfolding Math_round_def by linarith

lemma bindE_Inr: "bindE (Inr x) f = f x"
  by (simp add: bindE_def)

lemma sbt_total:
  "\<exists>res. scoreByThreshold v LIQUIDITY_THRESHOLDS = Inr res"
  "\<exists>res. scoreByThreshold v UNIQUE_BUYERS_1M_THRESHOLDS = Inr res"
  "\<exists>res. scoreByThreshold v SWAPS_1M_THRESHOLDS = Inr res"
  "\<exists>res. scoreByThreshold v VOLUME_1M_THRESHOLDS = Inr res"
  "\<exists>res. scoreByThreshold v HOLDER_COUNT_THRESHOLDS = Inr res"
  "\<exists>res. scoreByThreshold v UNIQUE_BUYERS_5M_THRESHOLDS = Inr res"
  "\<exists>res. scoreByThreshold v BUY_PRESSURE_THRESHOLDS = Inr res"
  by (simp_all only: sbt_liquidity sbt_buyers1m sbt_swaps1m sbt_volume1m sbt_holders sbt_buyers5m
      sbt_buy_pressure sum.inject simp_thms ex_simps)

lemma score_object_unfold:
  assumes "scoreByThreshold (liquidityUsd s) LIQUIDITY_THRESHOLDS = Inr liq"
    "scoreByThreshold (uniqueBuyers1m s) UNIQUE_BUYERS_1M_THRESHOLDS = Inr b1"
    "scoreByThreshold (swaps1m s) SWAPS_1M_THRESHOLDS = Inr sw"
    "scoreByThreshold (volume1m s) VOLUME_1M_THRESHOLDS = Inr vol"
    "scoreByThreshold (holderCount s) HOLDER_COUNT_THRESHOLDS = Inr hold"
    "scoreByThreshold (uniqueBuyers5m s) UNIQUE_BUYERS_5M_THRESHOLDS = Inr b5"
    "scoreByThreshold (buyRatio s) BUY_PRESSURE_THRESHOLDS = Inr bp"
  shows "\<exists>r. score_object now s = Inr r
    \<and> r_score r = max 0 (min 100 (Math_round (of_int
         (fst liq + fst b1 + fst sw + fst vol + fst hold + fst b5 + fst bp
          + concentration_penalty (top10Result s) + concentration_penalty (top1Result s)
          + authorityPenalty s))))
    \<and> r_reasons r = [snd liq, snd b1, snd sw, snd vol, snd hold, snd b5, snd bp]
         @ concentration_reason (top10Result s) @ concentration_reason (top1Result s)
         @ (case authorityResult s of None \<Rightarrow> [] | Some (ma, fa, a) \<Rightarrow> [auth_reason a])
    \<and> r_components r =
         [(''liquidity'', Positive (liquidityUsd s) (fst liq) MAX_POINTS_LIQUIDITY (snd liq)),
          (''unique_buyers_1m'', Positive (uniqueBuyers1m s) (fst b1) MAX_POINTS_UNIQUE_BUYERS_1M (snd b1)),
          (''swaps_1m'', Positive (swaps1m s) (fst sw) MAX_POINTS_SWAPS_1M (snd sw)),
          (''volume_1m'', Positive (volume1m s) (fst vol) MAX_POINTS_VOLUME_1M (snd vol)),
          (''holder_count'', Positive (holderCount s) (fst hold) MAX_POINTS_HOLDER_COUNT (snd hold)),
          (''unique_buyers_5m'', Positive (uniqueBuyers5m s) (fst b5) MAX_POINTS_UNIQUE_BUYERS_5M (snd b5)),
          (''buy_pressure'', Positive (buyRatio s) (fst bp) MAX_POINTS_BUY_PRESSURE (snd bp))]
         @ concentration_entry ''top10_concentration'' (top10Pct s) (top10Result s)
         @ concentration_entry ''top1_concentration'' (top1Pct s) (top1Result s)
         @ (case authorityResult s of None \<Rightarrow> []
            | Some (ma, fa, a) \<Rightarrow> [(''authority'', Authority ma fa (auth_penalty a) (auth_reason a))])
    \<and> r_risk_flags r =
         (case authorityResult s of None \<Rightarrow> [] | Some (ma, fa, a) \<Rightarrow> [auth_flag a])
         @ (if liquidityUsd s < LOW_LIQUIDITY_threshold then [''LOW_LIQUIDITY_WARNING''] else [])
         @ (if veryNewToken now s then [''VERY_NEW_TOKEN''] else [])
         @ (if holderCount s < LOW_HOLDERS_threshold then [''LOW_HOLDER_COUNT''] else [])
         @ (if volume1m s \<le> NO_VOLUME_threshold then [''NO_RECENT_VOLUME''] else [])
         @ (if top1Pct s > WHALE_CONCENTRATION_threshold then [''WHALE_CONCENTRATION''] else [])
         @ (if priceChange5m s < RAPID_PRICE_DROP_threshold then [''RAPID_PRICE_DROP''] else [])"
  unfolding score_object_def assms bindE_Inr Let_def
  by (simp split del: if_split)

lemma score_object_shape:
  "\<exists>liq b1 sw vol hold b5 bp r.
     scoreByThreshold (liquidityUsd s) LIQUIDITY_THRESHOLDS = Inr liq
   \<and> scoreByThreshold (uniqueBuyers1m s) UNIQUE_BUYERS_1M_THRESHOLDS = Inr b1
   \<and> scoreByThreshold (swaps1m s) SWAPS_1M_THRESHOLDS = Inr sw
   \<and> scoreByThreshold (volume1m s) VOLUME_1M_THRESHOLDS = Inr vol
   \<and> scoreByThreshold (holderCount s) HOLDER_COUNT_THRESHOLDS = Inr hold
   \<and> scoreByThreshold (uniqueBuyers5m s) UNIQUE_BUYERS_5M_THRESHOLDS = Inr b5
   \<and> scoreByThreshold (buyRatio s) BUY_PRESSURE_THRESHOLDS = Inr bp
   \<and> score_object now s = Inr r
   \<and> r_score r = max 0 (min 100 (Math_round (of_int
         (fst liq + fst b1 + fst sw + fst vol + fst hold + fst b5 + fst bp
          + concentration_penalty (top10Result s) + concentration_penalty (top1Result s)
          + authorityPenalty s))))
   \<and> r_reasons r = [snd liq, snd b1, snd sw, snd vol, snd hold, snd b5, snd bp]
         @ concentration_reason (top10Result s) @ concentration_reason (top1Result s)
         @ (case authorityResult s of None \<Rightarrow> [] | Some (ma, fa, a) \<Rightarrow> [auth_reason a])
   \<and> r_components r =
         [(''liquidity'', Positive (liquidityUsd s) (fst liq) MAX_POINTS_LIQUIDITY (snd liq)),
          (''unique_buyers_1m'', Positive (uniqueBuyers1m s) (fst b1) MAX_POINTS_UNIQUE_BUYERS_1M (snd b1)),
          (''swaps_1m'', Positive (swaps1m s) (fst sw) MAX_POINTS_SWAPS_1M (snd sw)),
          (''volume_1m'', Positive (volume1m s) (fst vol) MAX_POINTS_VOLUME_1M (snd vol)),
          (''holder_count'', Positive (holderCount s) (fst hold) MAX_POINTS_HOLDER_COUNT (snd hold)),
          (''unique_buyers_5m'', Positive (uniqueBuyers5m s) (fst b5) MAX_POINTS_UNIQUE_BUYERS_5M (snd b5)),
          (''buy_pressure'', Positive (buyRatio s) (fst bp) MAX_POINTS_BUY_PRESSURE (snd bp))]
         @ concentration_entry ''top10_concentration'' (top10Pct s) (top10Result s)
         @ concentration_entry ''top1_concentration'' (top1Pct s) (top1Result s)
         @ (case authorityResult s of None \<Rightarrow> []
            | Some (ma, fa, a) \<Rightarrow> [(''authority'', Authority ma fa (auth_penalty a) (auth_reason a))])
   \<and> r_risk_flags r =
         (case authorityResult s of None \<Rightarrow> [] | Some (ma, fa, a) \<Rightarrow> [auth_flag a])
         @ (if liquidityUsd s < LOW_LIQUIDITY_threshold then [''LOW_LIQUIDITY_WARNING''] else [])
         @ (if veryNewToken now s then [''VERY_NEW_TOKEN''] else [])
         @ (if holderCount s < LOW_HOLDERS_threshold then [''LOW_HOLDER_COUNT''] else [])
         @ (if volume1m s \<le> NO_VOLUME_threshold then [''NO_RECENT_VOLUME''] else [])
         @ (if top1Pct s > WHALE_CONCENTRATION_threshold then [''WHALE_CONCENTRATION''] else [])
         @ (if priceChange5m s < RAPID_PRICE_DROP_threshold then [''RAPID_PRICE_DROP''] else [])"
proof -
  obtain liq b1 sw vol hold b5 bp where eqs:
    "scoreByThreshold (liquidityUsd s) LIQUIDITY_THRESHOLDS = Inr liq"
    "scoreByThreshold (uniqueBuyers1m s) UNIQUE_BUYERS_1M_THRESHOLDS = Inr b1"
    "scoreByThreshold (swaps1m s) SWAPS_1M_THRESHOLDS = Inr sw"
    "scoreByThreshold (volume1m s) VOLUME_1M_THRESHOLDS = Inr vol"
    "scoreByThreshold (holderCount s) HOLDER_COUNT_THRESHOLDS = Inr hold"
    "scoreByThreshold (uniqueBuyers5m s) UNIQUE_BUYERS_5M_THRESHOLDS = Inr b5"
    "scoreByThreshold (buyRatio s) BUY_PRESSURE_THRESHOLDS = Inr bp"
    using sbt_total by metis
  from score_object_unfold[OF eqs, of now] eqs show ?thesis by blast
qed


lemma score_scenario_A: "\<exists>r. score now (Val scenario_A) = Inr r \<and> r_score r = 100"
proof -
  have v: "liquidityUsd scenario_A = 60000" "uniqueBuyers1m scenario_A = 25"
    "swaps1m scenario_A = 50" "volume1m scenario_A = 60000" "holderCount scenario_A = 250"
    "uniqueBuyers5m scenario_A = 60" "buyRatio scenario_A = 7 / 10"
    "top10Result scenario_A = None" "top1Result scenario_A = None"
    "authorityPenalty scenario_A = 0"
    by (simp_all add: scenario_A_def liquidityUsd_def uniqueBuyers1m_def swaps1m_def volume1m_def
        holderCount_def uniqueBuyers5m_def buyRatio_def top10Result_def top1Result_def
        top10Pct_def top1Pct_def concentrationResult_def authorityPenalty_def authorityResult_def
        hasMintAuth_def hasFreezeAuth_def opt_chain_def num_or_def or_zero_def truthy_num_def
        truthy_str_def)
  obtain liq b1 sw vol hold b5 bp r where
    "scoreByThreshold (liquidityUsd scenario_A) LIQUIDITY_THRESHOLDS = Inr liq"
    "scoreByThreshold (uniqueBuyers1m scenario_A) UNIQUE_BUYERS_1M_THRESHOLDS = Inr b1"
    "scoreByThreshold (swaps1m scenario_A) SWAPS_1M_THRESHOLDS = Inr sw"
    "scoreByThreshold (volume1m scenario_A) VOLUME_1M_THRESHOLDS = Inr vol"
    "scoreByThreshold (holderCount scenario_A) HOLDER_COUNT_THRESHOLDS = Inr hold"
    "scoreByThreshold (uniqueBuyers5m scenario_A) UNIQUE_BUYERS_5M_THRESHOLDS = Inr b5"
    "scoreByThreshold (buyRatio scenario_A) BUY_PRESSURE_THRESHOLDS = Inr bp"
    and r: "score_object now scenario_A = Inr r"
    "r_score r = max 0 (min 100 (Math_round (of_int
         (fst liq + fst b1 + fst sw + fst vol + fst hold + fst b5 + fst bp
          + concentration_penalty (top10Result scenario_A) + concentration_penalty (top1Result scenario_A)
          + authorityPenalty scenario_A))))"
    using score_object_shape[of scenario_A now] by blast
  then have "fst liq = 25" "fst b1 = 20" "fst sw = 15" "fst vol = 10" "fst hold = 10" "fst b5 = 10"
    "fst bp = 10"
    by (auto simp: v sbt_liquidity sbt_buyers1m sbt_swaps1m sbt_volume1m sbt_holders sbt_buyers5m
        sbt_buy_pressure)
  with r show ?thesis
    by (simp add: score_def v Math_round_def concentration_penalty_def)
qed










subsection \<open>Monotone tiers\<close>

lemma sbt_mono:
  assumes "v \<le> w"
  shows "\<exists>p q r r'. scoreByThreshold v LIQUIDITY_THRESHOLDS = Inr (p, r)
           \<and> scoreByThreshold w LIQUIDITY_THRESHOLDS = Inr (q, r') \<and> p \<le> q"
    "\<exists>p q r r'. scoreByThreshold v UNIQUE_BUYERS_1M_THRESHOLDS = Inr (p, r)
           \<and> scoreByThreshold w UNIQUE_BUYERS_1M_THRESHOLDS = Inr (q, r') \<and> p \<le> q"
    "\<exists>p q r r'. scoreByThreshold v SWAPS_1M_THRESHOLDS = Inr (p, r)
           \<and> scoreByThreshold w SWAPS_1M_THRESHOLDS = Inr (q, r') \<and> p \<le> q"
    "\<exists>p q r r'. scoreByThreshold v VOLUME_1M_THRESHOLDS = Inr (p, r)
           \<and> scoreByThreshold w VOLUME_1M_THRESHOLDS = Inr (q, r') \<and> p \<le> q"
    "\<exists>p q r r'. scoreByThreshold v HOLDER_COUNT_THRESHOLDS = Inr (p, r)
           \<and> scoreByThreshold w HOLDER_COUNT_THRESHOLDS = Inr (q, r') \<and> p \<le> q"
    "\<exists>p q r r'. scoreByThreshold v UNIQUE_BUYERS_5M_THRESHOLDS = Inr (p, r)
           \<and> scoreByThreshold w UNIQUE_BUYERS_5M_THRESHOLDS = Inr (q, r') \<and> p \<le> q"
    "\<exists>p q r r'. scoreByThreshold v BUY_PRESSURE_THRESHOLDS = Inr (p, r)
           \<and> scoreByThreshold w BUY_PRESSURE_THRESHOLDS = Inr (q, r') \<and> p \<le> q"
  using assms
  by (auto simp: sbt_liquidity sbt_buyers1m sbt_swaps1m sbt_volume1m sbt_holders sbt_buyers5m
      sbt_buy_pressure)

lemma penalty_mono:
  assumes "v \<le> w"
  shows "\<bar>concentration_penalty (concentrationResult v TOP10_CONCENTRATION_PENALTIES)\<bar>
          \<le> \<bar>concentration_penalty (concentrationResult w TOP10_CONCENTRATION_PENALTIES)\<bar>"
    "\<bar>concentration_penalty (concentrationResult v TOP1_CONCENTRATION_PENALTIES)\<bar>
          \<le> \<bar>concentration_penalty (concentrationResult w TOP1_CONCENTRATION_PENALTIES)\<bar>"
  using assms
  by (auto simp: concentrationResult_def concentration_penalty_def pbt_top10 pbt_top1)

text \<open>
  Claim C8.  The input of a component is the value \<open>score\<close> passes to its tier lookup
  (\<open>liquidityUsd\<close>, \<open>uniqueBuyers1m\<close>, \<open>swaps1m\<close>, \<open>volume1m\<close>, \<open>holderCount\<close>, \<open>uniqueBuyers5m\<close>,
  \<open>buyRatio\<close>, and the two percentages).  For each of the seven tables the lookup succeeds,
  and a larger input never gets fewer points.  For the two concentration tables a larger
  percentage never gets a penalty of smaller magnitude; the penalty is never positive.
\<close>

theorem tier_points_and_penalties_monotone:
  assumes "v \<le> w"
  shows "(\<forall>T \<in> set [LIQUIDITY_THRESHOLDS, UNIQUE_BUYERS_1M_THRESHOLDS, SWAPS_1M_THRESHOLDS,
                      VOLUME_1M_THRESHOLDS, HOLDER_COUNT_THRESHOLDS,
                      UNIQUE_BUYERS_5M_THRESHOLDS, BUY_PRESSURE_THRESHOLDS].
            \<exists>p q r r'. scoreByThreshold v T = Inr (p, r) \<and> scoreByThreshold w T = Inr (q, r')
                        \<and> p \<le> q)
       \<and> (\<forall>P \<in> set [TOP10_CONCENTRATION_PENALTIES, TOP1_CONCENTRATION_PENALTIES].
            \<bar>concentration_penalty (concentrationResult v P)\<bar>
              \<le> \<bar>concentration_penalty (concentrationResult w P)\<bar>
            \<and> concentration_penalty (concentrationResult w P)
              \<le> concentration_penalty (concentrationResult v P)
            \<and> concentration_penalty (concentrationResult v P) \<le> 0)"
proof -
  have "concentration_penalty (concentrationResult w P) \<le> concentration_penalty (concentrationResult v P)
      \<and> concentration_penalty (concentrationResult v P) \<le> 0"
    if "P = TOP10_CONCENTRATION_PENALTIES \<or> P = TOP1_CONCENTRATION_PENALTIES" for P
    using that assms
    by (auto simp: concentrationResult_def concentration_penalty_def pbt_top10 pbt_top1)
  then show ?thesis
    using sbt_mono[OF assms] penalty_mono[OF assms] by simp
qed

theorem tier_points_and_penalties_monotone_witness:
  "(4000 :: rat) \<le> 60000
   \<and> scoreByThreshold 4000 LIQUIDITY_THRESHOLDS = Inr (0, ''LIQ_BELOW_5K'')
   \<and> scoreByThreshold 60000 LIQUIDITY_THRESHOLDS = Inr (25, ''LIQ_50K_PLUS'')
   \<and> concentration_penalty (concentrationResult 4000 TOP10_CONCENTRATION_PENALTIES) = -25
   \<and> (55 :: rat) \<le> 85
   \<and> concentration_penalty (concentrationResult 55 TOP10_CONCENTRATION_PENALTIES) = -5
   \<and> concentration_penalty (concentrationResult 85 TOP10_CONCENTRATION_PENALTIES) = -25"
  using tier_points_and_penalties_monotone[of 4000 60000]
    tier_points_and_penalties_monotone[of 55 85]
  by (simp add: sbt_liquidity concentrationResult_def concentration_penalty_def pbt_top10)

subsection \<open>Absent fields read as zero\<close>

lemmas read_defs = liquidityUsd_def uniqueBuyers1m_def swaps1m_def volume1m_def
  holderCount_def uniqueBuyers5m_def buyRatio_def top10Pct_def top1Pct_def priceChange5m_def
  hasMintAuth_def hasFreezeAuth_def veryNewToken_def opt_chain_def num_or_def or_zero_def
  truthy_num_def truthy_str_def

lemma or_zero_zero_absent: "or_zero (zero_absent v) = or_zero v"
  by (simp add: or_zero_def zero_absent_def split: jsval.splits)

lemma truthy_zero_absent: "truthy_num (zero_absent v) = truthy_num v"
  by (simp add: truthy_num_def zero_absent_def split: jsval.splits)

lemma absent_as_zero_reads:
  "liquidityUsd (absent_as_zero s) = liquidityUsd s"
  "uniqueBuyers1m (absent_as_zero s) = uniqueBuyers1m s"
  "swaps1m (absent_as_zero s) = swaps1m s"
  "volume1m (absent_as_zero s) = volume1m s"
  "holderCount (absent_as_zero s) = holderCount s"
  "uniqueBuyers5m (absent_as_zero s) = uniqueBuyers5m s"
  "buyRatio (absent_as_zero s) = buyRatio s"
  "top10Pct (absent_as_zero s) = top10Pct s"
  "top1Pct (absent_as_zero s) = top1Pct s"
  "priceChange5m (absent_as_zero s) = priceChange5m s"
  "hasMintAuth (absent_as_zero s) = hasMintAuth s"
  "hasFreezeAuth (absent_as_zero s) = hasFreezeAuth s"
  "veryNewToken now (absent_as_zero s) = veryNewToken now s"
  by (simp_all add: read_defs absent_as_zero_def zero_metrics_def zero_holders_def zero_pool_def
      zero_absent_def split: jsval.splits)

lemma score_object_absent_as_zero: "score_object now (absent_as_zero s) = score_object now s"
  unfolding score_object_def top10Result_def top1Result_def authorityPenalty_def
    authorityResult_def absent_as_zero_reads
  by (rule refl)

subsection \<open>Well-formed results\<close>

lemma subseq_opt: "subseq (if b then [x] else []) [x]"
  by simp

lemma authority_flag_subseq:
  "subseq (case authorityResult s of None \<Rightarrow> [] | Some (ma, fa, a) \<Rightarrow> [auth_flag a])
     [''FULL_AUTHORITY_RISK'', ''MINT_AUTHORITY_RISK'', ''FREEZE_AUTHORITY_RISK'']"
  by (simp add: authorityResult_def BOTH_AUTHORITIES_def MINT_AUTHORITY_def FREEZE_AUTHORITY_def)

lemma risk_flags_subseq:
  "subseq
     ((case authorityResult s of None \<Rightarrow> [] | Some (ma, fa, a) \<Rightarrow> [auth_flag a])
      @ (if b1 then [''LOW_LIQUIDITY_WARNING''] else [])
      @ (if b2 then [''VERY_NEW_TOKEN''] else [])
      @ (if b3 then [''LOW_HOLDER_COUNT''] else [])
      @ (if b4 then [''NO_RECENT_VOLUME''] else [])
      @ (if b5 then [''WHALE_CONCENTRATION''] else [])
      @ (if b6 then [''RAPID_PRICE_DROP''] else []))
     known_risk_flags"
proof -
  have k: "known_risk_flags =
      [''FULL_AUTHORITY_RISK'', ''MINT_AUTHORITY_RISK'', ''FREEZE_AUTHORITY_RISK'']
      @ [''LOW_LIQUIDITY_WARNING''] @ [''VERY_NEW_TOKEN''] @ [''LOW_HOLDER_COUNT'']
      @ [''NO_RECENT_VOLUME''] @ [''WHALE_CONCENTRATION''] @ [''RAPID_PRICE_DROP'']"
    by (simp add: known_risk_flags_def)
  show ?thesis
    unfolding k
    by (intro list_emb_append_mono authority_flag_subseq subseq_opt)
qed

lemma distinct_known_risk_flags: "distinct known_risk_flags"
  by (simp add: known_risk_flags_def)

lemma subseq_distinct: "subseq xs ys \<Longrightarrow> distinct ys \<Longrightarrow> distinct xs"
proof (induction rule: list_emb.induct)
  case (list_emb_Cons2 x y xs ys)
  then have "set xs \<subseteq> set ys" by (auto dest: list_emb_set)
  with list_emb_Cons2 show ?case by auto
qed auto

lemma Math_round_numeral: "Math_round (numeral n) = numeral n"
  using Math_round_of_int[of "numeral n"] by simp

lemma Math_round_zero: "Math_round 0 = 0"
  using Math_round_of_int[of 0] by simp

lemma score_object_wellformed:
  "\<exists>r. score_object now s = Inr r
     \<and> 0 \<le> r_score r \<and> r_score r \<le> 100
     \<and> 7 \<le> length (r_reasons r) \<and> length (r_reasons r) \<le> 10
     \<and> map fst (take 7 (r_components r)) = positive_component_names
     \<and> length (r_components r) \<le> 10
     \<and> subseq (r_risk_flags r) known_risk_flags"
proof -
  obtain liq b1 sw vol hold b5 bp r where r: "score_object now s = Inr r"
    and sc: "r_score r = max 0 (min 100 (Math_round (of_int
         (fst liq + fst b1 + fst sw + fst vol + fst hold + fst b5 + fst bp
          + concentration_penalty (top10Result s) + concentration_penalty (top1Result s)
          + authorityPenalty s))))"
    and re: "r_reasons r = [snd liq, snd b1, snd sw, snd vol, snd hold, snd b5, snd bp]
         @ concentration_reason (top10Result s) @ concentration_reason (top1Result s)
         @ (case authorityResult s of None \<Rightarrow> [] | Some (ma, fa, a) \<Rightarrow> [auth_reason a])"
    and co: "r_components r =
         [(''liquidity'', Positive (liquidityUsd s) (fst liq) MAX_POINTS_LIQUIDITY (snd liq)),
          (''unique_buyers_1m'', Positive (uniqueBuyers1m s) (fst b1) MAX_POINTS_UNIQUE_BUYERS_1M (snd b1)),
          (''swaps_1m'', Positive (swaps1m s) (fst sw) MAX_POINTS_SWAPS_1M (snd sw)),
          (''volume_1m'', Positive (volume1m s) (fst vol) MAX_POINTS_VOLUME_1M (snd vol)),
          (''holder_count'', Positive (holderCount s) (fst hold) MAX_POINTS_HOLDER_COUNT (snd hold)),
          (''unique_buyers_5m'', Positive (uniqueBuyers5m s) (fst b5) MAX_POINTS_UNIQUE_BUYERS_5M (snd b5)),
          (''buy_pressure'', Positive (buyRatio s) (fst bp) MAX_POINTS_BUY_PRESSURE (snd bp))]
         @ concentration_entry ''top10_concentration'' (top10Pct s) (top10Result s)
         @ concentration_entry ''top1_concentration'' (top1Pct s) (top1Result s)
         @ (case authorityResult s of None \<Rightarrow> []
            | Some (ma, fa, a) \<Rightarrow> [(''authority'', Authority ma fa (auth_penalty a) (auth_reason a))])"
    and fl: "r_risk_flags r =
         (case authorityResult s of None \<Rightarrow> [] | Some (ma, fa, a) \<Rightarrow> [auth_flag a])
         @ (if liquidityUsd s < LOW_LIQUIDITY_threshold then [''LOW_LIQUIDITY_WARNING''] else [])
         @ (if veryNewToken now s then [''VERY_NEW_TOKEN''] else [])
         @ (if holderCount s < LOW_HOLDERS_threshold then [''LOW_HOLDER_COUNT''] else [])
         @ (if volume1m s \<le> NO_VOLUME_threshold then [''NO_RECENT_VOLUME''] else [])
         @ (if top1Pct s > WHALE_CONCENTRATION_threshold then [''WHALE_CONCENTRATION''] else [])
         @ (if priceChange5m s < RAPID_PRICE_DROP_threshold then [''RAPID_PRICE_DROP''] else [])"
    using score_object_shape[of s now] by blast
  have "0 \<le> r_score r" "r_score r \<le> 100" unfolding sc by simp_all
  moreover have "7 \<le> length (r_reasons r)" unfolding re by simp
  moreover have "length (r_reasons r) \<le> 10"
    unfolding re by (simp add: concentration_reason_def split: option.splits prod.splits)
  moreover have "map fst (take 7 (r_components r)) = positive_component_names"
    unfolding co by (simp add: positive_component_names_def)
  moreover have "length (r_components r) \<le> 10"
    unfolding co by (simp add: concentration_entry_def split: option.splits prod.splits)
  moreover have "subseq (r_risk_flags r) known_risk_flags"
    unfolding fl by (rule risk_flags_subseq)
  ultimately show ?thesis using r by blast
qed

lemma buyRatio_default:
  "or_zero (opt_chain (ts_metrics s) buy_volume_usd_1m)
     + or_zero (opt_chain (ts_metrics s) sell_volume_usd_1m) = 0 \<Longrightarrow> buyRatio s = 1 / 2"
  by (simp add: buyRatio_def Let_def)

text \<open>
  Claim C10.  For every token state object, whatever of its token, metrics, holders and
  pool is undefined, null or a row with undefined or null fields, \<open>score\<close> returns a
  result and raises nothing.  The result is well formed: a score from 0 to 100, seven to
  ten reasons, the seven positive components first among at most ten, and risk flags
  that are distinct and in the fixed order of the known flags.  The result is the one
  obtained with every absent metric written as zero, and the buy ratio is one half when
  the 1 minute buy and sell volumes sum to zero.
\<close>

theorem score_returns_on_absent_fields:
  "\<exists>r. score now (Val s) = Inr r
     \<and> 0 \<le> r_score r \<and> r_score r \<le> 100
     \<and> 7 \<le> length (r_reasons r) \<and> length (r_reasons r) \<le> 10
     \<and> map fst (take 7 (r_components r)) = positive_component_names
     \<and> length (r_components r) \<le> 10
     \<and> subseq (r_risk_flags r) known_risk_flags \<and> distinct (r_risk_flags r)
     \<and> score now (Val (absent_as_zero s)) = Inr r
     \<and> (or_zero (opt_chain (ts_metrics s) buy_volume_usd_1m)
          + or_zero (opt_chain (ts_metrics s) sell_volume_usd_1m) = 0 \<longrightarrow> buyRatio s = 1 / 2)"
proof -
  obtain r where r: "score_object now s = Inr r"
     "0 \<le> r_score r" "r_score r \<le> 100"
     "7 \<le> length (r_reasons r)" "length (r_reasons r) \<le> 10"
     "map fst (take 7 (r_components r)) = positive_component_names"
     "length (r_components r) \<le> 10"
     "subseq (r_risk_flags r) known_risk_flags"
    using score_object_wellformed[of now s] by blast
  have "distinct (r_risk_flags r)"
    using r(8) distinct_known_risk_flags by (rule subseq_distinct)
  then show ?thesis
    using r buyRatio_default[of s] by (simp add: score_def score_object_absent_as_zero)
qed

theorem score_returns_on_absent_fields_witness:
  "score 0 (Val all_absent)
     = Inr \<lparr>r_score = 4,
            r_reasons = [''LIQ_BELOW_5K'', ''BUYERS_1M_BELOW_2'', ''SWAPS_1M_BELOW_5'',
                         ''VOL_1M_BELOW_5K'', ''HOLDERS_BELOW_20'', ''BUYERS_5M_BELOW_5'',
                         ''BUY_PRESSURE_50_PCT''],
            r_risk_flags = [''LOW_LIQUIDITY_WARNING'', ''LOW_HOLDER_COUNT'', ''NO_RECENT_VOLUME''],
            r_components =
              [(''liquidity'', Positive 0 0 25 ''LIQ_BELOW_5K''),
               (''unique_buyers_1m'', Positive 0 0 20 ''BUYERS_1M_BELOW_2''),
               (''swaps_1m'', Positive 0 0 15 ''SWAPS_1M_BELOW_5''),
               (''volume_1m'', Positive 0 0 10 ''VOL_1M_BELOW_5K''),
               (''holder_count'', Positive 0 0 10 ''HOLDERS_BELOW_20''),
               (''unique_buyers_5m'', Positive 0 0 10 ''BUYERS_5M_BELOW_5''),
               (''buy_pressure'', Positive (1 / 2) 4 10 ''BUY_PRESSURE_50_PCT'')]\<rparr>
   \<and> or_zero (opt_chain (ts_metrics all_absent) buy_volume_usd_1m)
       + or_zero (opt_chain (ts_metrics all_absent) sell_volume_usd_1m) = 0
   \<and> buyRatio all_absent = 1 / 2"
proof -
  have v: "liquidityUsd all_absent = 0" "uniqueBuyers1m all_absent = 0"
    "swaps1m all_absent = 0" "volume1m all_absent = 0" "holderCount all_absent = 0"
    "uniqueBuyers5m all_absent = 0" "buyRatio all_absent = 1 / 2"
    "top10Pct all_absent = 0" "top1Pct all_absent = 0" "priceChange5m all_absent = 0"
    "top10Result all_absent = None" "top1Result all_absent = None"
    "authorityResult all_absent = None" "veryNewToken 0 all_absent = False"
    by (simp_all add: all_absent_def read_defs top10Result_def top1Result_def
        concentrationResult_def authorityResult_def)
  have "score_object 0 all_absent = Inr \<lparr>r_score = 4,
            r_reasons = [''LIQ_BELOW_5K'', ''BUYERS_1M_BELOW_2'', ''SWAPS_1M_BELOW_5'',
                         ''VOL_1M_BELOW_5K'', ''HOLDERS_BELOW_20'', ''BUYERS_5M_BELOW_5'',
                         ''BUY_PRESSURE_50_PCT''],
            r_risk_flags = [''LOW_LIQUIDITY_WARNING'', ''LOW_HOLDER_COUNT'', ''NO_RECENT_VOLUME''],
            r_components =
              [(''liquidity'', Positive 0 0 25 ''LIQ_BELOW_5K''),
               (''unique_buyers_1m'', Positive 0 0 20 ''BUYERS_1M_BELOW_2''),
               (''swaps_1m'', Positive 0 0 15 ''SWAPS_1M_BELOW_5''),
               (''volume_1m'', Positive 0 0 10 ''VOL_1M_BELOW_5K''),
               (''holder_count'', Positive 0 0 10 ''HOLDERS_BELOW_20''),
               (''unique_buyers_5m'', Positive 0 0 10 ''BUYERS_5M_BELOW_5''),
               (''buy_pressure'', Positive (1 / 2) 4 10 ''BUY_PRESSURE_50_PCT'')]\<rparr>"
    unfolding score_object_def v
    by (simp add: sbt_liquidity sbt_buyers1m sbt_swaps1m sbt_volume1m sbt_holders sbt_buyers5m
      sbt_buy_pressure bindE_Inr authorityPenalty_def v concentration_penalty_def
      concentration_reason_def concentration_entry_def Math_round_numeral
      LOW_LIQUIDITY_threshold_def LOW_HOLDERS_threshold_def NO_VOLUME_threshold_def
      WHALE_CONCENTRATION_threshold_def RAPID_PRICE_DROP_threshold_def
      MAX_POINTS_LIQUIDITY_def MAX_POINTS_UNIQUE_BUYERS_1M_def MAX_POINTS_SWAPS_1M_def
      MAX_POINTS_VOLUME_1M_def MAX_POINTS_HOLDER_COUNT_def MAX_POINTS_UNIQUE_BUYERS_5M_def
      MAX_POINTS_BUY_PRESSURE_def)
  then show ?thesis
    using score_returns_on_absent_fields[of 0 all_absent] v
    by (simp add: score_def all_absent_def opt_chain_def or_zero_def)
qed

subsection \<open>The clock\<close>

lemma flags_without_new_token:
  "filter (\<lambda>f. f \<noteq> ''VERY_NEW_TOKEN'')
     (A @ L @ (if b then [''VERY_NEW_TOKEN''] else []) @ R)
   = filter (\<lambda>f. f \<noteq> ''VERY_NEW_TOKEN'') (A @ L @ R)"
  by simp

lemma flags_differ:
  "b \<noteq> b' \<Longrightarrow> A @ L @ (if b then [x] else []) @ R \<noteq> A @ L @ (if b' then [x] else []) @ R"
  by auto

text \<open>
  Claim C7, as the code has it.  The function reads the clock, for the age of the token.
  Two evaluations on the same token state, at clock readings \<open>now1\<close> and \<open>now2\<close>, both
  return; they give the same score, the same reasons and the same components, and the
  same risk flags but for the flag \<open>VERY_NEW_TOKEN\<close>.  When the age check answers the same
  at both readings the two results are equal, and otherwise their risk flags differ.
\<close>

theorem score_clock_only_in_new_token_flag:
  "\<exists>r1 r2. score now1 (Val s) = Inr r1 \<and> score now2 (Val s) = Inr r2
     \<and> r_score r1 = r_score r2 \<and> r_reasons r1 = r_reasons r2
     \<and> r_components r1 = r_components r2
     \<and> filter (\<lambda>f. f \<noteq> ''VERY_NEW_TOKEN'') (r_risk_flags r1)
         = filter (\<lambda>f. f \<noteq> ''VERY_NEW_TOKEN'') (r_risk_flags r2)
     \<and> (if veryNewToken now1 s = veryNewToken now2 s then r1 = r2
         else r_risk_flags r1 \<noteq> r_risk_flags r2)"
proof -
  obtain liq b1 sw vol hold b5 bp where eqs:
    "scoreByThreshold (liquidityUsd s) LIQUIDITY_THRESHOLDS = Inr liq"
    "scoreByThreshold (uniqueBuyers1m s) UNIQUE_BUYERS_1M_THRESHOLDS = Inr b1"
    "scoreByThreshold (swaps1m s) SWAPS_1M_THRESHOLDS = Inr sw"
    "scoreByThreshold (volume1m s) VOLUME_1M_THRESHOLDS = Inr vol"
    "scoreByThreshold (holderCount s) HOLDER_COUNT_THRESHOLDS = Inr hold"
    "scoreByThreshold (uniqueBuyers5m s) UNIQUE_BUYERS_5M_THRESHOLDS = Inr b5"
    "scoreByThreshold (buyRatio s) BUY_PRESSURE_THRESHOLDS = Inr bp"
    using sbt_total by metis
  obtain r1 where r1: "score_object now1 s = Inr r1"
    and f1: "r_score r1 = max 0 (min 100 (Math_round (of_int
         (fst liq + fst b1 + fst sw + fst vol + fst hold + fst b5 + fst bp
          + concentration_penalty (top10Result s) + concentration_penalty (top1Result s)
          + authorityPenalty s))))"
     "r_reasons r1 = [snd liq, snd b1, snd sw, snd vol, snd hold, snd b5, snd bp]
         @ concentration_reason (top10Result s) @ concentration_reason (top1Result s)
         @ (case authorityResult s of None \<Rightarrow> [] | Some (ma, fa, a) \<Rightarrow> [auth_reason a])"
     "r_components r1 =
         [(''liquidity'', Positive (liquidityUsd s) (fst liq) MAX_POINTS_LIQUIDITY (snd liq)),
          (''unique_buyers_1m'', Positive (uniqueBuyers1m s) (fst b1) MAX_POINTS_UNIQUE_BUYERS_1M (snd b1)),
          (''swaps_1m'', Positive (swaps1m s) (fst sw) MAX_POINTS_SWAPS_1M (snd sw)),
          (''volume_1m'', Positive (volume1m s) (fst vol) MAX_POINTS_VOLUME_1M (snd vol)),
          (''holder_count'', Positive (holderCount s) (fst hold) MAX_POINTS_HOLDER_COUNT (snd hold)),
          (''unique_buyers_5m'', Positive (uniqueBuyers5m s) (fst b5) MAX_POINTS_UNIQUE_BUYERS_5M (snd b5)),
          (''buy_pressure'', Positive (buyRatio s) (fst bp) MAX_POINTS_BUY_PRESSURE (snd bp))]
         @ concentration_entry ''top10_concentration'' (top10Pct s) (top10Result s)
         @ concentration_entry ''top1_concentration'' (top1Pct s) (top1Result s)
         @ (case authorityResult s of None \<Rightarrow> []
            | Some (ma, fa, a) \<Rightarrow> [(''authority'', Authority ma fa (auth_penalty a) (auth_reason a))])"
    and g1: "r_risk_flags r1 =
         (case authorityResult s of None \<Rightarrow> [] | Some (ma, fa, a) \<Rightarrow> [auth_flag a])
         @ (if liquidityUsd s < LOW_LIQUIDITY_threshold then [''LOW_LIQUIDITY_WARNING''] else [])
         @ (if veryNewToken now1 s then [''VERY_NEW_TOKEN''] else [])
         @ (if holderCount s < LOW_HOLDERS_threshold then [''LOW_HOLDER_COUNT''] else [])
         @ (if volume1m s \<le> NO_VOLUME_threshold then [''NO_RECENT_VOLUME''] else [])
         @ (if top1Pct s > WHALE_CONCENTRATION_threshold then [''WHALE_CONCENTRATION''] else [])
         @ (if priceChange5m s < RAPID_PRICE_DROP_threshold then [''RAPID_PRICE_DROP''] else [])"
    using score_object_unfold[OF eqs, of now1] by blast
  obtain r2 where r2: "score_object now2 s = Inr r2"
    and f2: "r_score r2 = max 0 (min 100 (Math_round (of_int
         (fst liq + fst b1 + fst sw + fst vol + fst hold + fst b5 + fst bp
          + concentration_penalty (top10Result s) + concentration_penalty (top1Result s)
          + authorityPenalty s))))"
     "r_reasons r2 = [snd liq, snd b1, snd sw, snd vol, snd hold, snd b5, snd bp]
         @ concentration_reason (top10Result s) @ concentration_reason (top1Result s)
         @ (case authorityResult s of None \<Rightarrow> [] | Some (ma, fa, a) \<Rightarrow> [auth_reason a])"
     "r_components r2 =
         [(''liquidity'', Positive (liquidityUsd s) (fst liq) MAX_POINTS_LIQUIDITY (snd liq)),
          (''unique_buyers_1m'', Positive (uniqueBuyers1m s) (fst b1) MAX_POINTS_UNIQUE_BUYERS_1M (snd b1)),
          (''swaps_1m'', Positive (swaps1m s) (fst sw) MAX_POINTS_SWAPS_1M (snd sw)),
          (''volume_1m'', Positive (volume1m s) (fst vol) MAX_POINTS_VOLUME_1M (snd vol)),
          (''holder_count'', Positive (holderCount s) (fst hold) MAX_POINTS_HOLDER_COUNT (snd hold)),
          (''unique_buyers_5m'', Positive (uniqueBuyers5m s) (fst b5) MAX_POINTS_UNIQUE_BUYERS_5M (snd b5)),
          (''buy_pressure'', Positive (buyRatio s) (fst bp) MAX_POINTS_BUY_PRESSURE (snd bp))]
         @ concentration_entry ''top10_concentration'' (top10Pct s) (top10Result s)
         @ concentration_entry ''top1_concentration'' (top1Pct s) (top1Result s)
         @ (case authorityResult s of None \<Rightarrow> []
            | Some (ma, fa, a) \<Rightarrow> [(''authority'', Authority ma fa (auth_penalty a) (auth_reason a))])"
    and g2: "r_risk_flags r2 =
         (case authorityResult s of None \<Rightarrow> [] | Some (ma, fa, a) \<Rightarrow> [auth_flag a])
         @ (if liquidityUsd s < LOW_LIQUIDITY_threshold then [''LOW_LIQUIDITY_WARNING''] else [])
         @ (if veryNewToken now2 s then [''VERY_NEW_TOKEN''] else [])
         @ (if holderCount s < LOW_HOLDERS_threshold then [''LOW_HOLDER_COUNT''] else [])
         @ (if volume1m s \<le> NO_VOLUME_threshold then [''NO_RECENT_VOLUME''] else [])
         @ (if top1Pct s > WHALE_CONCENTRATION_threshold then [''WHALE_CONCENTRATION''] else [])
         @ (if priceChange5m s < RAPID_PRICE_DROP_threshold then [''RAPID_PRICE_DROP''] else [])"
    using score_object_unfold[OF eqs, of now2] by blast
  have same: "r_score r1 = r_score r2" "r_reasons r1 = r_reasons r2"
    "r_components r1 = r_components r2"
    using f1 f2 by simp_all
  have filt: "filter (\<lambda>f. f \<noteq> ''VERY_NEW_TOKEN'') (r_risk_flags r1)
         = filter (\<lambda>f. f \<noteq> ''VERY_NEW_TOKEN'') (r_risk_flags r2)"
    unfolding g1 g2 flags_without_new_token by (rule refl)
  have eq: "r1 = r2" if "veryNewToken now1 s = veryNewToken now2 s"
  proof -
    have "r_risk_flags r1 = r_risk_flags r2" unfolding g1 g2 that by (rule refl)
    with same show ?thesis by simp
  qed
  have ne: "r_risk_flags r1 \<noteq> r_risk_flags r2" if "veryNewToken now1 s \<noteq> veryNewToken now2 s"
    unfolding g1 g2 using that by (rule flags_differ)
  show ?thesis
    using r1 r2 same filt eq ne by (auto simp: score_def)
qed

theorem score_clock_only_in_new_token_flag_witness:
  "\<exists>r1 r2. score 60000 (Val fresh_token_state) = Inr r1
     \<and> score 600000 (Val fresh_token_state) = Inr r2
     \<and> r_score r1 = r_score r2 \<and> r_reasons r1 = r_reasons r2
     \<and> r_components r1 = r_components r2
     \<and> r_risk_flags r1 \<noteq> r_risk_flags r2"
proof -
  have v: "veryNewToken 60000 fresh_token_state" "\<not> veryNewToken 600000 fresh_token_state"
    by (simp_all add: veryNewToken_def fresh_token_state_def fresh_token_def opt_chain_def
        NEW_TOKEN_thresholdMinutes_def)
  obtain r1 r2 where "score 60000 (Val fresh_token_state) = Inr r1"
    "score 600000 (Val fresh_token_state) = Inr r2"
    "r_score r1 = r_score r2" "r_reasons r1 = r_reasons r2" "r_components r1 = r_components r2"
    "(if veryNewToken 60000 fresh_token_state = veryNewToken 600000 fresh_token_state then r1 = r2
         else r_risk_flags r1 \<noteq> r_risk_flags r2)"
    using score_clock_only_in_new_token_flag[of 60000 fresh_token_state 600000] by blast
  with v show ?thesis by auto
qed

text \<open>
  Claim C7 as stated fails: the same token state, first seen at time 0, scored one
  minute and ten minutes later, gets two different lists of risk flags.
\<close>

theorem score_risk_flags_clock_counterexample:
  "risk_flags_of (score 60000 (Val fresh_token_state))
     = [''LOW_LIQUIDITY_WARNING'', ''VERY_NEW_TOKEN'', ''LOW_HOLDER_COUNT'', ''NO_RECENT_VOLUME'']
   \<and> risk_flags_of (score 600000 (Val fresh_token_state))
     = [''LOW_LIQUIDITY_WARNING'', ''LOW_HOLDER_COUNT'', ''NO_RECENT_VOLUME'']"
proof -
  have v: "liquidityUsd fresh_token_state = 0" "uniqueBuyers1m fresh_token_state = 0"
    "swaps1m fresh_token_state = 0" "volume1m fresh_token_state = 0"
    "holderCount fresh_token_state = 0" "uniqueBuyers5m fresh_token_state = 0"
    "buyRatio fresh_token_state = 1 / 2" "top1Pct fresh_token_state = 0"
    "priceChange5m fresh_token_state = 0" "authorityResult fresh_token_state = None"
    "top10Pct fresh_token_state = 0" "top10Result fresh_token_state = None"
    "top1Result fresh_token_state = None"
    "veryNewToken 60000 fresh_token_state = True" "veryNewToken 600000 fresh_token_state = False"
    by (simp_all add: fresh_token_state_def fresh_token_def read_defs authorityResult_def
        top10Result_def top1Result_def concentrationResult_def NEW_TOKEN_thresholdMinutes_def)
  have t: "LOW_LIQUIDITY_threshold = 5000" "LOW_HOLDERS_threshold = 10" "NO_VOLUME_threshold = 0"
    "WHALE_CONCENTRATION_threshold = 40" "RAPID_PRICE_DROP_threshold = -30"
    by (simp_all add: LOW_LIQUIDITY_threshold_def LOW_HOLDERS_threshold_def NO_VOLUME_threshold_def
        WHALE_CONCENTRATION_threshold_def RAPID_PRICE_DROP_threshold_def)
  show ?thesis
    unfolding score_def risk_flags_of_def score_object_def v t
    by (simp add: sbt_liquidity sbt_buyers1m sbt_swaps1m sbt_volume1m sbt_holders sbt_buyers5m
      sbt_buy_pressure bindE_Inr authorityPenalty_def v concentration_penalty_def
      concentration_reason_def concentration_entry_def Math_round_numeral)
qed

section \<open>Properties of the alert decision\<close>

lemma sort_eq_iff_set_eq:
  fixes xs ys :: "string list"
  assumes "distinct xs" "distinct ys"
  shows "(sort xs = sort ys) = (set xs = set ys)"
proof
  assume "sort xs = sort ys"
  then have "set (sort xs) = set (sort ys)" by simp
  then show "set xs = set ys" by simp
next
  assume "set xs = set ys"
  then show "sort xs = sort ys"
    using assms by (intro sorted_distinct_set_unique) simp_all
qed

lemma shouldAlert_first:
  "shouldAlert cfg r Null pf =
     (if r_score r \<ge> SCORE_THRESHOLD cfg \<and> \<not> hasHardFlags (r_risk_flags r)
        then (True, ''NEW_HIGH_SCORE'')
      else if r_score r \<ge> SCORE_THRESHOLD_WITH_FLAGS cfg then (True, ''NEW_VERY_HIGH_SCORE'')
      else (False, ''SCORE_BELOW_THRESHOLD''))"
  "shouldAlert cfg r Undefined pf = shouldAlert cfg r Null pf"
  by (simp_all add: shouldAlert_def Let_def)

lemma shouldAlert_later:
  "shouldAlert cfg r (Val prev) pf =
     (if \<bar>r_score r - prev\<bar> \<ge> SCORE_CHANGE_THRESHOLD cfg then (True, ''SCORE_CHANGE_SIGNIFICANT'')
      else if flagsChanged (r_risk_flags r) pf \<and> r_score r \<ge> SCORE_THRESHOLD cfg
        then (True, ''FLAGS_CHANGED'')
      else (False, ''NO_SIGNIFICANT_CHANGE''))"
  by (simp add: shouldAlert_def Let_def)

lemma hasHardFlags_iff:
  "hasHardFlags fs = (''FULL_AUTHORITY_RISK'' \<in> set fs \<or> ''MINT_AUTHORITY_RISK'' \<in> set fs
      \<or> ''FREEZE_AUTHORITY_RISK'' \<in> set fs)"
  by (auto simp: hasHardFlags_def list_ex_iff)

text \<open>
  Claim C2.  \<open>shouldAlert\<close> returns \<open>shouldSend\<close> and a reason; a send with no previous
  score is the spec's Send, a send with a previous score its Update, anything else its
  Suppress.  With no previous score (null, or undefined by the default parameter) it
  sends exactly when the score reaches \<open>SCORE_THRESHOLD\<close> with no hard flag present, or
  reaches \<open>SCORE_THRESHOLD_WITH_FLAGS\<close>.  With a previous score it sends exactly when the
  score moved by at least \<open>SCORE_CHANGE_THRESHOLD\<close>, or the set of flags changed while the
  score reaches \<open>SCORE_THRESHOLD\<close>; flag lists are free of duplicates, as \<open>score\<close>
  produces them.  With the defaults: 75 and no hard flag sends; then 83 with the same
  flags in any order does not; then 60 sends, whether compared with 75 or with 83.
\<close>

theorem shouldAlert_send_update_suppress:
  "(fst (shouldAlert cfg r Null pf)
      = ((r_score r \<ge> SCORE_THRESHOLD cfg \<and> \<not> hasHardFlags (r_risk_flags r))
         \<or> r_score r \<ge> SCORE_THRESHOLD_WITH_FLAGS cfg))
   \<and> shouldAlert cfg r Undefined pf = shouldAlert cfg r Null pf
   \<and> hasHardFlags (r_risk_flags r)
      = (''FULL_AUTHORITY_RISK'' \<in> set (r_risk_flags r)
         \<or> ''MINT_AUTHORITY_RISK'' \<in> set (r_risk_flags r)
         \<or> ''FREEZE_AUTHORITY_RISK'' \<in> set (r_risk_flags r))
   \<and> (distinct (r_risk_flags r) \<and> distinct pf \<longrightarrow>
        fst (shouldAlert cfg r (Val prev) pf)
          = (\<bar>r_score r - prev\<bar> \<ge> SCORE_CHANGE_THRESHOLD cfg
             \<or> (set (r_risk_flags r) \<noteq> set pf \<and> r_score r \<ge> SCORE_THRESHOLD cfg)))
   \<and> (r_score r = 75 \<and> \<not> hasHardFlags (r_risk_flags r) \<longrightarrow>
        shouldAlert default_thresholds r Null pf = (True, ''NEW_HIGH_SCORE''))
   \<and> (r_score r = 83 \<and> distinct (r_risk_flags r) \<and> distinct pf \<and> set pf = set (r_risk_flags r) \<longrightarrow>
        shouldAlert default_thresholds r (Val 75) pf = (False, ''NO_SIGNIFICANT_CHANGE''))
   \<and> (r_score r = 60 \<longrightarrow>
        shouldAlert default_thresholds r (Val 75) pf = (True, ''SCORE_CHANGE_SIGNIFICANT'')
        \<and> shouldAlert default_thresholds r (Val 83) pf = (True, ''SCORE_CHANGE_SIGNIFICANT''))"
proof -
  have later: "fst (shouldAlert cfg r (Val prev) pf)
          = (\<bar>r_score r - prev\<bar> \<ge> SCORE_CHANGE_THRESHOLD cfg
             \<or> (set (r_risk_flags r) \<noteq> set pf \<and> r_score r \<ge> SCORE_THRESHOLD cfg))"
    if "distinct (r_risk_flags r)" "distinct pf"
    using sort_eq_iff_set_eq[OF that] by (simp add: shouldAlert_later flagsChanged_def)
  have unchanged: "shouldAlert default_thresholds r (Val 75) pf = (False, ''NO_SIGNIFICANT_CHANGE'')"
    if "r_score r = 83" "distinct (r_risk_flags r)" "distinct pf" "set pf = set (r_risk_flags r)"
    using sort_eq_iff_set_eq[OF that(2,3)] that
    by (simp add: shouldAlert_later flagsChanged_def default_thresholds_def)
  show ?thesis
    using later unchanged
    by (simp add: shouldAlert_first hasHardFlags_iff shouldAlert_later default_thresholds_def)
qed

theorem shouldAlert_send_update_suppress_witness:
  "shouldAlert default_thresholds result_75 Null [] = (True, ''NEW_HIGH_SCORE'')
   \<and> distinct (r_risk_flags result_83) \<and> distinct [''LOW_HOLDER_COUNT'', ''VERY_NEW_TOKEN'']
   \<and> shouldAlert default_thresholds result_83 (Val 75) [''LOW_HOLDER_COUNT'', ''VERY_NEW_TOKEN'']
       = (False, ''NO_SIGNIFICANT_CHANGE'')
   \<and> shouldAlert default_thresholds result_60 (Val 75) [''LOW_HOLDER_COUNT'', ''VERY_NEW_TOKEN'']
       = (True, ''SCORE_CHANGE_SIGNIFICANT'')"
  using shouldAlert_send_update_suppress[of default_thresholds result_75 "[]" 0]
    shouldAlert_send_update_suppress[of default_thresholds result_83
       "[''LOW_HOLDER_COUNT'', ''VERY_NEW_TOKEN'']" 75]
    shouldAlert_send_update_suppress[of default_thresholds result_60
       "[''LOW_HOLDER_COUNT'', ''VERY_NEW_TOKEN'']" 75]
  by (auto simp add: result_75_def result_83_def result_60_def hasHardFlags_def)

section \<open>Properties of the alert state\<close>

lemma getOrCreateAlert_cases:
  "getOrCreateAlert sf nf tbl m = Inl DbError
   \<or> getOrCreateAlert sf nf tbl m = Inr (alert_state tbl m, tbl)
   \<or> (tbl m = None \<and> getOrCreateAlert sf nf tbl m = Inr (alert_state tbl m, tbl(m \<mapsto> new_alert)))"
  by (auto simp: getOrCreateAlert_def alert_state_def split: option.splits)

lemma alert_state_create:
  "tbl m = None \<Longrightarrow> alert_state (tbl(m \<mapsto> new_alert)) = alert_state tbl"
  by (auto simp: alert_state_def fun_eq_iff)

lemma getOrCreateAlert_state:
  assumes "getOrCreateAlert sf nf tbl m = Inr (a, tbl')"
  shows "a = alert_state tbl m \<and> alert_state tbl' = alert_state tbl
   \<and> (\<forall>k. tbl' k = tbl k \<or> (k = m \<and> tbl k = None \<and> tbl' k = Some new_alert))
   \<and> tbl' m = Some a"
proof (cases "tbl m")
  case None
  with assms have "a = new_alert" "tbl' = tbl(m \<mapsto> new_alert)"
    by (auto simp: getOrCreateAlert_def split: if_splits)
  with None show ?thesis by (simp add: alert_state_create) (simp add: alert_state_def)
next
  case (Some b)
  with assms have "a = b" "tbl' = tbl"
    by (auto simp: getOrCreateAlert_def split: if_splits)
  with Some show ?thesis by (simp add: alert_state_def)
qed

lemma sendTokenAlert_cases:
  "alert_state (sendTokenAlert tg out now tbl tok r) = alert_state tbl
   \<or> (\<exists>i. (send_result out = Some i \<or> edit_result out = Some i)
         \<and> sendTokenAlert tg out now tbl tok r
             = tbl(mint tok \<mapsto>
                 alert_update tg now r i (alert_state tbl (mint tok)) (alert_state tbl (mint tok))))"
proof (cases "getOrCreateAlert (bot_select_fails out) (bot_insert_fails out) tbl (mint tok)")
  case (Inl e)
  then show ?thesis by (simp add: sendTokenAlert_def)
next
  case (Inr p)
  obtain a tbl1 where p: "p = (a, tbl1)" by (cases p)
  from getOrCreateAlert_state[OF Inr[unfolded p]]
  have a: "a = alert_state tbl (mint tok)" and s1: "alert_state tbl1 = alert_state tbl"
    and t1: "tbl1 (mint tok) = Some a"
    and k: "\<And>k. k \<noteq> mint tok \<Longrightarrow> tbl1 k = tbl k"
    by auto
  have upd: "tbl1(mint tok \<mapsto> x) = tbl(mint tok \<mapsto> x)" for x
    using k by (auto simp: fun_eq_iff)
  show ?thesis
    using Inr p s1 t1 a upd
    by (auto simp: sendTokenAlert_def updateAlert_def Let_def split: option.splits)
qed

lemma scoreToken_alerts:
  "alerts (snd (scoreToken cfg tg out now st tok m h p)) = alerts st
   \<or> (\<exists>r tbl1.
         score now (Val \<lparr>ts_token = Val tok, ts_metrics = m, ts_holders = h, ts_pool = p\<rparr>) = Inr r
       \<and> getOrCreateAlert (worker_select_fails out) (worker_insert_fails out) (alerts st) (mint tok)
           = Inr (alert_state (alerts st) (mint tok), tbl1)
       \<and> alerts (snd (scoreToken cfg tg out now st tok m h p))
           = (if fst (shouldAlert cfg r (last_score (alert_state (alerts st) (mint tok)))
                        (flags_or_empty (last_risk_flags (alert_state (alerts st) (mint tok)))))
              then sendTokenAlert tg out now tbl1 tok r else tbl1))"
proof (cases "score now (Val \<lparr>ts_token = Val tok, ts_metrics = m, ts_holders = h, ts_pool = p\<rparr>)")
  case (Inl e)
  then show ?thesis by (simp add: scoreToken_def)
next
  case (Inr r)
  show ?thesis
  proof (cases "getOrCreateAlert (worker_select_fails out) (worker_insert_fails out) (alerts st) (mint tok)")
    case (Inl e)
    with Inr show ?thesis by (simp add: scoreToken_def Let_def)
  next
    case g: (Inr q)
    obtain a tbl1 where q: "q = (a, tbl1)" by (cases q)
    have a: "a = alert_state (alerts st) (mint tok)"
      using getOrCreateAlert_state[OF g[unfolded q]] by simp
    show ?thesis
      using Inr g q a by (simp add: scoreToken_def Let_def)
  qed
qed

lemma sendTokenAlert_failed:
  assumes "edit_result out = None" "send_result out = None"
  shows "alert_state (sendTokenAlert tg out now tbl tok r) = alert_state tbl"
  using sendTokenAlert_cases[of tg out now tbl tok r] assms by auto

lemma alert_state_upd_other: "k \<noteq> m \<Longrightarrow> alert_state (tbl(m \<mapsto> x)) k = alert_state tbl k"
  by (simp add: alert_state_def)

lemma alert_state_upd_same: "alert_state (tbl(m \<mapsto> x)) m = x"
  by (simp add: alert_state_def)

lemma scoreToken_alerts_cases:
  obtains (same) "alerts (snd (scoreToken cfg tg out now st tok m h p)) = alerts st"
  | (decided) r tbl1 where
      "score now (Val \<lparr>ts_token = Val tok, ts_metrics = m, ts_holders = h, ts_pool = p\<rparr>) = Inr r"
      "getOrCreateAlert (worker_select_fails out) (worker_insert_fails out) (alerts st) (mint tok)
           = Inr (alert_state (alerts st) (mint tok), tbl1)"
      "alerts (snd (scoreToken cfg tg out now st tok m h p))
           = (if fst (shouldAlert cfg r (last_score (alert_state (alerts st) (mint tok)))
                        (flags_or_empty (last_risk_flags (alert_state (alerts st) (mint tok)))))
              then sendTokenAlert tg out now tbl1 tok r else tbl1)"
  using scoreToken_alerts[of cfg tg out now st tok m h p] by blast

lemma sendTokenAlert_cases2:
  obtains (same) "alert_state (sendTokenAlert tg out now tbl tok r) = alert_state tbl"
  | (sent) i where "send_result out = Some i \<or> edit_result out = Some i"
      "sendTokenAlert tg out now tbl tok r
             = tbl(mint tok \<mapsto>
                 alert_update tg now r i (alert_state tbl (mint tok)) (alert_state tbl (mint tok)))"
  using sendTokenAlert_cases[of tg out now tbl tok r] by blast

text \<open>
  Claim C9.  The alert state of a mint is its row of the \<open>alerts\<close> table, or the defaults
  of a new row when it has none; reading the state of a mint without a row creates the
  row with these defaults.  When \<open>shouldAlert\<close> says not to send, \<open>scoreToken\<close> leaves the
  alert state of every mint as it was, whatever the database does.  When neither an edit
  nor a send succeeds, \<open>sendTokenAlert\<close> and \<open>scoreToken\<close> leave it as it was.  When
  \<open>sendTokenAlert\<close> changes it, a send or an edit returned a message, only the state of
  the token's mint changed, and it holds the new score, time, message id and flags and a
  count one higher.
\<close>

theorem alert_state_changes_only_after_successful_send:
  "(score now (Val \<lparr>ts_token = Val tok, ts_metrics = m, ts_holders = h, ts_pool = p\<rparr>) = Inr r
      \<and> \<not> fst (shouldAlert cfg r (last_score (alert_state (alerts st) (mint tok)))
                  (flags_or_empty (last_risk_flags (alert_state (alerts st) (mint tok)))))
     \<longrightarrow> alert_state (alerts (snd (scoreToken cfg tg out now st tok m h p)))
           = alert_state (alerts st)
         \<and> (\<forall>k. alerts (snd (scoreToken cfg tg out now st tok m h p)) k = alerts st k
                 \<or> (k = mint tok \<and> alerts st k = None
                     \<and> alerts (snd (scoreToken cfg tg out now st tok m h p)) k = Some new_alert)))
   \<and> (edit_result out = None \<and> send_result out = None
     \<longrightarrow> alert_state (sendTokenAlert tg out now tbl tok r) = alert_state tbl
         \<and> alert_state (alerts (snd (scoreToken cfg tg out now st tok m h p)))
           = alert_state (alerts st))
   \<and> (alert_state (sendTokenAlert tg out now tbl tok r) \<noteq> alert_state tbl
     \<longrightarrow> (\<exists>i. (send_result out = Some i \<or> edit_result out = Some i)
             \<and> alert_state (sendTokenAlert tg out now tbl tok r) (mint tok)
                 = alert_update tg now r i (alert_state tbl (mint tok)) (alert_state tbl (mint tok))
             \<and> (\<forall>k. k \<noteq> mint tok \<longrightarrow>
                   alert_state (sendTokenAlert tg out now tbl tok r) k = alert_state tbl k)))
   \<and> (alert_state (alerts (snd (scoreToken cfg tg out now st tok m h p))) \<noteq> alert_state (alerts st)
     \<longrightarrow> (\<exists>i. send_result out = Some i \<or> edit_result out = Some i))"
proof -
  let ?st' = "snd (scoreToken cfg tg out now st tok m h p)"
  let ?a = "alert_state (alerts st) (mint tok)"
  have suppress: "alert_state (alerts ?st') = alert_state (alerts st)
      \<and> (\<forall>k. alerts ?st' k = alerts st k
              \<or> (k = mint tok \<and> alerts st k = None \<and> alerts ?st' k = Some new_alert))"
    if sc: "score now (Val \<lparr>ts_token = Val tok, ts_metrics = m, ts_holders = h, ts_pool = p\<rparr>) = Inr r"
      and no: "\<not> fst (shouldAlert cfg r (last_score ?a) (flags_or_empty (last_risk_flags ?a)))"
  proof (cases rule: scoreToken_alerts_cases[of cfg tg out now st tok m h p])
    case same
    then show ?thesis by simp
  next
    case (decided r' tbl1)
    from decided(1) sc have "r' = r" by simp
    with decided(3) no have "alerts ?st' = tbl1" by simp
    with getOrCreateAlert_state[OF decided(2)] show ?thesis by simp
  qed
  have failed: "alert_state (alerts ?st') = alert_state (alerts st)"
    if f: "edit_result out = None" "send_result out = None"
  proof (cases rule: scoreToken_alerts_cases[of cfg tg out now st tok m h p])
    case same
    then show ?thesis by simp
  next
    case (decided r' tbl1)
    from getOrCreateAlert_state[OF decided(2)]
    have s1: "alert_state tbl1 = alert_state (alerts st)" by simp
    show ?thesis
    proof (cases "fst (shouldAlert cfg r' (last_score ?a) (flags_or_empty (last_risk_flags ?a)))")
      case True
      with decided(3) have "alerts ?st' = sendTokenAlert tg out now tbl1 tok r'" by simp
      with sendTokenAlert_failed[OF f, of tg now tbl1 tok r'] s1 show ?thesis by simp
    next
      case False
      with decided(3) have "alerts ?st' = tbl1" by simp
      with s1 show ?thesis by simp
    qed
  qed
  have changed: "\<exists>i. (send_result out = Some i \<or> edit_result out = Some i)
             \<and> alert_state (sendTokenAlert tg out now tbl tok r) (mint tok)
                 = alert_update tg now r i (alert_state tbl (mint tok)) (alert_state tbl (mint tok))
             \<and> (\<forall>k. k \<noteq> mint tok \<longrightarrow>
                   alert_state (sendTokenAlert tg out now tbl tok r) k = alert_state tbl k)"
    if ch: "alert_state (sendTokenAlert tg out now tbl tok r) \<noteq> alert_state tbl"
  proof (cases rule: sendTokenAlert_cases2[of tg out now tbl tok r])
    case same
    with ch show ?thesis by simp
  next
    case (sent i)
    show ?thesis
      by (rule exI[of _ i]) (simp add: sent alert_state_upd_other alert_state_upd_same)
  qed
  have only: "\<exists>i. send_result out = Some i \<or> edit_result out = Some i"
    if "alert_state (alerts ?st') \<noteq> alert_state (alerts st)"
  proof (rule ccontr)
    assume n: "\<not> (\<exists>i. send_result out = Some i \<or> edit_result out = Some i)"
    have e: "edit_result out = None" using n by (cases "edit_result out") auto
    have s: "send_result out = None" using n by (cases "send_result out") auto
    from failed[OF e s] that show False by simp
  qed
  have c1: "score now (Val \<lparr>ts_token = Val tok, ts_metrics = m, ts_holders = h, ts_pool = p\<rparr>) = Inr r
      \<and> \<not> fst (shouldAlert cfg r (last_score ?a) (flags_or_empty (last_risk_flags ?a)))
     \<longrightarrow> alert_state (alerts ?st') = alert_state (alerts st)
         \<and> (\<forall>k. alerts ?st' k = alerts st k
                 \<or> (k = mint tok \<and> alerts st k = None \<and> alerts ?st' k = Some new_alert))"
    using suppress by blast
  have c2: "edit_result out = None \<and> send_result out = None
     \<longrightarrow> alert_state (sendTokenAlert tg out now tbl tok r) = alert_state tbl
         \<and> alert_state (alerts ?st') = alert_state (alerts st)"
    using failed sendTokenAlert_failed[of out tg now tbl tok r] by blast
  have c3: "alert_state (sendTokenAlert tg out now tbl tok r) \<noteq> alert_state tbl
     \<longrightarrow> (\<exists>i. (send_result out = Some i \<or> edit_result out = Some i)
             \<and> alert_state (sendTokenAlert tg out now tbl tok r) (mint tok)
                 = alert_update tg now r i (alert_state tbl (mint tok)) (alert_state tbl (mint tok))
             \<and> (\<forall>k. k \<noteq> mint tok \<longrightarrow>
                   alert_state (sendTokenAlert tg out now tbl tok r) k = alert_state tbl k))"
    using changed by blast
  have c4: "alert_state (alerts ?st') \<noteq> alert_state (alerts st)
     \<longrightarrow> (\<exists>i. send_result out = Some i \<or> edit_result out = Some i)"
    using only by blast
  show ?thesis
    by (rule conjI[OF c1 conjI[OF c2 conjI[OF c3 c4]]])
qed

lemma score_fresh_token:
  "score 600000 (Val \<lparr>ts_token = Val fresh_token, ts_metrics = Null, ts_holders = Null,
                       ts_pool = Undefined\<rparr>) = Inr quiet_result"
proof -
  let ?s = "\<lparr>ts_token = Val fresh_token, ts_metrics = Null, ts_holders = Null, ts_pool = Undefined\<rparr>"
  have v: "liquidityUsd ?s = 0" "uniqueBuyers1m ?s = 0"
    "swaps1m ?s = 0" "volume1m ?s = 0"
    "holderCount ?s = 0" "uniqueBuyers5m ?s = 0"
    "buyRatio ?s = 1 / 2" "top1Pct ?s = 0"
    "priceChange5m ?s = 0" "authorityResult ?s = None"
    "top10Pct ?s = 0" "top10Result ?s = None"
    "top1Result ?s = None" "veryNewToken 600000 ?s = False"
    by (simp_all add: fresh_token_def read_defs authorityResult_def
        top10Result_def top1Result_def concentrationResult_def NEW_TOKEN_thresholdMinutes_def)
  have t: "LOW_LIQUIDITY_threshold = 5000" "LOW_HOLDERS_threshold = 10" "NO_VOLUME_threshold = 0"
    "WHALE_CONCENTRATION_threshold = 40" "RAPID_PRICE_DROP_threshold = -30"
    by (simp_all add: LOW_LIQUIDITY_threshold_def LOW_HOLDERS_threshold_def NO_VOLUME_threshold_def
        WHALE_CONCENTRATION_threshold_def RAPID_PRICE_DROP_threshold_def)
  show ?thesis
    unfolding score_def score_object_def v t quiet_result_def
    by (simp add: sbt_liquidity sbt_buyers1m sbt_swaps1m sbt_volume1m sbt_holders sbt_buyers5m
      sbt_buy_pressure bindE_Inr authorityPenalty_def v concentration_penalty_def
      concentration_reason_def concentration_entry_def Math_round_numeral
      MAX_POINTS_LIQUIDITY_def MAX_POINTS_UNIQUE_BUYERS_1M_def MAX_POINTS_SWAPS_1M_def
      MAX_POINTS_VOLUME_1M_def MAX_POINTS_HOLDER_COUNT_def MAX_POINTS_UNIQUE_BUYERS_5M_def
      MAX_POINTS_BUY_PRESSURE_def)
qed

theorem alert_state_changes_only_after_successful_send_witness:
  "score 600000 (Val \<lparr>ts_token = Val fresh_token, ts_metrics = Null, ts_holders = Null,
                       ts_pool = Undefined\<rparr>) = Inr quiet_result
   \<and> \<not> fst (shouldAlert default_thresholds quiet_result
               (last_score (alert_state (alerts empty_store) (mint fresh_token)))
               (flags_or_empty (last_risk_flags (alert_state (alerts empty_store) (mint fresh_token)))))
   \<and> alert_state (alerts (snd (scoreToken default_thresholds telegram_on send_succeeds 600000
          empty_store fresh_token Null Null Undefined))) = alert_state (alerts empty_store)
   \<and> alerts (snd (scoreToken default_thresholds telegram_on send_succeeds 600000
          empty_store fresh_token Null Null Undefined)) (mint fresh_token) = Some new_alert
   \<and> edit_result sends_fail = None \<and> send_result sends_fail = None
   \<and> alert_state (sendTokenAlert telegram_on sends_fail 600000 Map.empty fresh_token quiet_result)
       = alert_state Map.empty
   \<and> alert_state (sendTokenAlert telegram_on send_succeeds 600000 Map.empty fresh_token quiet_result)
       \<noteq> alert_state Map.empty
   \<and> send_result send_succeeds = Some 7
   \<and> alert_state (sendTokenAlert telegram_on send_succeeds 600000 Map.empty fresh_token quiet_result)
         (mint fresh_token)
       = \<lparr>last_score = Val 4, last_sent_at = Val 600000, telegram_message_id = Val 7,
          telegram_chat_id = Val ''chat-1'', alert_count = Val 1,
          last_risk_flags = Val [''LOW_LIQUIDITY_WARNING'', ''LOW_HOLDER_COUNT'', ''NO_RECENT_VOLUME'']\<rparr>"
proof -
  have sup: "\<not> fst (shouldAlert default_thresholds quiet_result
               (last_score (alert_state (alerts empty_store) (mint fresh_token)))
               (flags_or_empty (last_risk_flags (alert_state (alerts empty_store) (mint fresh_token)))))"
    by (simp add: shouldAlert_def Let_def default_thresholds_def quiet_result_def alert_state_def
        empty_store_def new_alert_def flags_or_empty_def)
  have sent: "sendTokenAlert telegram_on send_succeeds 600000 Map.empty fresh_token quiet_result
      = [mint fresh_token \<mapsto> \<lparr>last_score = Val 4, last_sent_at = Val 600000, telegram_message_id = Val 7,
          telegram_chat_id = Val ''chat-1'', alert_count = Val 1,
          last_risk_flags = Val [''LOW_LIQUIDITY_WARNING'', ''LOW_HOLDER_COUNT'', ''NO_RECENT_VOLUME'']\<rparr>]"
    by (simp add: sendTokenAlert_def telegram_on_def send_succeeds_def getOrCreateAlert_def
        updateAlert_def alert_update_def new_alert_def quiet_result_def truthy_str_def Let_def)
  have ne: "alert_state (sendTokenAlert telegram_on send_succeeds 600000 Map.empty fresh_token quiet_result)
       \<noteq> alert_state Map.empty"
  proof
    assume "alert_state (sendTokenAlert telegram_on send_succeeds 600000 Map.empty fresh_token quiet_result)
       = alert_state Map.empty"
    then have "alert_state (sendTokenAlert telegram_on send_succeeds 600000 Map.empty fresh_token quiet_result) (mint fresh_token)
       = alert_state Map.empty (mint fresh_token)" by simp
    then show False by (simp add: sent alert_state_def new_alert_def)
  qed
  have created: "alerts (snd (scoreToken default_thresholds telegram_on send_succeeds 600000
          empty_store fresh_token Null Null Undefined)) (mint fresh_token) = Some new_alert"
    using sup
    by (simp add: scoreToken_def score_fresh_token send_succeeds_def Let_def empty_store_def
        getOrCreateAlert_def alert_state_def)
  have hyp: "score 600000 (Val \<lparr>ts_token = Val fresh_token, ts_metrics = Null, ts_holders = Null,
                       ts_pool = Undefined\<rparr>) = Inr quiet_result
      \<and> \<not> fst (shouldAlert default_thresholds quiet_result
               (last_score (alert_state (alerts empty_store) (mint fresh_token)))
               (flags_or_empty (last_risk_flags (alert_state (alerts empty_store) (mint fresh_token)))))"
    using score_fresh_token sup by (rule conjI)
  have quiet: "alert_state (alerts (snd (scoreToken default_thresholds telegram_on send_succeeds 600000
          empty_store fresh_token Null Null Undefined))) = alert_state (alerts empty_store)"
    using alert_state_changes_only_after_successful_send
      [of 600000 fresh_token Null Null Undefined quiet_result default_thresholds empty_store
          telegram_on send_succeeds Map.empty] hyp
    by blast
  have f: "edit_result sends_fail = None" "send_result sends_fail = None"
    by (simp_all add: sends_fail_def)
  have failed: "alert_state (sendTokenAlert telegram_on sends_fail 600000 Map.empty fresh_token quiet_result)
       = alert_state Map.empty"
    using alert_state_changes_only_after_successful_send
      [of 600000 fresh_token Null Null Undefined quiet_result default_thresholds empty_store
          telegram_on sends_fail Map.empty] f
    by blast
  have ok: "send_result send_succeeds = Some 7" by (simp add: send_succeeds_def)
  have row: "alert_state (sendTokenAlert telegram_on send_succeeds 600000 Map.empty fresh_token quiet_result)
         (mint fresh_token)
       = \<lparr>last_score = Val 4, last_sent_at = Val 600000, telegram_message_id = Val 7,
          telegram_chat_id = Val ''chat-1'', alert_count = Val 1,
          last_risk_flags = Val [''LOW_LIQUIDITY_WARNING'', ''LOW_HOLDER_COUNT'', ''NO_RECENT_VOLUME'']\<rparr>"
    by (simp add: sent alert_state_upd_same)
  show ?thesis
    using score_fresh_token sup quiet created f failed ne ok row by (intro conjI)
qed

section \<open>Properties of swap extraction\<close>

lemma transfer_step_tokenMint:
  "v_tokenMint (transfer_step payer t v) = (if is_quote (transfer_mint t) then v_tokenMint v else transfer_mint t)"
  by (simp add: transfer_step_def Let_def)

lemma find_app:
  "find P (xs @ ys) = (case find P xs of None \<Rightarrow> find P ys | Some x \<Rightarrow> Some x)"
  by (induction xs) auto

lemma fold_transfer_step_tokenMint:
  "v_tokenMint (fold (transfer_step payer) transfers v) =
     (case last_non_quote transfers of Some t \<Rightarrow> transfer_mint t | None \<Rightarrow> v_tokenMint v)"
proof (induction transfers arbitrary: v)
  case Nil
  then show ?case by (simp add: last_non_quote_def)
next
  case (Cons t transfers)
  show ?case
    by (simp add: Cons.IH last_non_quote_def transfer_step_tokenMint find_app
        split: option.splits)
qed

lemma scan_tokenTransfers_tokenMint:
  "v_tokenMint (scan_tokenTransfers tx initial_vars) =
     (case tokenTransfers tx of
        Val transfers \<Rightarrow>
          (case last_non_quote transfers of Some t \<Rightarrow> transfer_mint t | None \<Rightarrow> Null)
      | _ \<Rightarrow> Null)"
  by (simp add: scan_tokenTransfers_def fold_transfer_step_tokenMint initial_vars_def
      split: jsval.splits option.splits)

lemma scan_nativeTransfers_tokenMint: "v_tokenMint (scan_nativeTransfers tx v) = v_tokenMint v"
  by (simp add: scan_nativeTransfers_def Let_def split: jsval.splits)

lemma scan_swapEvent_tokenMint:
  "v_tokenMint (scan_swapEvent tx v) =
     (case events_swap tx of
        Val ev \<Rightarrow> str_or (v_tokenMint v) (str_or (first_mint (tokenOutputs ev)) (first_mint (tokenInputs ev)))
      | _ \<Rightarrow> v_tokenMint v)"
  by (simp add: scan_swapEvent_def Let_def split: jsval.splits)

lemma scanned_tokenMint:
  "v_tokenMint (scan_swapEvent tx (scan_nativeTransfers tx (scan_tokenTransfers tx initial_vars)))
     = subject_mint tx"
  unfolding scan_swapEvent_tokenMint scan_nativeTransfers_tokenMint
      scan_tokenTransfers_tokenMint subject_mint_def Let_def
  by (rule refl)

lemma parse_cases:
  "parseSwapTransaction now tx =
     (case swap_timestamp now tx of
        Inl e \<Rightarrow> Inl e
      | Inr t \<Rightarrow>
          (if \<not> truthy_str (subject_mint tx) \<or> is_quote (subject_mint tx) then Inr None
           else Inr (Some \<lparr>token_mint = subject_mint tx, signature = tx_signature tx,
                     ts = t,
                     side = Val (v_side (scan_swapEvent tx (scan_nativeTransfers tx (scan_tokenTransfers tx initial_vars)))),
                     amount_usd = Null,
                     amount_token = v_amountToken (scan_swapEvent tx (scan_nativeTransfers tx (scan_tokenTransfers tx initial_vars))),
                     amount_sol = v_amountSol (scan_swapEvent tx (scan_nativeTransfers tx (scan_tokenTransfers tx initial_vars))),
                     buyer = v_buyer (scan_swapEvent tx (scan_nativeTransfers tx (scan_tokenTransfers tx initial_vars))),
                     seller = v_seller (scan_swapEvent tx (scan_nativeTransfers tx (scan_tokenTransfers tx initial_vars))),
                     pool_address = find_poolAddress tx,
                     meta_source = str_or (tx_source tx) (Val ''unknown''),
                     meta_type = tx_type tx, meta_fee_payer = feePayer tx\<rparr>)))"
  by (simp add: parseSwapTransaction_def Let_def scanned_tokenMint split: sum.splits)

lemma subject_mint_last:
  assumes "tokenTransfers tx = Val transfers" "last_non_quote transfers = Some t"
    "truthy_str (transfer_mint t)"
  shows "subject_mint tx = transfer_mint t"
  using assms by (simp add: subject_mint_def Let_def str_or_def split: jsval.splits)

lemma find_Some_holds: "find P xs = Some x \<Longrightarrow> P x \<and> x \<in> set xs"
  by (induction xs) (auto split: if_splits)

lemma last_non_quote_not_quote:
  "last_non_quote transfers = Some t \<Longrightarrow> \<not> is_quote (transfer_mint t) \<and> t \<in> set transfers"
  unfolding last_non_quote_def by (auto dest: find_Some_holds)

lemma find_filter_hd: "find P xs = (case filter P xs of [] \<Rightarrow> None | y # _ \<Rightarrow> Some y)"
  by (induction xs) auto

lemma single_non_quote_first_is_last:
  assumes "length (filter (\<lambda>t. \<not> is_quote (transfer_mint t)) transfers) \<le> 1"
  shows "last_non_quote transfers = first_non_quote transfers"
proof -
  let ?f = "filter (\<lambda>t. \<not> is_quote (transfer_mint t)) transfers"
  from assms have "rev ?f = ?f" by (cases ?f) auto
  then show ?thesis
    unfolding last_non_quote_def first_non_quote_def find_filter_hd[of _ "rev transfers"]
      find_filter_hd[of _ transfers] rev_filter[symmetric]
    by simp
qed

lemma last_non_quote_is_last:
  "last_non_quote transfers = Some leg \<Longrightarrow>
   \<exists>pre post. transfers = pre @ leg # post \<and> list_all (\<lambda>u. is_quote (transfer_mint u)) post"
proof (induction transfers rule: rev_induct)
  case Nil
  then show ?case by (simp add: last_non_quote_def)
next
  case (snoc a xs)
  show ?case
  proof (cases "is_quote (transfer_mint a)")
    case True
    with snoc.prems have "last_non_quote xs = Some leg" by (simp add: last_non_quote_def)
    from snoc.IH[OF this] obtain pre post where
      "xs = pre @ leg # post" "list_all (\<lambda>u. is_quote (transfer_mint u)) post" by blast
    with True have "xs @ [a] = pre @ leg # (post @ [a]) \<and> list_all (\<lambda>u. is_quote (transfer_mint u)) (post @ [a])"
      by simp
    then show ?thesis by blast
  next
    case False
    with snoc.prems have "leg = a" by (simp add: last_non_quote_def)
    then have "xs @ [a] = xs @ leg # [] \<and> list_all (\<lambda>u. is_quote (transfer_mint u)) []" by simp
    then show ?thesis by blast
  qed
qed

text \<open>
  Claim C3, as the code has it.  The loop over the token transfers has no \<open>break\<close>, so
  the subject token is the mint of the last transfer of the list that is not a quote
  asset: that transfer is followed by quote assets only.  When the transaction carries a
  parsed swap event and the transfers gave no mint, the mint of the event's first token
  output, else of its first token input, is taken.  With a timestamp in the range of
  \<open>Date\<close> the function returns no record exactly when this mint is missing, empty or a quote
  asset, and every record it returns carries this mint, which is then neither empty nor a
  quote asset; a timestamp out of range raises.  A list with at most one transfer
  that is not a quote asset has the same first and last such transfer.
\<close>

theorem parseSwapTransaction_subject_is_last_non_quote:
  "(swap_timestamp now tx = Inr t \<longrightarrow>
      (parseSwapTransaction now tx = Inr None
         \<longleftrightarrow> \<not> truthy_str (subject_mint tx) \<or> is_quote (subject_mint tx))
    \<and> (\<forall>sw. parseSwapTransaction now tx = Inr (Some sw) \<longrightarrow>
          token_mint sw = subject_mint tx \<and> truthy_str (token_mint sw) \<and> \<not> is_quote (token_mint sw))
    \<and> (\<forall>transfers leg. tokenTransfers tx = Val transfers \<and> last_non_quote transfers = Some leg
           \<and> truthy_str (transfer_mint leg) \<longrightarrow>
          (\<exists>sw. parseSwapTransaction now tx = Inr (Some sw) \<and> token_mint sw = transfer_mint leg))
    \<and> (\<forall>transfers. tokenTransfers tx = Val transfers \<and> last_non_quote transfers = None
           \<and> events_swap tx = Undefined \<longrightarrow> parseSwapTransaction now tx = Inr None))
   \<and> (swap_timestamp now tx = Inl e \<longrightarrow> parseSwapTransaction now tx = Inl e)
   \<and> (\<forall>transfers leg. last_non_quote transfers = Some leg \<longrightarrow>
          \<not> is_quote (transfer_mint leg)
          \<and> (\<exists>pre post. transfers = pre @ leg # post
                \<and> list_all (\<lambda>u. is_quote (transfer_mint u)) post))
   \<and> (\<forall>transfers. length (filter (\<lambda>t. \<not> is_quote (transfer_mint t)) transfers) \<le> 1 \<longrightarrow>
          last_non_quote transfers = first_non_quote transfers)"
proof -
  have a: "\<exists>sw. parseSwapTransaction now tx = Inr (Some sw) \<and> token_mint sw = transfer_mint leg"
    if "swap_timestamp now tx = Inr t" "tokenTransfers tx = Val transfers"
      "last_non_quote transfers = Some leg" "truthy_str (transfer_mint leg)" for transfers leg
    using that subject_mint_last[OF that(2,3,4)] last_non_quote_not_quote[OF that(3)]
    by (simp add: parse_cases)
  have b: "parseSwapTransaction now tx = Inr None"
    if "swap_timestamp now tx = Inr t" "tokenTransfers tx = Val transfers"
      "last_non_quote transfers = None" "events_swap tx = Undefined" for transfers
    using that by (simp add: parse_cases subject_mint_def truthy_str_def)
  have c: "(swap_timestamp now tx = Inr t \<longrightarrow>
      (parseSwapTransaction now tx = Inr None
         \<longleftrightarrow> \<not> truthy_str (subject_mint tx) \<or> is_quote (subject_mint tx))
    \<and> (\<forall>sw. parseSwapTransaction now tx = Inr (Some sw) \<longrightarrow>
          token_mint sw = subject_mint tx \<and> truthy_str (token_mint sw) \<and> \<not> is_quote (token_mint sw))
    \<and> (\<forall>transfers leg. tokenTransfers tx = Val transfers \<and> last_non_quote transfers = Some leg
           \<and> truthy_str (transfer_mint leg) \<longrightarrow>
          (\<exists>sw. parseSwapTransaction now tx = Inr (Some sw) \<and> token_mint sw = transfer_mint leg))
    \<and> (\<forall>transfers. tokenTransfers tx = Val transfers \<and> last_non_quote transfers = None
           \<and> events_swap tx = Undefined \<longrightarrow> parseSwapTransaction now tx = Inr None))
   \<and> (swap_timestamp now tx = Inl e \<longrightarrow> parseSwapTransaction now tx = Inl e)"
    using a b by (auto simp: parse_cases)
  have d: "\<forall>transfers leg. last_non_quote transfers = Some leg \<longrightarrow>
          \<not> is_quote (transfer_mint leg)
          \<and> (\<exists>pre post. transfers = pre @ leg # post
                \<and> list_all (\<lambda>u. is_quote (transfer_mint u)) post)"
    using last_non_quote_not_quote last_non_quote_is_last by blast
  have e: "\<forall>transfers. length (filter (\<lambda>t. \<not> is_quote (transfer_mint t)) transfers) \<le> 1 \<longrightarrow>
          last_non_quote transfers = first_non_quote transfers"
    using single_non_quote_first_is_last by blast
  from c d e show ?thesis by blast
qed

text \<open>
  Claim C3 as stated fails on a transaction with two token legs, neither a quote asset:
  the first such transfer is \<open>MemeX\<close>, and the record names \<open>MemeY\<close>, the last.
\<close>

theorem parseSwapTransaction_first_non_quote_counterexample:
  "first_non_quote [leg_X, leg_Y] = Some leg_X
   \<and> transfer_mint leg_X = Val ''MemeX''
   \<and> parseSwapTransaction 0 two_leg_tx
     = Inr (Some \<lparr>token_mint = Val ''MemeY'', signature = Val ''sig-1'', ts = 1700000000000,
                   side = Val ''sell'', amount_usd = Null, amount_token = Val 50,
                   amount_sol = Null, buyer = Val ''Trader'', seller = Val ''Trader'',
                   pool_address = Null, meta_source = Val ''JUPITER'',
                   meta_type = Val ''SWAP'', meta_fee_payer = Val ''Trader''\<rparr>)"
  by (simp add: first_non_quote_def leg_X_def leg_Y_def two_leg_tx_def is_quote_def WSOL_MINT_def
      STABLECOIN_MINTS_def parseSwapTransaction_def swap_timestamp_def scan_swapEvent_def
      scan_nativeTransfers_def scan_tokenTransfers_def transfer_step_def initial_vars_def
      parseFloat_or_null_def truthy_str_def truthy_num_def find_poolAddress_def str_or_def Let_def)

theorem parseSwapTransaction_subject_is_last_non_quote_witness:
  "swap_timestamp 0 two_leg_tx = Inr 1700000000000
   \<and> tokenTransfers two_leg_tx = Val [leg_X, leg_Y]
   \<and> last_non_quote [leg_X, leg_Y] = Some leg_Y
   \<and> truthy_str (transfer_mint leg_Y)
   \<and> subject_mint two_leg_tx = Val ''MemeY''
   \<and> (\<exists>sw. parseSwapTransaction 0 two_leg_tx = Inr (Some sw) \<and> token_mint sw = transfer_mint leg_Y)
   \<and> parseSwapTransaction 0 (two_leg_tx\<lparr>tokenTransfers := Val []\<rparr>) = Inr None"
proof -
  have h: "swap_timestamp 0 two_leg_tx = Inr 1700000000000"
    "tokenTransfers two_leg_tx = Val [leg_X, leg_Y]"
    "last_non_quote [leg_X, leg_Y] = Some leg_Y" "truthy_str (transfer_mint leg_Y)"
    by (simp_all add: swap_timestamp_def two_leg_tx_def last_non_quote_def leg_X_def leg_Y_def
        is_quote_def WSOL_MINT_def STABLECOIN_MINTS_def truthy_str_def)
  have m: "subject_mint two_leg_tx = Val ''MemeY''"
    using h by (simp add: subject_mint_def two_leg_tx_def leg_Y_def)
  have e: "swap_timestamp 0 (two_leg_tx\<lparr>tokenTransfers := Val []\<rparr>) = Inr 1700000000000"
    "tokenTransfers (two_leg_tx\<lparr>tokenTransfers := Val []\<rparr>) = Val []"
    "last_non_quote [] = None" "events_swap (two_leg_tx\<lparr>tokenTransfers := Val []\<rparr>) = Undefined"
    by (simp_all add: swap_timestamp_def two_leg_tx_def last_non_quote_def)
  have 1: "\<exists>sw. parseSwapTransaction 0 two_leg_tx = Inr (Some sw) \<and> token_mint sw = transfer_mint leg_Y"
    using parseSwapTransaction_subject_is_last_non_quote[of 0 two_leg_tx 1700000000000] h by blast
  have 2: "parseSwapTransaction 0 (two_leg_tx\<lparr>tokenTransfers := Val []\<rparr>) = Inr None"
    using parseSwapTransaction_subject_is_last_non_quote
      [of 0 "two_leg_tx\<lparr>tokenTransfers := Val []\<rparr>" 1700000000000] e by blast
  show ?thesis using h m 1 2 by (intro conjI)
qed

section \<open>Properties of the metrics aggregation\<close>

lemma add_if_truthy_set:
  "set (add_if_truthy who s) = set s \<union> {w. w \<noteq> [] \<and> Val w = who}"
  by (auto simp: add_if_truthy_def Set_add_def split: jsval.splits)

lemma add_if_truthy_distinct: "distinct s \<Longrightarrow> distinct (add_if_truthy who s)"
  by (auto simp: add_if_truthy_def Set_add_def split: jsval.splits)

lemma wallets_Cons:
  "wallets field (sw # swaps) = {w. w \<noteq> [] \<and> Val w = field sw} \<union> wallets field swaps"
  by (auto simp: wallets_def)

lemma wallets_Nil: "wallets field [] = {}"
  by (simp add: wallets_def)

lemma step_fields:
  "acc_swaps_15m (swap_step c1 c5 sw a) = acc_swaps_15m a + 1"
  "acc_swaps_5m (swap_step c1 c5 sw a) = acc_swaps_5m a + (if ts sw \<ge> c5 then 1 else 0)"
  "acc_swaps_1m (swap_step c1 c5 sw a) = acc_swaps_1m a + (if ts sw \<ge> c1 then 1 else 0)"
  "acc_volume_usd_15m (swap_step c1 c5 sw a) = acc_volume_usd_15m a + volume_of sw"
  "acc_volume_usd_5m (swap_step c1 c5 sw a)
     = acc_volume_usd_5m a + (if ts sw \<ge> c5 then volume_of sw else 0)"
  "acc_volume_usd_1m (swap_step c1 c5 sw a)
     = acc_volume_usd_1m a + (if ts sw \<ge> c1 then volume_of sw else 0)"
  "acc_buy_volume_usd_1m (swap_step c1 c5 sw a)
     = acc_buy_volume_usd_1m a + (if ts sw \<ge> c1 \<and> side sw = Val ''buy'' then volume_of sw else 0)"
  "acc_sell_volume_usd_1m (swap_step c1 c5 sw a)
     = acc_sell_volume_usd_1m a + (if ts sw \<ge> c1 \<and> side sw = Val ''sell'' then volume_of sw else 0)"
  "acc_unique_buyers_15m (swap_step c1 c5 sw a) = add_if_truthy (buyer sw) (acc_unique_buyers_15m a)"
  "acc_unique_buyers_5m (swap_step c1 c5 sw a)
     = (if ts sw \<ge> c5 then add_if_truthy (buyer sw) (acc_unique_buyers_5m a)
        else acc_unique_buyers_5m a)"
  "acc_unique_buyers_1m (swap_step c1 c5 sw a)
     = (if ts sw \<ge> c1 then add_if_truthy (buyer sw) (acc_unique_buyers_1m a)
        else acc_unique_buyers_1m a)"
  "acc_unique_sellers_5m (swap_step c1 c5 sw a) = add_if_truthy (seller sw) (acc_unique_sellers_5m a)"
  "acc_unique_sellers_1m (swap_step c1 c5 sw a)
     = (if ts sw \<ge> c1 then add_if_truthy (seller sw) (acc_unique_sellers_1m a)
        else acc_unique_sellers_1m a)"
  by (simp_all add: swap_step_def Let_def volume_of_def)

lemma fold_counts:
  "acc_swaps_15m (fold (swap_step c1 c5) swaps a) = acc_swaps_15m a + length swaps"
  "acc_swaps_5m (fold (swap_step c1 c5) swaps a) = acc_swaps_5m a + length (since c5 swaps)"
  "acc_swaps_1m (fold (swap_step c1 c5) swaps a) = acc_swaps_1m a + length (since c1 swaps)"
  by (induction swaps arbitrary: a; simp add: step_fields since_def)+

lemma fold_volumes:
  "acc_volume_usd_15m (fold (swap_step c1 c5) swaps a)
     = acc_volume_usd_15m a + sum_list (map volume_of swaps)"
  "acc_volume_usd_5m (fold (swap_step c1 c5) swaps a)
     = acc_volume_usd_5m a + sum_list (map volume_of (since c5 swaps))"
  "acc_volume_usd_1m (fold (swap_step c1 c5) swaps a)
     = acc_volume_usd_1m a + sum_list (map volume_of (since c1 swaps))"
  "acc_buy_volume_usd_1m (fold (swap_step c1 c5) swaps a)
     = acc_buy_volume_usd_1m a
       + sum_list (map volume_of (filter (\<lambda>s. side s = Val ''buy'') (since c1 swaps)))"
  "acc_sell_volume_usd_1m (fold (swap_step c1 c5) swaps a)
     = acc_sell_volume_usd_1m a
       + sum_list (map volume_of (filter (\<lambda>s. side s = Val ''sell'') (since c1 swaps)))"
  by (induction swaps arbitrary: a; simp add: step_fields since_def)+

lemma fold_sets:
  "set (acc_unique_buyers_15m (fold (swap_step c1 c5) swaps a))
     = set (acc_unique_buyers_15m a) \<union> wallets buyer swaps"
  "set (acc_unique_buyers_5m (fold (swap_step c1 c5) swaps a))
     = set (acc_unique_buyers_5m a) \<union> wallets buyer (since c5 swaps)"
  "set (acc_unique_buyers_1m (fold (swap_step c1 c5) swaps a))
     = set (acc_unique_buyers_1m a) \<union> wallets buyer (since c1 swaps)"
  "set (acc_unique_sellers_5m (fold (swap_step c1 c5) swaps a))
     = set (acc_unique_sellers_5m a) \<union> wallets seller swaps"
  "set (acc_unique_sellers_1m (fold (swap_step c1 c5) swaps a))
     = set (acc_unique_sellers_1m a) \<union> wallets seller (since c1 swaps)"
  by (induction swaps arbitrary: a;
      auto simp add: step_fields since_def add_if_truthy_set wallets_Cons wallets_Nil)+

lemma fold_distinct:
  "distinct (acc_unique_buyers_15m a) \<Longrightarrow> distinct (acc_unique_buyers_15m (fold (swap_step c1 c5) swaps a))"
  "distinct (acc_unique_buyers_5m a) \<Longrightarrow> distinct (acc_unique_buyers_5m (fold (swap_step c1 c5) swaps a))"
  "distinct (acc_unique_buyers_1m a) \<Longrightarrow> distinct (acc_unique_buyers_1m (fold (swap_step c1 c5) swaps a))"
  "distinct (acc_unique_sellers_5m a) \<Longrightarrow> distinct (acc_unique_sellers_5m (fold (swap_step c1 c5) swaps a))"
  "distinct (acc_unique_sellers_1m a) \<Longrightarrow> distinct (acc_unique_sellers_1m (fold (swap_step c1 c5) swaps a))"
  by (induction swaps arbitrary: a; simp add: step_fields add_if_truthy_distinct)+

lemma size_is_card: "distinct s \<Longrightarrow> Set_size s = card (set s)"
  by (simp add: Set_size_def distinct_card)

lemma metrics_of_swaps_windows:
  "sm_swaps_15m (metrics_of_swaps now swaps) = length swaps"
  "sm_swaps_5m (metrics_of_swaps now swaps) = length (since (minutesAgo now 5) swaps)"
  "sm_swaps_1m (metrics_of_swaps now swaps) = length (since (minutesAgo now 1) swaps)"
  "sm_volume_usd_15m (metrics_of_swaps now swaps) = sum_list (map volume_of swaps)"
  "sm_volume_usd_5m (metrics_of_swaps now swaps)
     = sum_list (map volume_of (since (minutesAgo now 5) swaps))"
  "sm_volume_usd_1m (metrics_of_swaps now swaps)
     = sum_list (map volume_of (since (minutesAgo now 1) swaps))"
  "sm_buy_volume_usd_1m (metrics_of_swaps now swaps)
     = sum_list (map volume_of (filter (\<lambda>s. side s = Val ''buy'') (since (minutesAgo now 1) swaps)))"
  "sm_sell_volume_usd_1m (metrics_of_swaps now swaps)
     = sum_list (map volume_of (filter (\<lambda>s. side s = Val ''sell'') (since (minutesAgo now 1) swaps)))"
  "sm_unique_buyers_15m (metrics_of_swaps now swaps) = card (wallets buyer swaps)"
  "sm_unique_buyers_5m (metrics_of_swaps now swaps)
     = card (wallets buyer (since (minutesAgo now 5) swaps))"
  "sm_unique_buyers_1m (metrics_of_swaps now swaps)
     = card (wallets buyer (since (minutesAgo now 1) swaps))"
  "sm_unique_sellers_1m (metrics_of_swaps now swaps)
     = card (wallets seller (since (minutesAgo now 1) swaps))"
  "sm_unique_sellers_5m (metrics_of_swaps now swaps) = card (wallets seller swaps)"
proof -
  let ?a = "fold (swap_step (minutesAgo now 1) (minutesAgo now 5)) swaps empty_acc"
  have d: "distinct (acc_unique_buyers_15m ?a)" "distinct (acc_unique_buyers_5m ?a)"
    "distinct (acc_unique_buyers_1m ?a)" "distinct (acc_unique_sellers_5m ?a)"
    "distinct (acc_unique_sellers_1m ?a)"
    by (rule fold_distinct; simp add: empty_acc_def)+
  have e: "swaps = [] \<Longrightarrow> metrics_of_swaps now swaps = snapshot_of ?a"
    by (simp add: metrics_of_swaps_def zero_snapshot_def snapshot_of_def empty_acc_def Set_size_def)
  have m: "metrics_of_swaps now swaps = snapshot_of ?a"
    using e by (cases "swaps = []") (simp_all add: metrics_of_swaps_def)
  show "sm_swaps_15m (metrics_of_swaps now swaps) = length swaps"
    "sm_swaps_5m (metrics_of_swaps now swaps) = length (since (minutesAgo now 5) swaps)"
    "sm_swaps_1m (metrics_of_swaps now swaps) = length (since (minutesAgo now 1) swaps)"
    by (simp_all add: m snapshot_of_def fold_counts empty_acc_def)
  show "sm_volume_usd_15m (metrics_of_swaps now swaps) = sum_list (map volume_of swaps)"
    "sm_volume_usd_5m (metrics_of_swaps now swaps)
       = sum_list (map volume_of (since (minutesAgo now 5) swaps))"
    "sm_volume_usd_1m (metrics_of_swaps now swaps)
       = sum_list (map volume_of (since (minutesAgo now 1) swaps))"
    "sm_buy_volume_usd_1m (metrics_of_swaps now swaps)
       = sum_list (map volume_of (filter (\<lambda>s. side s = Val ''buy'') (since (minutesAgo now 1) swaps)))"
    "sm_sell_volume_usd_1m (metrics_of_swaps now swaps)
       = sum_list (map volume_of (filter (\<lambda>s. side s = Val ''sell'') (since (minutesAgo now 1) swaps)))"
    by (simp_all add: m snapshot_of_def fold_volumes empty_acc_def)
  show "sm_unique_buyers_15m (metrics_of_swaps now swaps) = card (wallets buyer swaps)"
    "sm_unique_buyers_5m (metrics_of_swaps now swaps)
       = card (wallets buyer (since (minutesAgo now 5) swaps))"
    "sm_unique_buyers_1m (metrics_of_swaps now swaps)
       = card (wallets buyer (since (minutesAgo now 1) swaps))"
    "sm_unique_sellers_1m (metrics_of_swaps now swaps)
       = card (wallets seller (since (minutesAgo now 1) swaps))"
    "sm_unique_sellers_5m (metrics_of_swaps now swaps) = card (wallets seller swaps)"
    using d by (simp_all add: m snapshot_of_def size_is_card fold_sets empty_acc_def)
qed

lemma metrics_of_no_swaps: "metrics_of_swaps now [] = zero_snapshot"
  by (simp add: metrics_of_swaps_def)

text \<open>
  Claim C4 on the code.  The lemma \<open>metrics_of_swaps_windows\<close> above gives every field of
  the snapshot: the counts, the volumes, the buyer counts and the 1 minute seller count
  aggregate exactly the swaps at or after their window's cutoff, and no swaps give the
  all-zero snapshot.  The field \<open>unique_sellers_5m\<close> is the exception: the seller is added
  to its set in the 15 minute block, so it counts the sellers of all the swaps.  Here one
  swap, ten minutes old and so outside the 5 minute window, with a seller: the snapshot
  has no swap in the 5 minute window and one seller in \<open>unique_sellers_5m\<close>.
\<close>

theorem getSwapMetrics_old_seller_in_5m_count:
  "ts old_sell < minutesAgo 1000000 5
   \<and> select_swaps [old_sell] ''MemeX'' (minutesAgo 1000000 15) = [old_sell]
   \<and> getSwapMetrics False 1000000 [old_sell] ''MemeX''
       = Inr \<lparr>sm_swaps_1m = 0, sm_swaps_5m = 0, sm_swaps_15m = 1,
              sm_unique_buyers_1m = 0, sm_unique_buyers_5m = 0, sm_unique_buyers_15m = 0,
              sm_unique_sellers_1m = 0, sm_unique_sellers_5m = 1,
              sm_volume_usd_1m = 0, sm_volume_usd_5m = 0, sm_volume_usd_15m = 5,
              sm_buy_volume_usd_1m = 0, sm_sell_volume_usd_1m = 0\<rparr>"
  by (simp add: getSwapMetrics_def metrics_of_swaps_def select_swaps_def minutesAgo_def
      old_sell_def swap_step_def empty_acc_def snapshot_of_def add_if_truthy_def Set_add_def
      Set_size_def or_zero_def Let_def)

end
